theory Spec2Isabelle
  imports Main "HOL-Library.Word"
begin

section \<open>C strings and the GLib string helpers used by cockpitauth.c\<close>

text \<open>
  A C string is modelled by the list of its bytes before the terminating NUL, a
  \<open>GBytes\<close> buffer by the list of its bytes. A pointer into a string is the
  suffix that starts there; an offset is a \<open>nat\<close>.
\<close>

text \<open>\<open>str_skip\<close>: \<^verbatim>\<open>while (v[0] == c) v++; return v;\<close>\<close>

fun str_skip :: "string \<Rightarrow> char \<Rightarrow> string" where
  "str_skip [] c = []"
| "str_skip (x # v) c = (if x = c then str_skip v c else x # v)"

text \<open>\<open>strchr\<close> returns the offset of the first occurrence, \<open>None\<close> for NULL.\<close>

fun strchr :: "string \<Rightarrow> char \<Rightarrow> nat option" where
  "strchr [] c = None"
| "strchr (x # v) c = (if x = c then Some 0 else map_option Suc (strchr v c))"

definition g_strndup :: "string \<Rightarrow> nat \<Rightarrow> string" where
  "g_strndup s n = take n s"

definition g_str_has_prefix :: "string \<Rightarrow> string \<Rightarrow> bool" where
  "g_str_has_prefix s p = (take (length p) s = p)"

text \<open>\<open>g_ascii_tolower\<close> changes the bytes \<open>A\<close> .. \<open>Z\<close> only.\<close>

definition g_ascii_tolower :: "char \<Rightarrow> char" where
  "g_ascii_tolower c =
     (case map_of (zip ''ABCDEFGHIJKLMNOPQRSTUVWXYZ'' ''abcdefghijklmnopqrstuvwxyz'') c of
        Some l \<Rightarrow> l
      | None \<Rightarrow> c)"

text \<open>
  The loop \<^verbatim>\<open>for (i = 0; type[i] != '\0'; i++) type[i] = g_ascii_tolower (type[i]);\<close>
  of \<open>cockpit_auth_parse_authorization_type\<close>, started at index \<open>i\<close>.
\<close>

function tolower_loop :: "string \<Rightarrow> nat \<Rightarrow> string" where
  "tolower_loop t i =
     (if i < length t then tolower_loop (t[i := g_ascii_tolower (t ! i)]) (Suc i) else t)"
  by pat_completeness auto
termination
  by (relation "measure (\<lambda>(t, i). length t - i)") auto

declare tolower_loop.simps [simp del]

text \<open>
  \<open>g_strsplit (string, delimiter, max_tokens)\<close> for a one-byte delimiter: at most
  \<open>max_tokens - 1\<close> splits (no limit when \<open>max_tokens < 1\<close>), the last piece is
  the remainder, and the empty string gives the empty vector.
\<close>

fun strsplit_pieces :: "string \<Rightarrow> char \<Rightarrow> nat \<Rightarrow> string list" where
  "strsplit_pieces remainder d 0 = [remainder]"
| "strsplit_pieces remainder d (Suc n) =
     (case strchr remainder d of
        None \<Rightarrow> [remainder]
      | Some k \<Rightarrow> take k remainder # strsplit_pieces (drop (Suc k) remainder) d n)"

definition g_strsplit :: "string \<Rightarrow> char \<Rightarrow> nat \<Rightarrow> string list" where
  "g_strsplit s d max_tokens =
     (if s = [] then []
      else strsplit_pieces s d (if max_tokens < 1 then length s else max_tokens - 1))"


text \<open>
  \<open>g_base64_encode\<close>: RFC 4648 base64 with padding, without line breaks.
\<close>

definition base64_alphabet :: string where
  "base64_alphabet = ''ABCDEFGHIJKLMNOPQRSTUVWXYZabcdefghijklmnopqrstuvwxyz0123456789+/''"

definition base64_digit :: "nat \<Rightarrow> char" where
  "base64_digit n = base64_alphabet ! (n mod 64)"

fun g_base64_encode :: "string \<Rightarrow> string" where
  "g_base64_encode [] = []"
| "g_base64_encode [a] =
     (let x = (of_char a :: nat) in
      [base64_digit (x div 4), base64_digit ((x mod 4) * 16), CHR ''='', CHR ''=''])"
| "g_base64_encode [a, b] =
     (let x = (of_char a :: nat); y = (of_char b :: nat) in
      [base64_digit (x div 4), base64_digit ((x mod 4) * 16 + y div 16),
       base64_digit ((y mod 16) * 4), CHR ''=''])"
| "g_base64_encode (a # b # c # rest) =
     (let x = (of_char a :: nat); y = (of_char b :: nat); z = (of_char c :: nat) in
      [base64_digit (x div 4), base64_digit ((x mod 4) * 16 + y div 16),
       base64_digit ((y mod 16) * 4 + z div 64), base64_digit (z mod 64)]
      @ g_base64_encode rest)"

text \<open>A byte buffer read as a C string ends at its first NUL.\<close>

definition c_str :: "string \<Rightarrow> string" where
  "c_str bytes = takeWhile (\<lambda>c. c \<noteq> CHR 0x00) bytes"

section \<open>What the file takes from outside\<close>

text \<open>
  Functions and globals that cockpitauth.c calls and that live in other files or
  libraries are parameters of the model, collected in one record. \<open>'j\<close> is the type
  of a parsed \<open>JsonObject\<close>.
  \<^item> \<open>cockpit_conf_string section field\<close>: the configuration, \<open>None\<close> for NULL.
  \<^item> \<open>g_base64_decode_inplace text\<close>: \<open>None\<close> when GLib returns NULL, otherwise
    the decoded bytes (\<open>*out_len\<close> is their length).
  \<^item> \<open>g_compute_hmac seed\<close>: the hex HMAC-SHA-256 of the seed under \<open>self->key\<close>.
  \<^item> \<open>cockpit_json_parse_object\<close>: the three outcomes the callers tell apart.
  \<^item> \<open>cockpit_json_get_string obj name\<close>: \<open>None\<close> when it returns FALSE,
    \<open>Some None\<close> when the member is missing (the NULL default),
    \<open>Some (Some v)\<close> for a string member.
  \<^item> \<open>cockpit_hex_decode\<close>: \<open>None\<close> for NULL.
\<close>

datatype 'j json_parse = JsonParsed 'j | JsonInvalidData | JsonParseError

record 'j cockpit_env =
  cockpit_conf_string :: "string \<Rightarrow> string \<Rightarrow> string option"
  g_base64_decode_inplace :: "string \<Rightarrow> string option"
  g_compute_hmac :: "64 word \<Rightarrow> string"
  cockpit_json_parse_object :: "string \<Rightarrow> 'j json_parse"
  cockpit_json_get_string :: "'j \<Rightarrow> string \<Rightarrow> string option option"
  json_object_remove_member :: "'j \<Rightarrow> string \<Rightarrow> 'j"
  cockpit_hex_decode :: "string \<Rightarrow> string option"
  cockpit_ws_session_program :: string

section \<open>Data model\<close>

datatype error_code =
    COCKPIT_ERROR_AUTHENTICATION_FAILED
  | COCKPIT_ERROR_PERMISSION_DENIED
  | COCKPIT_ERROR_FAILED
  | G_IO_ERROR_INVALID_DATA

type_synonym gerror = "error_code \<times> string"

text \<open>
  The source tag of a \<open>GSimpleAsyncResult\<close> and of an \<open>AuthData\<close> is the address of
  the function that began the login.
\<close>

datatype method_tag =
    cockpit_auth_spawn_login_async_tag
  | cockpit_auth_remote_login_async_tag
  | cockpit_auth_none_login_async_tag

record cockpit_creds =
  cred_user :: string
  cred_application :: string
  cred_login_data :: "string option"
  cred_password :: "string option"
  cred_rhost :: "string option"
  cred_gssapi :: "string option"
  cred_csrf_token :: string

text \<open>
  A \<open>GBytes\<close>: its bytes, and the pointer that its free function is given when
  the last reference is dropped, as the offset of that pointer from the start of the
  allocation it points into (\<open>None\<close> for bytes without a free function).
\<close>

record gbytes =
  bytes_data :: string
  bytes_free_offset :: "nat option"

record spawn_login_data =
  process_in :: int
  process_out :: int
  process_pid :: int
  authorization :: gbytes
  remote_peer :: "string option"
  auth_type :: string
  application :: string
  command :: string

record ssh_transport =
  ssh_host :: string
  ssh_creds :: cockpit_creds
  ssh_closed :: "string option"

record remote_login_data =
  rl_creds :: cockpit_creds
  rl_transport :: ssh_transport
  has_transport_result :: bool

datatype login_data = SpawnLogin spawn_login_data | RemoteLogin remote_login_data

text \<open>
  The auth pipe is an object of another file. The model keeps its id, the messages
  written to it with \<open>cockpit_auth_pipe_answer\<close> (oldest first), and whether
  \<open>purge_auth_id\<close> is connected to its close signal. Its timers are left out.
\<close>

record cockpit_auth_pipe =
  pipe_id :: string
  logname :: string
  answers :: "string list"
  purge_on_close :: bool

text \<open>
  \<open>AuthData\<close>. \<open>pending_result\<close> says whether a result is attached; the reference
  count and the destroy function are memory management and are left out.
\<close>

record auth_data =
  auth_pipe :: cockpit_auth_pipe
  ad_id :: string
  response_data :: "string option"
  pending_result :: bool
  tag :: method_tag
  user_data :: login_data

datatype cockpit_transport =
    PipeTransport int int int
  | SshTransport ssh_transport

record cockpit_authenticated =
  cookie :: string
  creds :: cockpit_creds
  service :: "cockpit_transport option"
  timeout_tag :: bool

text \<open>
  \<open>CockpitAuth\<close>, together with the file's static \<open>gssapi_not_avail\<close>. The counters
  are \<open>guint\<close>, the nonce seed is \<open>guint64\<close>. \<open>undefined_behaviour\<close> is not a
  member of the struct: it records that the process has passed to \<open>g_free\<close> a pointer
  that is not the start of an allocation. From there on the C program has no defined
  behaviour; a function that runs into it is followed up to that statement and no
  further.
\<close>

record cockpit_auth =
  startups :: "32 word"
  max_startups :: "32 word"
  max_startups_begin :: "32 word"
  max_startups_rate :: "32 word"
  login_loopback :: bool
  nonce_seed :: "64 word"
  authenticated :: "string \<rightharpoonup> cockpit_authenticated"
  authentication_pending :: "string \<rightharpoonup> auth_data"
  gssapi_not_avail :: bool
  undefined_behaviour :: bool

text \<open>
  A \<open>GSimpleAsyncResult\<close>: its source tag, the \<open>AuthData\<close> set with
  \<open>g_simple_async_result_set_op_res_gpointer\<close>, and its error.
\<close>

record async_result =
  source_tag :: "method_tag option"
  op_res :: "auth_data option"
  res_error :: "gerror option"

definition cockpit_auth_nonce :: "'j cockpit_env \<Rightarrow> cockpit_auth \<Rightarrow> string \<times> cockpit_auth" where
  "cockpit_auth_nonce env self =
     (g_compute_hmac env (nonce_seed self), self\<lparr>nonce_seed := nonce_seed self + 1\<rparr>)"

text \<open>
  \<open>g_bytes_unref\<close> of the last reference calls the free function;
  \<open>clear_free_authorization\<close> passes its argument to \<open>g_free\<close>.
\<close>

definition g_bytes_unref :: "cockpit_auth \<Rightarrow> gbytes \<Rightarrow> cockpit_auth" where
  "g_bytes_unref self b =
     (case bytes_free_offset b of
        None \<Rightarrow> self
      | Some off \<Rightarrow> if off = 0 then self else self\<lparr>undefined_behaviour := True\<rparr>)"

definition purge_auth_id :: "cockpit_auth \<Rightarrow> cockpit_auth_pipe \<Rightarrow> cockpit_auth" where
  "purge_auth_id self pipe =
     self\<lparr>authentication_pending := (authentication_pending self)(pipe_id pipe := None)\<rparr>"

section \<open>The AuthHeader codec\<close>

text \<open>
  The request and response header tables are \<open>GHashTable\<close>s from header name to
  value. The table is passed by pointer, so every function that receives it returns
  the table it leaves behind.
\<close>

type_synonym headers = "string \<rightharpoonup> string"

definition cockpit_auth_parse_authorization_type :: "headers \<Rightarrow> string option \<times> headers" where
  "cockpit_auth_parse_authorization_type hdrs =
     (case hdrs ''Authorization'' of
        None \<Rightarrow> (None, hdrs)
      | Some line0 \<Rightarrow>
          (let line = str_skip line0 (CHR '' '') in
           case strchr line (CHR '' '') of
             None \<Rightarrow> (None, hdrs)
           | Some n \<Rightarrow> (Some (tolower_loop (g_strndup line n) 0), hdrs)))"

text \<open>
  \<open>cockpit_auth_parse_authorization\<close>: the entry is stolen from the table before
  the line is looked at, and the function owns the value from then on. After
  \<^verbatim>\<open>line = str_skip (line, ' ')\<close> the variable \<open>line\<close> is the only pointer to the
  value that is left, and it is the one that \<open>g_free\<close> receives on the two paths that
  return NULL and that the returned bytes keep for \<open>clear_free_authorization\<close>.
  \<open>off\<close> is its offset from the start of the value, the number of leading spaces.
  \<open>InvalidFree\<close> is the outcome of \<open>g_free\<close> on a pointer with an offset other
  than 0; the table given with it is the table at that statement.
\<close>

datatype authorization_result = InvalidFree | Returned "gbytes option"

definition cockpit_auth_parse_authorization ::
  "'j cockpit_env \<Rightarrow> headers \<Rightarrow> bool \<Rightarrow> authorization_result \<times> headers" where
  "cockpit_auth_parse_authorization env hdrs base64_decode =
     (case hdrs ''Authorization'' of
        None \<Rightarrow> (Returned None, hdrs)
      | Some line0 \<Rightarrow>
          (let hdrs' = hdrs(''Authorization'' := None);
               line = str_skip line0 (CHR '' '');
               off = length line0 - length line;
               free_line_return_null = (if off = 0 then Returned None else InvalidFree) in
           case strchr line (CHR '' '') of
             None \<Rightarrow> (free_line_return_null, hdrs')
           | Some n \<Rightarrow>
               (let contents = str_skip (drop n line) (CHR '' '') in
                if base64_decode
                then (case g_base64_decode_inplace env contents of
                        None \<Rightarrow> (free_line_return_null, hdrs')
                      | Some decoded \<Rightarrow>
                          (Returned (Some \<lparr>bytes_data = decoded,
                                           bytes_free_offset = Some off\<rparr>), hdrs'))
                else (Returned (Some \<lparr>bytes_data = contents,
                                      bytes_free_offset = Some off\<rparr>), hdrs'))))"

section \<open>Path to application\<close>

text \<open>
  \<open>auth_parse_application\<close>; \<open>None\<close> is the NULL that
  \<open>g_return_val_if_fail (path[0] == '/', NULL)\<close> returns.
\<close>

definition auth_parse_application :: "string \<Rightarrow> string option" where
  "auth_parse_application path0 =
     (case path0 of
        [] \<Rightarrow> None
      | c # path \<Rightarrow>
          if c \<noteq> CHR ''/'' then None
          else if g_str_has_prefix path ''cockpit+'' \<and> 8 < length path
          then (case strchr path (CHR ''/'') of
                  Some pos \<Rightarrow> Some (g_strndup path pos)
                | None \<Rightarrow> Some path)
          else Some ''cockpit'')"

definition cockpit_auth_parse_application :: "string \<Rightarrow> string option" where
  "cockpit_auth_parse_application path = auth_parse_application path"



section \<open>Login by spawning a command\<close>

definition type_option :: "'j cockpit_env \<Rightarrow> string \<Rightarrow> string \<Rightarrow> string \<Rightarrow> string" where
  "type_option env type opt default_str =
     (case cockpit_conf_string env type opt of Some v \<Rightarrow> v | None \<Rightarrow> default_str)"

text \<open>
  \<open>parse_basic_auth_password\<close> returns the password, the text after the first colon,
  and stores the text before it as the user; the model returns (user, password).
\<close>

definition parse_basic_auth_password :: "gbytes \<Rightarrow> (string \<times> string) option" where
  "parse_basic_auth_password input =
     (let data = c_str (bytes_data input) in
      case strchr data (CHR '':'') of
        None \<Rightarrow> None
      | Some k \<Rightarrow> Some (g_strndup data k, drop (Suc k) data))"

text \<open>\<open>g_hash_table_replace\<close> and \<open>g_hash_table_insert\<close> on a table that may be NULL.\<close>

definition g_hash_table_replace :: "headers option \<Rightarrow> string \<Rightarrow> string \<Rightarrow> headers option" where
  "g_hash_table_replace table k v = map_option (\<lambda>m. m(k \<mapsto> v)) table"

definition build_gssapi_output_header ::
  "'j cockpit_env \<Rightarrow> headers option \<Rightarrow> 'j option \<Rightarrow> headers option" where
  "build_gssapi_output_header env hdrs results =
     (case results of
        None \<Rightarrow> hdrs
      | Some r \<Rightarrow>
          (case cockpit_json_get_string env r ''gssapi-output'' of
             None \<Rightarrow> hdrs
           | Some None \<Rightarrow> hdrs
           | Some (Some output) \<Rightarrow>
               (case cockpit_hex_decode env output of
                  None \<Rightarrow> hdrs
                | Some data \<Rightarrow>
                    if data \<noteq> []
                    then g_hash_table_replace hdrs ''WWW-Authenticate''
                           (''Negotiate '' @ g_base64_encode data)
                    else g_hash_table_replace hdrs ''WWW-Authenticate'' ''Negotiate'')))"

definition create_creds_for_spawn_authenticated ::
  "'j cockpit_env \<Rightarrow> cockpit_auth \<Rightarrow> string \<Rightarrow> spawn_login_data \<Rightarrow> 'j \<Rightarrow> string
     \<Rightarrow> cockpit_creds \<times> cockpit_auth" where
  "create_creds_for_spawn_authenticated env self user sl results raw_data =
     (let password =
            (if auth_type sl = ''basic''
             then map_option snd (parse_basic_auth_password (authorization sl))
             else None);
          gssapi_creds =
            (case cockpit_json_get_string env results ''gssapi-creds'' of
               None \<Rightarrow> None
             | Some v \<Rightarrow> v);
          (csrf_token, self') = cockpit_auth_nonce env self
      in (\<lparr>cred_user = user, cred_application = application sl,
           cred_login_data = Some raw_data, cred_password = password,
           cred_rhost = remote_peer sl, cred_gssapi = gssapi_creds,
           cred_csrf_token = csrf_token\<rparr>, self'))"

text \<open>
  \<open>parse_cockpit_spawn_results\<close>. \<open>want_prompt\<close> says that the \<open>prompt_data\<close>
  out-parameter is not NULL. A NULL \<open>message\<close> is printed by \<open>%s\<close> as \<open>(null)\<close>.
\<close>

record 'j spawn_results =
  sr_creds :: "cockpit_creds option"
  sr_prompt_data :: "'j option"
  sr_error :: "gerror option"
  sr_headers :: "headers option"
  sr_self :: cockpit_auth

definition spawn_error_results ::
  "cockpit_auth \<Rightarrow> spawn_login_data \<Rightarrow> string \<Rightarrow> string option \<Rightarrow> gerror \<times> cockpit_auth" where
  "spawn_error_results self sl error_str message =
     (if error_str = ''authentication-unavailable'' \<and> auth_type sl = ''negotiate''
      then ((COCKPIT_ERROR_AUTHENTICATION_FAILED, ''Negotiate authentication not available''),
            self\<lparr>gssapi_not_avail := True\<rparr>)
      else if error_str = ''authentication-failed'' \<or> error_str = ''authentication-unavailable''
      then ((COCKPIT_ERROR_AUTHENTICATION_FAILED, ''Authentication failed''), self)
      else if error_str = ''permission-denied''
      then ((COCKPIT_ERROR_PERMISSION_DENIED, ''Permission denied''), self)
      else ((COCKPIT_ERROR_FAILED,
             ''Authentication failed: '' @ error_str @ '': ''
               @ (case message of None \<Rightarrow> ''(null)'' | Some m \<Rightarrow> m)), self))"

definition parse_cockpit_spawn_results ::
  "'j cockpit_env \<Rightarrow> cockpit_auth \<Rightarrow> spawn_login_data \<Rightarrow> string option \<Rightarrow> headers option
     \<Rightarrow> bool \<Rightarrow> 'j spawn_results" where
  "parse_cockpit_spawn_results env self sl response hdrs want_prompt =
     (let parsed = map_option (cockpit_json_parse_object env) response;
          results = (case parsed of Some (JsonParsed r) \<Rightarrow> Some r | _ \<Rightarrow> None);
          out0 = \<lparr>sr_creds = None, sr_prompt_data = None, sr_error = None,
                  sr_headers = hdrs, sr_self = self\<rparr>;
          out =
            (if parsed = Some JsonInvalidData
             then out0\<lparr>sr_error :=
                    Some (G_IO_ERROR_INVALID_DATA, ''Login user name is not UTF8 encoded'')\<rparr>
             else case results of
               None \<Rightarrow> out0\<lparr>sr_error :=
                    Some (G_IO_ERROR_INVALID_DATA, ''Authentication failed: no results'')\<rparr>
             | Some r \<Rightarrow>
                 if cockpit_json_get_string env r ''error'' = None
                    \<or> cockpit_json_get_string env r ''message'' = None
                    \<or> cockpit_json_get_string env r ''prompt'' = None
                 then out0\<lparr>sr_error :=
                    Some (G_IO_ERROR_INVALID_DATA, ''Authentication failed: invalid results'')\<rparr>
                 else
                   (let error_str = the (cockpit_json_get_string env r ''error'');
                        message = the (cockpit_json_get_string env r ''message'');
                        prompt = the (cockpit_json_get_string env r ''prompt'')
                    in if prompt \<noteq> None \<and> want_prompt
                       then out0\<lparr>sr_prompt_data := Some r, sr_error :=
                              Some (COCKPIT_ERROR_AUTHENTICATION_FAILED, ''X-Login-Reply needed'')\<rparr>
                       else (case error_str of
                               None \<Rightarrow>
                                 (case cockpit_json_get_string env r ''user'' of
                                    Some (Some user) \<Rightarrow>
                                      (let (c, self') = create_creds_for_spawn_authenticated
                                                          env self user sl r (the response)
                                       in out0\<lparr>sr_creds := Some c, sr_self := self'\<rparr>)
                                  | _ \<Rightarrow> out0\<lparr>sr_error :=
                                      Some (G_IO_ERROR_INVALID_DATA,
                                            ''Authentication failed: missing user'')\<rparr>)
                             | Some e \<Rightarrow>
                                 (let (err, self') = spawn_error_results self sl e message
                                  in out0\<lparr>sr_error := Some err, sr_self := self'\<rparr>))))
      in out\<lparr>sr_headers := build_gssapi_output_header env (sr_headers out) results\<rparr>)"

text \<open>
  The helper's events reach the \<open>AuthData\<close> of a pending login, which the
  attached result holds as its \<open>op_res\<close>; the handlers are functions on that result.
  \<open>auth_data_complete_result\<close> without a pending result only logs a message.
\<close>

definition auth_data_complete_result :: "async_result \<Rightarrow> gerror option \<Rightarrow> async_result" where
  "auth_data_complete_result res err =
     (case op_res res of
        None \<Rightarrow> res
      | Some ad \<Rightarrow>
          if pending_result ad
          then res\<lparr>op_res := Some (ad\<lparr>pending_result := False\<rparr>),
                   res_error := (case err of None \<Rightarrow> res_error res | Some e \<Rightarrow> Some e)\<rparr>
          else res)"

definition on_auth_pipe_result :: "async_result \<Rightarrow> string \<Rightarrow> async_result" where
  "on_auth_pipe_result res message =
     (case op_res res of
        None \<Rightarrow> res
      | Some ad \<Rightarrow>
          if response_data ad \<noteq> None then res
          else auth_data_complete_result
                 (res\<lparr>op_res :=
                        Some (ad\<lparr>response_data :=
                                    Some (g_strndup (c_str message) (length message))\<rparr>)\<rparr>)
                 None)"

definition on_spawn_auth_pipe_close :: "async_result \<Rightarrow> gerror option \<Rightarrow> async_result" where
  "on_spawn_auth_pipe_close res err =
     (case op_res res of
        None \<Rightarrow> res
      | Some ad \<Rightarrow>
          if err \<noteq> None \<or> pending_result ad then auth_data_complete_result res err else res)"

text \<open>
  \<open>cockpit_auth_prepare_login_reply\<close>. The callers pass an object whose
  \<open>prompt\<close> member is a string; for any other object the C code reads a NULL
  string, which the model reports as \<open>None\<close>.
\<close>

definition cockpit_auth_prepare_login_reply ::
  "'j cockpit_env \<Rightarrow> cockpit_auth \<Rightarrow> 'j \<Rightarrow> headers option \<Rightarrow> auth_data
     \<Rightarrow> (cockpit_auth \<times> 'j \<times> headers option) option" where
  "cockpit_auth_prepare_login_reply env self prompt_data hdrs ad =
     (if pending_result ad then Some (self, prompt_data, hdrs)
      else case cockpit_json_get_string env prompt_data ''prompt'' of
        Some (Some prompt) \<Rightarrow>
          (let hdrs' = g_hash_table_replace hdrs ''WWW-Authenticate''
                         (''X-Login-Reply '' @ ad_id ad @ '' '' @ g_base64_encode prompt);
               ad' = ad\<lparr>auth_pipe := (auth_pipe ad)\<lparr>purge_on_close := True\<rparr>\<rparr>;
               self' = self\<lparr>authentication_pending :=
                              (authentication_pending self)(ad_id ad \<mapsto> ad')\<rparr>
           in Some (self', json_object_remove_member env prompt_data ''prompt'', hdrs'))
      | _ \<Rightarrow> None)"



text \<open>
  \<open>cockpit_auth_spawn_login_async\<close>. \<open>spawned\<close> is what
  \<open>g_spawn_async_with_pipes\<close> does: \<open>Some (pid, in, out)\<close> when the helper
  started, \<open>None\<close> when it did not. When \<open>cockpit_auth_parse_authorization\<close>
  frees an invalid pointer the function is left there, with the result object as
  \<open>g_simple_async_result_new\<close> made it. The \<open>g_bytes_unref (input)\<close> at the end
  drops the last reference when no \<open>SpawnLoginData\<close> took one.
\<close>

definition cockpit_auth_spawn_login_async ::
  "'j cockpit_env \<Rightarrow> cockpit_auth \<Rightarrow> string option \<Rightarrow> string \<Rightarrow> bool \<Rightarrow> headers
     \<Rightarrow> string option \<Rightarrow> (int \<times> int \<times> int) option
     \<Rightarrow> cockpit_auth \<times> async_result \<times> headers" where
  "cockpit_auth_spawn_login_async env self app type decode_header hdrs peer spawned =
     (let cmd = type_option env type ''command'' (cockpit_ws_session_program env);
          (parsed, hdrs') = cockpit_auth_parse_authorization env hdrs decode_header
      in case parsed of
        InvalidFree \<Rightarrow>
          (self\<lparr>undefined_behaviour := True\<rparr>,
           \<lparr>source_tag = Some cockpit_auth_spawn_login_async_tag, op_res = None,
            res_error = None\<rparr>, hdrs')
      | Returned input0 \<Rightarrow>
          (let input = (if input0 = None \<and> \<not> gssapi_not_avail self \<and> type = ''negotiate''
                        then Some \<lparr>bytes_data = [], bytes_free_offset = None\<rparr>
                        else input0)
           in case input of
             None \<Rightarrow>
               (self,
                \<lparr>source_tag = Some cockpit_auth_spawn_login_async_tag, op_res = None,
                 res_error = Some (COCKPIT_ERROR_AUTHENTICATION_FAILED,
                                   ''Authentication required'')\<rparr>,
                hdrs')
           | Some inp \<Rightarrow>
               (case app of
                  None \<Rightarrow>
                    (g_bytes_unref self inp,
                     \<lparr>source_tag = Some cockpit_auth_spawn_login_async_tag, op_res = None,
                      res_error = Some (COCKPIT_ERROR_AUTHENTICATION_FAILED,
                                        ''Authentication required'')\<rparr>,
                     hdrs')
                | Some a \<Rightarrow>
                    (let (nonce, self') = cockpit_auth_nonce env self;
                         pipe = \<lparr>pipe_id = nonce, logname = cmd, answers = [],
                                 purge_on_close = False\<rparr>;
                         sl = \<lparr>process_in = -1, process_out = -1, process_pid = 0,
                               authorization = inp, remote_peer = peer, auth_type = type,
                               application = a, command = cmd\<rparr>;
                         ad = \<lparr>auth_pipe = pipe, ad_id = nonce, response_data = None,
                               pending_result = False,
                               tag = cockpit_auth_spawn_login_async_tag,
                               user_data = SpawnLogin sl\<rparr>
                     in case spawned of
                       Some (pid, fd_in, fd_out) \<Rightarrow>
                         (self',
                          \<lparr>source_tag = Some cockpit_auth_spawn_login_async_tag,
                           op_res = Some (ad\<lparr>auth_pipe := pipe\<lparr>answers := [bytes_data inp]\<rparr>,
                                             pending_result := True,
                                             user_data := SpawnLogin
                                               (sl\<lparr>process_pid := pid, process_in := fd_in,
                                                   process_out := fd_out\<rparr>)\<rparr>),
                           res_error = None\<rparr>, hdrs')
                     | None \<Rightarrow>
                         (self',
                          \<lparr>source_tag = Some cockpit_auth_spawn_login_async_tag,
                           op_res = Some ad,
                           res_error = Some (COCKPIT_ERROR_FAILED,
                                             ''Internal error starting '' @ cmd)\<rparr>,
                          hdrs')))))"

text \<open>
  What a \<open>login_finish\<close> function hands back: the credentials it returns, the
  out-parameters, the error, and the tables it leaves behind. A result of \<open>None\<close>
  stands for a NULL pointer followed by the C code (undefined behaviour).
\<close>

record 'j finish_out =
  out_creds :: "cockpit_creds option"
  out_prompt_data :: "'j option"
  out_transport :: "cockpit_transport option"
  out_error :: "gerror option"
  out_headers :: "headers option"
  out_self :: cockpit_auth

text \<open>
  \<open>cockpit_auth_spawn_login_finish\<close>. The \<open>AuthData\<close> of a finished result stays
  reachable only through the pending table, where \<open>prepare_login_reply\<close> put it; its
  \<open>response_data\<close> is cleared at the end. The SIGTERM sent to a child that gave
  neither credentials nor a prompt leaves the tables as they are.
\<close>

definition cockpit_auth_spawn_login_finish ::
  "'j cockpit_env \<Rightarrow> cockpit_auth \<Rightarrow> async_result \<Rightarrow> headers option \<Rightarrow> bool \<Rightarrow> bool
     \<Rightarrow> 'j finish_out option" where
  "cockpit_auth_spawn_login_finish env self res hdrs want_prompt want_transport =
     (case res_error res of
        Some e \<Rightarrow>
          Some \<lparr>out_creds = None, out_prompt_data = None, out_transport = None,
                out_error = Some e, out_headers = hdrs, out_self = self\<rparr>
      | None \<Rightarrow>
          (case op_res res of
             None \<Rightarrow> None
           | Some ad \<Rightarrow>
               (case user_data ad of
                  RemoteLogin rl \<Rightarrow> None
                | SpawnLogin sl \<Rightarrow>
                    (let sr = parse_cockpit_spawn_results env self sl (response_data ad)
                                hdrs want_prompt
                     in case sr_creds sr of
                       Some c \<Rightarrow>
                         Some \<lparr>out_creds = Some c, out_prompt_data = sr_prompt_data sr,
                               out_transport =
                                 (if want_transport
                                  then Some (PipeTransport (process_pid sl) (process_out sl)
                                               (process_in sl))
                                  else None),
                               out_error = sr_error sr, out_headers = sr_headers sr,
                               out_self = sr_self sr\<rparr>
                     | None \<Rightarrow>
                         (case sr_prompt_data sr of
                            Some pd \<Rightarrow>
                              (case cockpit_auth_prepare_login_reply env (sr_self sr) pd
                                      (sr_headers sr) (ad\<lparr>response_data := None\<rparr>) of
                                 None \<Rightarrow> None
                               | Some (self', pd', hdrs') \<Rightarrow>
                                   Some \<lparr>out_creds = None, out_prompt_data = Some pd',
                                         out_transport = None, out_error = sr_error sr,
                                         out_headers = hdrs', out_self = self'\<rparr>)
                          | None \<Rightarrow>
                              Some \<lparr>out_creds = None, out_prompt_data = None,
                                    out_transport = None, out_error = sr_error sr,
                                    out_headers = sr_headers sr, out_self = sr_self sr\<rparr>)))))"



section \<open>Remote login over ssh\<close>

definition parse_ssh_prompt_results ::
  "'j cockpit_env \<Rightarrow> string \<Rightarrow> 'j option \<times> gerror" where
  "parse_ssh_prompt_results env response =
     (case cockpit_json_parse_object env response of
        JsonInvalidData \<Rightarrow> (None, (G_IO_ERROR_INVALID_DATA, ''Data is not UTF8 encoded''))
      | JsonParseError \<Rightarrow>
          (None, (G_IO_ERROR_INVALID_DATA, ''Authentication failed: no results''))
      | JsonParsed r \<Rightarrow>
          (case cockpit_json_get_string env r ''prompt'' of
             None \<Rightarrow> (None, (G_IO_ERROR_INVALID_DATA, ''Authentication failed: invalid results''))
           | Some None \<Rightarrow>
               (None, (G_IO_ERROR_INVALID_DATA, ''Authentication failed: missing prompt''))
           | Some (Some prompt) \<Rightarrow>
               (Some r, (COCKPIT_ERROR_AUTHENTICATION_FAILED, ''X-Login-Reply needed''))))"

text \<open>
  \<open>cockpit_auth_remote_login_async\<close>. The function does not release \<open>input\<close>.
\<close>

definition cockpit_auth_remote_login_async ::
  "'j cockpit_env \<Rightarrow> cockpit_auth \<Rightarrow> string option \<Rightarrow> string \<Rightarrow> headers \<Rightarrow> string option
     \<Rightarrow> cockpit_auth \<times> async_result \<times> headers" where
  "cockpit_auth_remote_login_async env self app type hdrs peer =
     (let (parsed, hdrs') = cockpit_auth_parse_authorization env hdrs True;
          found =
            (case (app, parsed) of
               (Some a, Returned (Some inp)) \<Rightarrow>
                 if type = ''basic''
                 then map_option (\<lambda>(user, password). (a, user, password))
                        (parse_basic_auth_password inp)
                 else None
             | _ \<Rightarrow> None)
      in if parsed = InvalidFree
         then (self\<lparr>undefined_behaviour := True\<rparr>,
               \<lparr>source_tag = Some cockpit_auth_remote_login_async_tag, op_res = None,
                res_error = None\<rparr>, hdrs')
         else case found of
        Some (a, user, password) \<Rightarrow>
          (let (csrf_token, self1) = cockpit_auth_nonce env self;
               c = \<lparr>cred_user = user, cred_application = a, cred_login_data = None,
                    cred_password = Some password, cred_rhost = peer, cred_gssapi = None,
                    cred_csrf_token = csrf_token\<rparr>;
               (nonce, self2) = cockpit_auth_nonce env self1;
               pipe = \<lparr>pipe_id = nonce, logname = ''ssh (localhost)'', answers = [],
                       purge_on_close = False\<rparr>;
               rl = \<lparr>rl_creds = c,
                     rl_transport = \<lparr>ssh_host = type_option env ''remote-login-ssh'' ''host''
                                                  ''127.0.0.1'',
                                     ssh_creds = c, ssh_closed = None\<rparr>,
                     has_transport_result = False\<rparr>;
               ad = \<lparr>auth_pipe = pipe, ad_id = nonce, response_data = None,
                     pending_result = True, tag = cockpit_auth_remote_login_async_tag,
                     user_data = RemoteLogin rl\<rparr>
           in (self2,
               \<lparr>source_tag = Some cockpit_auth_remote_login_async_tag, op_res = Some ad,
                res_error = None\<rparr>, hdrs'))
      | None \<Rightarrow>
          (self,
           \<lparr>source_tag = Some cockpit_auth_remote_login_async_tag, op_res = None,
            res_error = Some (COCKPIT_ERROR_AUTHENTICATION_FAILED,
                              ''Basic authentication required'')\<rparr>, hdrs'))"

text \<open>
  \<open>on_remote_login_done\<close>: \<open>pw_result\<close> is the entry for \<open>password\<close> in the
  transport's table of per-method results.
\<close>

definition on_remote_login_done ::
  "async_result \<Rightarrow> string option \<Rightarrow> string option \<Rightarrow> async_result" where
  "on_remote_login_done res problem pw_result =
     (case op_res res of
        None \<Rightarrow> res
      | Some ad \<Rightarrow>
          (case user_data ad of
             SpawnLogin sl \<Rightarrow> res
           | RemoteLogin rl \<Rightarrow>
               (let err =
                      (case problem of
                         None \<Rightarrow> None
                       | Some pr \<Rightarrow>
                           if pr = ''authentication-failed''
                           then (if pw_result = None \<or> pw_result = Some ''no-server-support''
                                 then Some (COCKPIT_ERROR_AUTHENTICATION_FAILED,
                                            ''Authentication failed: authentication-not-supported'')
                                 else Some (COCKPIT_ERROR_AUTHENTICATION_FAILED,
                                            ''Authentication failed''))
                           else if pr = ''terminated''
                           then Some (COCKPIT_ERROR_AUTHENTICATION_FAILED,
                                      ''Authentication failed: terminated'')
                           else Some (COCKPIT_ERROR_FAILED,
                                      ''Couldn't connect or authenticate: '' @ pr))
                in auth_data_complete_result
                     (res\<lparr>op_res := Some (ad\<lparr>user_data :=
                              RemoteLogin (rl\<lparr>has_transport_result := True\<rparr>)\<rparr>)\<rparr>) err)))"

text \<open>
  \<open>cockpit_auth_remote_login_finish\<close>. As in the spawn case the \<open>AuthData\<close> that
  goes into the pending table is the one whose \<open>response_data\<close> the function clears
  before it returns. Closing the transport after a malformed prompt leaves the tables
  as they are.
\<close>

definition cockpit_auth_remote_login_finish ::
  "'j cockpit_env \<Rightarrow> cockpit_auth \<Rightarrow> async_result \<Rightarrow> headers option \<Rightarrow> bool \<Rightarrow> bool
     \<Rightarrow> 'j finish_out option" where
  "cockpit_auth_remote_login_finish env self res hdrs want_prompt want_transport =
     (case res_error res of
        Some e \<Rightarrow>
          Some \<lparr>out_creds = None, out_prompt_data = None, out_transport = None,
                out_error = Some e, out_headers = hdrs, out_self = self\<rparr>
      | None \<Rightarrow>
          (case op_res res of
             None \<Rightarrow> None
           | Some ad \<Rightarrow>
               (case user_data ad of
                  SpawnLogin sl \<Rightarrow> None
                | RemoteLogin rl \<Rightarrow>
                    if has_transport_result rl
                    then Some \<lparr>out_creds = Some (rl_creds rl), out_prompt_data = None,
                               out_transport =
                                 (if want_transport then Some (SshTransport (rl_transport rl))
                                  else None),
                               out_error = None, out_headers = hdrs, out_self = self\<rparr>
                    else
                      (case response_data ad of
                         None \<Rightarrow> None
                       | Some response \<Rightarrow>
                           (case parse_ssh_prompt_results env response of
                              (None, err) \<Rightarrow>
                                Some \<lparr>out_creds = None, out_prompt_data = None,
                                      out_transport = None, out_error = Some err,
                                      out_headers = hdrs, out_self = self\<rparr>
                            | (Some results, err) \<Rightarrow>
                                if want_prompt
                                then (case cockpit_auth_prepare_login_reply env self results
                                             hdrs (ad\<lparr>response_data := None\<rparr>) of
                                        None \<Rightarrow> None
                                      | Some (self', pd', hdrs') \<Rightarrow>
                                          Some \<lparr>out_creds = None, out_prompt_data = Some pd',
                                                out_transport = None, out_error = Some err,
                                                out_headers = hdrs', out_self = self'\<rparr>)
                                else Some \<lparr>out_creds = None, out_prompt_data = None,
                                           out_transport = None, out_error = Some err,
                                           out_headers = hdrs, out_self = self\<rparr>)))))"



section \<open>No login, resumed login, and the choice of a method\<close>

definition cockpit_auth_none_login_async ::
  "cockpit_auth \<Rightarrow> headers \<Rightarrow> cockpit_auth \<times> async_result \<times> headers" where
  "cockpit_auth_none_login_async self hdrs =
     (self,
      \<lparr>source_tag = Some cockpit_auth_none_login_async_tag, op_res = None,
       res_error = Some (COCKPIT_ERROR_AUTHENTICATION_FAILED, ''Authentication disabled'')\<rparr>,
      hdrs)"

definition cockpit_auth_none_login_finish ::
  "cockpit_auth \<Rightarrow> async_result \<Rightarrow> headers option \<Rightarrow> 'j finish_out option" where
  "cockpit_auth_none_login_finish self res hdrs =
     Some \<lparr>out_creds = None, out_prompt_data = None, out_transport = None,
           out_error = res_error res, out_headers = hdrs, out_self = self\<rparr>"

text \<open>
  \<open>cockpit_auth_resume_async\<close>. \<open>auth_data_add_pending_result\<close> attaches the new
  result, \<open>cockpit_auth_pipe_answer\<close> appends to what the pipe was sent.
\<close>

definition cockpit_auth_resume_async ::
  "'j cockpit_env \<Rightarrow> cockpit_auth \<Rightarrow> headers \<Rightarrow> cockpit_auth \<times> async_result \<times> headers" where
  "cockpit_auth_resume_async env self hdrs =
     (let parts = map_option (\<lambda>header. g_strsplit header (CHR '' '') 3) (hdrs ''Authorization'');
          found =
            (case parts of
               None \<Rightarrow> None
             | Some ps \<Rightarrow>
                 if length ps = 3 then authentication_pending self (ps ! 1) else None)
      in case found of
        None \<Rightarrow>
          (self,
           \<lparr>source_tag = Some cockpit_auth_none_login_async_tag, op_res = None,
            res_error = Some (COCKPIT_ERROR_AUTHENTICATION_FAILED, ''Invalid resume token'')\<rparr>,
           hdrs)
      | Some ad0 \<Rightarrow>
          (let ps = the parts;
               ad = ad0\<lparr>auth_pipe := (auth_pipe ad0)\<lparr>purge_on_close := False\<rparr>\<rparr>;
               self' = self\<lparr>authentication_pending :=
                              (authentication_pending self)(ps ! 1 := None)\<rparr>;
               decoded = g_base64_decode_inplace env (ps ! 2)
           in if decoded = None \<or> length (the decoded) < 1
              then (self',
                    \<lparr>source_tag = Some (tag ad), op_res = Some ad,
                     res_error = Some (COCKPIT_ERROR_AUTHENTICATION_FAILED,
                                       ''Invalid resume token'')\<rparr>, hdrs)
              else (self',
                    \<lparr>source_tag = Some (tag ad),
                     op_res = Some (ad\<lparr>pending_result := True,
                                       auth_pipe := (auth_pipe ad)
                                         \<lparr>answers := answers (auth_pipe ad) @ [the decoded]\<rparr>\<rparr>),
                     res_error = None\<rparr>, hdrs)))"

definition action_for_type :: "'j cockpit_env \<Rightarrow> string \<Rightarrow> bool \<Rightarrow> string" where
  "action_for_type env type force_ssh =
     (if type = ''x-login-reply'' then ''x-login-reply''
      else if force_ssh \<and> type = ''basic'' then ''remote-login-ssh''
      else if cockpit_conf_string env type ''action'' \<noteq> None
      then the (cockpit_conf_string env type ''action'')
      else if type = ''basic'' \<or> type = ''negotiate'' then ''spawn-login-with-decoded''
      else ''none'')"

text \<open>The type that \<open>cockpit_auth_choose_login_async\<close> works with.\<close>

definition login_type :: "headers \<Rightarrow> string" where
  "login_type hdrs =
     (case fst (cockpit_auth_parse_authorization_type hdrs) of
        None \<Rightarrow> ''negotiate''
      | Some t \<Rightarrow> t)"

definition cockpit_auth_choose_login_async ::
  "'j cockpit_env \<Rightarrow> cockpit_auth \<Rightarrow> string \<Rightarrow> headers \<Rightarrow> string option
     \<Rightarrow> (int \<times> int \<times> int) option \<Rightarrow> cockpit_auth \<times> async_result \<times> headers" where
  "cockpit_auth_choose_login_async env self path hdrs peer spawned =
     (let app = cockpit_auth_parse_application path;
          type = login_type hdrs;
          action = action_for_type env type (login_loopback self)
      in if action = ''spawn-login-with-header''
         then cockpit_auth_spawn_login_async env self app type False hdrs peer spawned
         else if action = ''spawn-login-with-decoded''
         then cockpit_auth_spawn_login_async env self app type True hdrs peer spawned
         else if action = ''remote-login-ssh''
         then cockpit_auth_remote_login_async env self app type hdrs peer
         else if action = ''x-login-reply''
         then cockpit_auth_resume_async env self hdrs
         else cockpit_auth_none_login_async self hdrs)"

text \<open>
  \<open>g_simple_async_result_is_valid\<close> accepts a result whose source tag is NULL for
  every tag asked for.
\<close>

definition g_simple_async_result_is_valid :: "async_result \<Rightarrow> method_tag \<Rightarrow> bool" where
  "g_simple_async_result_is_valid res t = (source_tag res = None \<or> source_tag res = Some t)"

definition cockpit_auth_choose_login_finish ::
  "'j cockpit_env \<Rightarrow> cockpit_auth \<Rightarrow> async_result \<Rightarrow> headers option \<Rightarrow> bool \<Rightarrow> bool
     \<Rightarrow> 'j finish_out option" where
  "cockpit_auth_choose_login_finish env self res hdrs want_prompt want_transport =
     (if g_simple_async_result_is_valid res cockpit_auth_spawn_login_async_tag
      then cockpit_auth_spawn_login_finish env self res hdrs want_prompt want_transport
      else if g_simple_async_result_is_valid res cockpit_auth_remote_login_async_tag
      then cockpit_auth_remote_login_finish env self res hdrs want_prompt want_transport
      else if g_simple_async_result_is_valid res cockpit_auth_none_login_async_tag
      then cockpit_auth_none_login_finish self res hdrs
      else Some \<lparr>out_creds = None, out_prompt_data = None, out_transport = None,
                 out_error = None, out_headers = hdrs, out_self = self\<rparr>)"

section \<open>Admission and the manager's entry points\<close>

text \<open>
  \<open>can_start_auth\<close>. The counters are unsigned and \<open>p\<close> is an \<open>int\<close>: each
  compound assignment computes in \<open>unsigned int\<close> and stores the bits, so \<open>p\<close> is
  followed as a 32-bit word and read as signed only in the comparison. \<open>r\<close> is the
  value that \<open>g_random_int_range (0, 100)\<close> draws.
\<close>

definition can_start_auth :: "cockpit_auth \<Rightarrow> int \<Rightarrow> bool" where
  "can_start_auth self r =
     (if max_startups self = 0 then True
      else if startups self \<le> max_startups_begin self then True
      else if startups self > max_startups self then False
      else if max_startups_rate self = 100 then False
      else (let p0 = 100 - max_startups_rate self;
                p1 = p0 * (startups self - max_startups_begin self);
                p2 = p1 div (max_startups self - max_startups_begin self);
                p3 = p2 + max_startups_rate self
            in \<not> r < sint p3))"

definition cockpit_auth_login_async ::
  "'j cockpit_env \<Rightarrow> cockpit_auth \<Rightarrow> string \<Rightarrow> headers \<Rightarrow> string option \<Rightarrow> int
     \<Rightarrow> (int \<times> int \<times> int) option \<Rightarrow> cockpit_auth \<times> async_result \<times> headers" where
  "cockpit_auth_login_async env self path hdrs peer r spawned =
     (let self' = self\<lparr>startups := startups self + 1\<rparr>
      in if can_start_auth self' r
         then cockpit_auth_choose_login_async env self' path hdrs peer spawned
         else (self',
               \<lparr>source_tag = None, op_res = None,
                res_error = Some (COCKPIT_ERROR_FAILED, ''Connection closed by host'')\<rparr>,
               hdrs))"

definition cockpit_authenticated_destroy ::
  "cockpit_auth \<Rightarrow> cockpit_authenticated \<Rightarrow> cockpit_auth" where
  "cockpit_authenticated_destroy self session =
     self\<lparr>authenticated := (authenticated self)(cookie session := None)\<rparr>"

text \<open>
  \<open>cockpit_auth_login_finish\<close>. The flags are kept as the set of the bits that are
  on. The function returns the prompt object when there are no credentials and the
  credentials as JSON otherwise. \<open>set_cookie_header\<close> is its
  \<^verbatim>\<open>g_strdup_printf ("%s=%s; Path=/; %s HttpOnly", application, cookie_b64,
  force_secure ? " Secure;" : "")\<close>.
\<close>

datatype cockpit_auth_flag = COCKPIT_AUTH_COOKIE_INSECURE

datatype 'j login_return = PromptData "'j option" | CredsJson cockpit_creds

record 'j login_finish_out =
  lf_return :: "'j login_return"
  lf_error :: "gerror option"
  lf_headers :: "headers option"
  lf_self :: cockpit_auth

definition set_cookie_header :: "string \<Rightarrow> string \<Rightarrow> bool \<Rightarrow> string" where
  "set_cookie_header app cookie_b64 force_secure =
     app @ ''='' @ cookie_b64 @ ''; Path=/; ''
       @ (if force_secure then '' Secure;'' else []) @ '' HttpOnly''"

definition cockpit_auth_login_finish ::
  "'j cockpit_env \<Rightarrow> cockpit_auth \<Rightarrow> async_result \<Rightarrow> cockpit_auth_flag set \<Rightarrow> headers option
     \<Rightarrow> 'j login_finish_out option" where
  "cockpit_auth_login_finish env self res flags hdrs =
     (case cockpit_auth_choose_login_finish env self res hdrs True True of
        None \<Rightarrow> None
      | Some fo \<Rightarrow>
          (let self1 = (out_self fo)\<lparr>startups := startups (out_self fo) - 1\<rparr>
           in case out_creds fo of
             None \<Rightarrow>
               Some \<lparr>lf_return = PromptData (out_prompt_data fo), lf_error = out_error fo,
                     lf_headers = out_headers fo, lf_self = self1\<rparr>
           | Some c \<Rightarrow>
               (let (nonce, self2) = cockpit_auth_nonce env self1;
                    session = \<lparr>cookie = ''v=2;k='' @ nonce, creds = c,
                               service = out_transport fo, timeout_tag = True\<rparr>;
                    self3 = self2\<lparr>authenticated :=
                                   (authenticated self2)(cookie session \<mapsto> session)\<rparr>;
                    force_secure = (COCKPIT_AUTH_COOKIE_INSECURE \<notin> flags);
                    hdrs' = map_option
                              (\<lambda>m. m(''Set-Cookie'' \<mapsto>
                                      set_cookie_header (cred_application c)
                                        (g_base64_encode (cookie session)) force_secure))
                              (out_headers fo)
                in Some \<lparr>lf_return = CredsJson c, lf_error = out_error fo,
                         lf_headers = hdrs', lf_self = self3\<rparr>)))"



section \<open>A concrete environment\<close>

text \<open>
  To run the model on concrete requests the parameters are instantiated: JSON objects
  are lists of members whose values are strings, booleans or null; the parser knows
  the texts of a given list of objects; base64 decoding follows GLib
  (\<open>g_base64_decode_step\<close> skips bytes outside the alphabet, and
  \<open>g_base64_decode_inplace\<close> refuses texts of length at most one); the nonce of
  seed \<open>n\<close> is entry \<open>n mod 8\<close> of a fixed list.
\<close>

datatype json_node = JsonString string | JsonBool bool | JsonNull

type_synonym json_object = "(string \<times> json_node) list"

definition json_quote :: "string \<Rightarrow> string" where
  "json_quote s = CHR 0x22 # s @ [CHR 0x22]"

fun json_node_text :: "json_node \<Rightarrow> string" where
  "json_node_text (JsonString s) = json_quote s"
| "json_node_text (JsonBool b) = (if b then ''true'' else ''false'')"
| "json_node_text JsonNull = ''null''"

fun json_members_text :: "json_object \<Rightarrow> string" where
  "json_members_text [] = []"
| "json_members_text [(k, v)] = json_quote k @ '':'' @ json_node_text v"
| "json_members_text ((k, v) # m # ms) =
     json_quote k @ '':'' @ json_node_text v @ '','' @ json_members_text (m # ms)"

definition json_text :: "json_object \<Rightarrow> string" where
  "json_text obj = ''{'' @ json_members_text obj @ ''}''"

definition test_json_parse :: "json_object list \<Rightarrow> string \<Rightarrow> json_object json_parse" where
  "test_json_parse known s =
     (case find (\<lambda>obj. json_text obj = s) known of
        Some obj \<Rightarrow> JsonParsed obj
      | None \<Rightarrow> JsonParseError)"

definition test_json_get_string :: "json_object \<Rightarrow> string \<Rightarrow> string option option" where
  "test_json_get_string obj name =
     (case map_of obj name of
        None \<Rightarrow> Some None
      | Some (JsonString s) \<Rightarrow> Some (Some s)
      | Some _ \<Rightarrow> None)"

definition test_json_remove_member :: "json_object \<Rightarrow> string \<Rightarrow> json_object" where
  "test_json_remove_member obj name = filter (\<lambda>(k, v). k \<noteq> name) obj"

definition base64_rank :: "char \<Rightarrow> nat option" where
  "base64_rank c = (if c = CHR ''='' then Some 0 else strchr base64_alphabet c)"

fun base64_decode_step :: "string \<Rightarrow> 32 word \<Rightarrow> nat \<Rightarrow> char \<Rightarrow> string" where
  "base64_decode_step [] v i last0 = []"
| "base64_decode_step (c # cs) v i last0 =
     (case base64_rank c of
        None \<Rightarrow> base64_decode_step cs v i last0
      | Some rank \<Rightarrow>
          (let v' = push_bit 6 v + of_nat rank in
           if i = 3
           then [char_of (unat (drop_bit 16 v'))]
                @ (if last0 \<noteq> CHR ''='' then [char_of (unat (drop_bit 8 v'))] else [])
                @ (if c \<noteq> CHR ''='' then [char_of (unat v')] else [])
                @ base64_decode_step cs v' 0 c
           else base64_decode_step cs v' (Suc i) c))"

definition test_base64_decode_inplace :: "string \<Rightarrow> string option" where
  "test_base64_decode_inplace text =
     (if length text \<le> 1 then None else Some (base64_decode_step text 0 0 (CHR 0x00)))"

definition test_nonces :: "string list" where
  "test_nonces = [''5f2b'', ''a91c'', ''07de'', ''c3b0'', ''48e1'', ''d6a7'', ''1b9f'', ''e254'']"

definition test_env :: "json_object list \<Rightarrow> json_object cockpit_env" where
  "test_env known =
     \<lparr>cockpit_conf_string = (\<lambda>section field. None),
      g_base64_decode_inplace = test_base64_decode_inplace,
      g_compute_hmac = (\<lambda>seed. test_nonces ! (unat seed mod 8)),
      cockpit_json_parse_object = test_json_parse known,
      cockpit_json_get_string = test_json_get_string,
      json_object_remove_member = test_json_remove_member,
      cockpit_hex_decode = (\<lambda>s. None),
      cockpit_ws_session_program = ''cockpit-session''\<rparr>"

definition test_auth :: cockpit_auth where
  "test_auth =
     \<lparr>startups = 0, max_startups = 10, max_startups_begin = 10, max_startups_rate = 100,
      login_loopback = False, nonce_seed = 1, authenticated = Map.empty,
      authentication_pending = Map.empty, gssapi_not_avail = False,
      undefined_behaviour = False\<rparr>"



text \<open>A configuration with an action for the type \<open>bearer\<close>.\<close>

definition bearer_env :: "json_object cockpit_env" where
  "bearer_env =
     (test_env [])\<lparr>cockpit_conf_string :=
        (\<lambda>section field.
           if section = ''bearer'' \<and> field = ''action''
           then Some ''spawn-login-with-header'' else None)\<rparr>"

text \<open>The manager with given admission counters: startups, begin, max, rate.\<close>

definition throttle :: "32 word \<Rightarrow> 32 word \<Rightarrow> 32 word \<Rightarrow> 32 word \<Rightarrow> cockpit_auth" where
  "throttle s b m rate =
     test_auth\<lparr>startups := s, max_startups_begin := b, max_startups := m,
               max_startups_rate := rate\<rparr>"

text \<open>
  Replies of a helper, as the parser of the concrete environment knows them, and the
  state of a spawned login of a given type.
\<close>

definition test_replies :: "json_object list" where
  "test_replies =
     [[(''user'', JsonString ''user'')],
      [(''prompt'', JsonString ''Token?'')],
      [(''error'', JsonString ''authentication-failed''), (''message'', JsonString ''bad'')],
      [(''error'', JsonString ''authentication-unavailable''), (''message'', JsonString ''none'')],
      [(''error'', JsonString ''permission-denied''), (''message'', JsonString ''no'')],
      [(''error'', JsonString ''permission-denied''), (''prompt'', JsonString ''Password'')],
      [(''error'', JsonString ''permission-denied''), (''message'', JsonBool True)],
      [(''error'', JsonString ''broken''), (''message'', JsonString ''oops'')]]"

definition test_sl :: "string \<Rightarrow> spawn_login_data" where
  "test_sl type =
     \<lparr>process_in = 5, process_out = 6, process_pid = 42,
      authorization = \<lparr>bytes_data = ''user:pwd'', bytes_free_offset = Some 0\<rparr>,
      remote_peer = Some ''peer'', auth_type = type, application = ''cockpit'',
      command = ''cockpit-session''\<rparr>"

text \<open>
  A manager with one prompted login in its pending table, as
  \<open>cockpit_auth_prepare_login_reply\<close> leaves it.
\<close>

definition test_ad :: auth_data where
  "test_ad =
     \<lparr>auth_pipe = \<lparr>pipe_id = ''a91c'', logname = ''cockpit-session'', answers = [''user:pwd''],
                   purge_on_close = True\<rparr>,
      ad_id = ''a91c'', response_data = None, pending_result = False,
      tag = cockpit_auth_spawn_login_async_tag, user_data = SpawnLogin (test_sl ''basic'')\<rparr>"

definition test_prompted :: cockpit_auth where
  "test_prompted = test_auth\<lparr>nonce_seed := 2, authentication_pending := [''a91c'' \<mapsto> test_ad]\<rparr>"

text \<open>The completed result of the spawned login \<open>test_ad\<close> with a given reply.\<close>

definition test_result :: "json_object \<Rightarrow> async_result" where
  "test_result reply =
     \<lparr>source_tag = Some cockpit_auth_spawn_login_async_tag,
      op_res = Some (test_ad\<lparr>response_data := Some (json_text reply)\<rparr>),
      res_error = None\<rparr>"

section \<open>The specification's words as definitions\<close>

text \<open>
  The first space-delimited token of an \<open>Authorization\<close> value after leading spaces,
  the payload after that token and the spaces that follow it, and the presence of a
  space after the token.
\<close>

definition authorization_token :: "string \<Rightarrow> string" where
  "authorization_token line =
     takeWhile (\<lambda>c. c \<noteq> CHR '' '') (dropWhile (\<lambda>c. c = CHR '' '') line)"

definition authorization_payload :: "string \<Rightarrow> string" where
  "authorization_payload line =
     dropWhile (\<lambda>c. c = CHR '' '')
       (dropWhile (\<lambda>c. c \<noteq> CHR '' '') (dropWhile (\<lambda>c. c = CHR '' '') line))"

definition has_space_delimiter :: "string \<Rightarrow> bool" where
  "has_space_delimiter line = (CHR '' '' \<in> set (dropWhile (\<lambda>c. c = CHR '' '') line))"

text \<open>The number of spaces an \<open>Authorization\<close> value begins with.\<close>

definition leading_spaces :: "string \<Rightarrow> nat" where
  "leading_spaces line = length (takeWhile (\<lambda>c. c = CHR '' '') line)"

text \<open>
  The method chooser as a list of rules, the first rule whose condition holds giving
  the action.
\<close>

definition chooser_rules ::
  "(string \<Rightarrow> string \<Rightarrow> string option) \<Rightarrow> string \<Rightarrow> bool \<Rightarrow> (bool \<times> string) list" where
  "chooser_rules conf type loopback =
     [(type = ''x-login-reply'', ''x-login-reply''),
      (loopback \<and> type = ''basic'', ''remote-login-ssh''),
      (conf type ''action'' \<noteq> None, the (conf type ''action'')),
      (type = ''basic'' \<or> type = ''negotiate'', ''spawn-login-with-decoded'')]"

fun first_match :: "(bool \<times> 'a) list \<Rightarrow> 'a \<Rightarrow> 'a" where
  "first_match [] d = d"
| "first_match ((c, a) # rules) d = (if c then a else first_match rules d)"

text \<open>
  The application of a request path: its first segment when that segment is
  \<open>cockpit+\<close> followed by a suffix that is not empty, and \<open>cockpit\<close> otherwise.
\<close>

definition first_segment :: "string \<Rightarrow> string" where
  "first_segment path = takeWhile (\<lambda>c. c \<noteq> CHR ''/'') (drop 1 path)"

definition spec_parse_path :: "string \<Rightarrow> string" where
  "spec_parse_path path =
     (let seg = first_segment path in
      if take 8 seg = ''cockpit+'' \<and> 8 < length seg then seg else ''cockpit'')"

text \<open>
  The parts of a text that single spaces separate, and base64 text as RFC 4648 has
  it: a multiple of four characters of the alphabet, the last one or two of which may
  be the padding \<open>=\<close>.
\<close>

fun space_separated :: "string \<Rightarrow> string list" where
  "space_separated [] = [[]]"
| "space_separated (c # cs) =
     (case space_separated cs of
        [] \<Rightarrow> [[c]]
      | w # ws \<Rightarrow> if c = CHR '' '' then [] # w # ws else (c # w) # ws)"

definition valid_base64 :: "string \<Rightarrow> bool" where
  "valid_base64 s =
     (length s mod 4 = 0
      \<and> list_all (\<lambda>c. c \<in> set base64_alphabet) (takeWhile (\<lambda>c. c \<noteq> CHR ''='') s)
      \<and> dropWhile (\<lambda>c. c \<noteq> CHR ''='') s \<in> {[], ''='', ''==''})"

text \<open>The error of a resume request that is refused.\<close>

definition invalid_resume_token :: gerror where
  "invalid_resume_token = (COCKPIT_ERROR_AUTHENTICATION_FAILED, ''Invalid resume token'')"

text \<open>
  The \<open>Set-Cookie\<close> value as the specification writes it, and the cookie of the
  session that the last \<open>cockpit_auth_nonce\<close> of a manager named.
\<close>

definition spec_set_cookie :: "string \<Rightarrow> string \<Rightarrow> bool \<Rightarrow> string" where
  "spec_set_cookie app cookie_b64 secure =
     app @ ''='' @ cookie_b64 @ ''; Path=/; ''
       @ (if secure then ''Secure; '' else []) @ ''HttpOnly''"

definition session_cookie :: "'j cockpit_env \<Rightarrow> cockpit_auth \<Rightarrow> string" where
  "session_cookie env self = ''v=2;k='' @ g_compute_hmac env (nonce_seed self - 1)"

text \<open>
  A result that the finish functions can read: it carries an error, or the
  \<open>AuthData\<close> of the method that its tag names, and for a remote login either the
  transport's result or a reply of the helper.
\<close>

definition result_complete :: "async_result \<Rightarrow> bool" where
  "result_complete res =
     (res_error res \<noteq> None
      \<or> (case op_res res of
            None \<Rightarrow> False
          | Some ad \<Rightarrow>
              (case user_data ad of
                 SpawnLogin sl \<Rightarrow> source_tag res = Some cockpit_auth_spawn_login_async_tag
               | RemoteLogin rl \<Rightarrow>
                   source_tag res = Some cockpit_auth_remote_login_async_tag
                   \<and> (has_transport_result rl \<or> response_data ad \<noteq> None))))"

section \<open>Properties of the string helpers\<close>

lemma str_skip_dropWhile: "str_skip s c = dropWhile (\<lambda>x. x = c) s"
  by (induction s) auto

lemma strchr_eq:
  "strchr s c = (if c \<in> set s then Some (length (takeWhile (\<lambda>x. x \<noteq> c) s)) else None)"
  by (induction s) auto

lemma take_length_takeWhile: "take (length (takeWhile P s)) s = takeWhile P s"
  by (simp add: takeWhile_eq_take [symmetric])

lemma drop_length_takeWhile: "drop (length (takeWhile P s)) s = dropWhile P s"
  by (simp add: dropWhile_eq_drop [symmetric])

lemma tolower_loop_eq:
  "tolower_loop t i = take i t @ map g_ascii_tolower (drop i t)"
proof (induction t i rule: tolower_loop.induct)
  case (1 t i)
  show ?case
  proof (cases "i < length t")
    case True
    have "tolower_loop t i = tolower_loop (t[i := g_ascii_tolower (t ! i)]) (Suc i)"
      using True by (subst tolower_loop.simps) simp
    also have "\<dots> = take (Suc i) (t[i := g_ascii_tolower (t ! i)])
                     @ map g_ascii_tolower (drop (Suc i) (t[i := g_ascii_tolower (t ! i)]))"
      using 1 True by simp
    also have "\<dots> = take i t @ map g_ascii_tolower (drop i t)"
      using True by (simp add: take_Suc_conv_app_nth Cons_nth_drop_Suc [symmetric])
    finally show ?thesis .
  next
    case False
    then show ?thesis by (subst tolower_loop.simps) simp
  qed
qed

section \<open>The AuthHeader codec: type and payload\<close>

lemma parse_authorization_type_snd:
  "snd (cockpit_auth_parse_authorization_type hdrs) = hdrs"
  by (simp add: cockpit_auth_parse_authorization_type_def Let_def split: option.splits)

lemma parse_authorization_type_token:
  "hdrs ''Authorization'' = Some line \<Longrightarrow> has_space_delimiter line \<Longrightarrow>
     fst (cockpit_auth_parse_authorization_type hdrs)
       = Some (map g_ascii_tolower (authorization_token line))"
  by (simp add: cockpit_auth_parse_authorization_type_def Let_def str_skip_dropWhile
        strchr_eq has_space_delimiter_def authorization_token_def g_strndup_def
        tolower_loop_eq take_length_takeWhile)

lemma parse_authorization_type_absent:
  "hdrs ''Authorization'' = None \<Longrightarrow> fst (cockpit_auth_parse_authorization_type hdrs) = None"
  by (simp add: cockpit_auth_parse_authorization_type_def)

lemma parse_authorization_type_malformed:
  "hdrs ''Authorization'' = Some line \<Longrightarrow> \<not> has_space_delimiter line \<Longrightarrow>
     fst (cockpit_auth_parse_authorization_type hdrs) = None"
  by (simp add: cockpit_auth_parse_authorization_type_def Let_def str_skip_dropWhile
        strchr_eq has_space_delimiter_def)

text \<open>
  C9: \<open>cockpit_auth_parse_authorization_type\<close> leaves the header table as it was,
  and for an \<open>Authorization\<close> value that has a space after its first token it returns
  that token, taken after the leading spaces, in lower case.
\<close>

theorem parse_authorization_type_frame:
  "snd (cockpit_auth_parse_authorization_type hdrs) = hdrs
   \<and> (\<forall>line. hdrs ''Authorization'' = Some line \<and> has_space_delimiter line \<longrightarrow>
         fst (cockpit_auth_parse_authorization_type hdrs)
           = Some (map g_ascii_tolower (authorization_token line)))"
  using parse_authorization_type_snd parse_authorization_type_token by blast

theorem parse_authorization_type_frame_witness:
  "snd (cockpit_auth_parse_authorization_type
          [''Host'' \<mapsto> ''localhost'', ''Authorization'' \<mapsto> ''  BaSic dXNlcjpwd2Q=''])
     = [''Host'' \<mapsto> ''localhost'', ''Authorization'' \<mapsto> ''  BaSic dXNlcjpwd2Q='']
   \<and> has_space_delimiter ''  BaSic dXNlcjpwd2Q=''
   \<and> fst (cockpit_auth_parse_authorization_type
          [''Host'' \<mapsto> ''localhost'', ''Authorization'' \<mapsto> ''  BaSic dXNlcjpwd2Q=''])
     = Some ''basic''"
  using parse_authorization_type_frame
          [of "[''Host'' \<mapsto> ''localhost'', ''Authorization'' \<mapsto> ''  BaSic dXNlcjpwd2Q='']"]
  by (simp add: has_space_delimiter_def authorization_token_def g_ascii_tolower_def)

lemma length_minus_dropWhile:
  "length s - length (dropWhile P s) = length (takeWhile P s)"
proof -
  have "length (takeWhile P s) + length (dropWhile P s) = length s"
    by (metis length_append takeWhile_dropWhile_id)
  then show ?thesis by linarith
qed

lemma length_le_dropWhile:
  "length s \<le> length (dropWhile P s) \<longleftrightarrow> takeWhile P s = []"
  using length_minus_dropWhile [of s P] by (metis diff_is_0_eq length_0_conv)

lemma leading_spaces_0: "leading_spaces line = 0 \<longleftrightarrow> take 1 line \<noteq> '' ''"
  by (cases line) (auto simp add: leading_spaces_def)

lemma parse_authorization_snd:
  "snd (cockpit_auth_parse_authorization env hdrs dec) = hdrs(''Authorization'' := None)"
  by (cases "hdrs ''Authorization''")
     (auto simp: cockpit_auth_parse_authorization_def Let_def split: option.splits)

lemma parse_authorization_absent:
  "hdrs ''Authorization'' = None
     \<Longrightarrow> fst (cockpit_auth_parse_authorization env hdrs dec) = Returned None"
  by (simp add: cockpit_auth_parse_authorization_def)

lemma parse_authorization_malformed:
  "hdrs ''Authorization'' = Some line \<Longrightarrow> \<not> has_space_delimiter line
     \<Longrightarrow> fst (cockpit_auth_parse_authorization env hdrs dec)
           = (if leading_spaces line = 0 then Returned None else InvalidFree)"
  by (simp add: cockpit_auth_parse_authorization_def str_skip_dropWhile strchr_eq
        has_space_delimiter_def leading_spaces_def length_minus_dropWhile
        length_le_dropWhile)

lemma parse_authorization_payload:
  "hdrs ''Authorization'' = Some line \<Longrightarrow> has_space_delimiter line
     \<Longrightarrow> fst (cockpit_auth_parse_authorization env hdrs dec)
           = (if dec
              then (case g_base64_decode_inplace env (authorization_payload line) of
                      None \<Rightarrow> if leading_spaces line = 0 then Returned None else InvalidFree
                    | Some decoded \<Rightarrow>
                        Returned (Some \<lparr>bytes_data = decoded,
                                        bytes_free_offset = Some (leading_spaces line)\<rparr>))
              else Returned (Some \<lparr>bytes_data = authorization_payload line,
                                   bytes_free_offset = Some (leading_spaces line)\<rparr>))"
  by (simp add: cockpit_auth_parse_authorization_def str_skip_dropWhile strchr_eq
        has_space_delimiter_def authorization_payload_def drop_length_takeWhile Let_def
        leading_spaces_def length_minus_dropWhile length_le_dropWhile
        split: option.splits)

lemma parse_authorization_cases:
  "fst (cockpit_auth_parse_authorization env hdrs dec)
     = (case hdrs ''Authorization'' of
          None \<Rightarrow> Returned None
        | Some line \<Rightarrow>
            if \<not> has_space_delimiter line
               \<or> (dec \<and> g_base64_decode_inplace env (authorization_payload line) = None)
            then (if leading_spaces line = 0 then Returned None else InvalidFree)
            else Returned (Some \<lparr>bytes_data =
                                    (if dec
                                     then the (g_base64_decode_inplace env
                                                 (authorization_payload line))
                                     else authorization_payload line),
                                  bytes_free_offset = Some (leading_spaces line)\<rparr>))"
proof (cases "hdrs ''Authorization''")
  case None
  then show ?thesis by (simp add: parse_authorization_absent)
next
  case (Some line)
  show ?thesis
  proof (cases "has_space_delimiter line")
    case True
    then show ?thesis
      using Some parse_authorization_payload [of hdrs line env dec]
      by (auto split: option.splits)
  next
    case False
    then show ?thesis
      using Some parse_authorization_malformed [of hdrs line env dec] by simp
  qed
qed

text \<open>
  C7: \<open>cockpit_auth_parse_authorization\<close> removes the \<open>Authorization\<close> entry and
  leaves every other entry alone. For a value that does not begin with a space it
  returns nothing exactly when the header is absent, or the value has no space after
  the type token, or base64 decoding was asked for and fails, and otherwise the payload
  that follows the type token and the spaces after it (decoded when decoding was
  asked for). For a value that begins with a space the pointer that is freed is the one
  moved past the leading spaces: where the claim has the function return nothing,
  \<open>g_free\<close> is given a pointer into the middle of the value, as on the value
  \<open>" Basic"\<close>; where it has the function return the payload, the bytes returned
  carry that pointer for their free function, and releasing them is the same invalid free.
\<close>

theorem parse_authorization_invalid_free:
  "snd (cockpit_auth_parse_authorization env hdrs dec) = hdrs(''Authorization'' := None)
   \<and> (fst (cockpit_auth_parse_authorization env hdrs dec) = InvalidFree \<longleftrightarrow>
        (\<exists>line. hdrs ''Authorization'' = Some line \<and> take 1 line = '' ''
           \<and> (\<not> has_space_delimiter line
                \<or> (dec \<and> g_base64_decode_inplace env (authorization_payload line) = None))))
   \<and> (fst (cockpit_auth_parse_authorization env hdrs dec) = Returned None \<longleftrightarrow>
        (hdrs ''Authorization'' = None
         \<or> (\<exists>line. hdrs ''Authorization'' = Some line \<and> take 1 line \<noteq> '' ''
               \<and> (\<not> has_space_delimiter line
                    \<or> (dec \<and> g_base64_decode_inplace env (authorization_payload line)
                               = None)))))
   \<and> (\<forall>line. hdrs ''Authorization'' = Some line \<and> has_space_delimiter line
         \<and> (dec \<longrightarrow> g_base64_decode_inplace env (authorization_payload line) \<noteq> None) \<longrightarrow>
         fst (cockpit_auth_parse_authorization env hdrs dec)
           = Returned (Some \<lparr>bytes_data =
                               (if dec
                                then the (g_base64_decode_inplace env
                                            (authorization_payload line))
                                else authorization_payload line),
                             bytes_free_offset = Some (leading_spaces line)\<rparr>))
   \<and> (\<forall>b :: gbytes. \<forall>off. bytes_free_offset b = Some off \<longrightarrow>
         (undefined_behaviour (g_bytes_unref self b)
            \<longleftrightarrow> undefined_behaviour self \<or> off \<noteq> 0))
   \<and> cockpit_auth_parse_authorization env [''Authorization'' \<mapsto> '' Basic''] dec
       = (InvalidFree, Map.empty)"
proof (intro conjI allI impI)
  show "snd (cockpit_auth_parse_authorization env hdrs dec) = hdrs(''Authorization'' := None)"
    by (rule parse_authorization_snd)
next
  show "fst (cockpit_auth_parse_authorization env hdrs dec) = InvalidFree \<longleftrightarrow>
        (\<exists>line. hdrs ''Authorization'' = Some line \<and> take 1 line = '' ''
           \<and> (\<not> has_space_delimiter line
                \<or> (dec \<and> g_base64_decode_inplace env (authorization_payload line) = None)))"
    by (cases "hdrs ''Authorization''")
       (simp_all add: parse_authorization_cases leading_spaces_0)
next
  show "fst (cockpit_auth_parse_authorization env hdrs dec) = Returned None \<longleftrightarrow>
        (hdrs ''Authorization'' = None
         \<or> (\<exists>line. hdrs ''Authorization'' = Some line \<and> take 1 line \<noteq> '' ''
               \<and> (\<not> has_space_delimiter line
                    \<or> (dec \<and> g_base64_decode_inplace env (authorization_payload line)
                               = None))))"
    by (cases "hdrs ''Authorization''")
       (simp_all add: parse_authorization_cases leading_spaces_0)
next
  fix line
  assume "hdrs ''Authorization'' = Some line \<and> has_space_delimiter line
         \<and> (dec \<longrightarrow> g_base64_decode_inplace env (authorization_payload line) \<noteq> None)"
  then show "fst (cockpit_auth_parse_authorization env hdrs dec)
           = Returned (Some \<lparr>bytes_data =
                               (if dec
                                then the (g_base64_decode_inplace env
                                            (authorization_payload line))
                                else authorization_payload line),
                             bytes_free_offset = Some (leading_spaces line)\<rparr>)"
    by (simp add: parse_authorization_cases)
next
  fix b :: gbytes and off
  assume "bytes_free_offset b = Some off"
  then show "undefined_behaviour (g_bytes_unref self b)
               \<longleftrightarrow> undefined_behaviour self \<or> off \<noteq> 0"
    by (simp add: g_bytes_unref_def)
next
  have "cockpit_auth_parse_authorization env [''Authorization'' \<mapsto> '' Basic''] dec
          = (fst (cockpit_auth_parse_authorization env [''Authorization'' \<mapsto> '' Basic''] dec),
             snd (cockpit_auth_parse_authorization env [''Authorization'' \<mapsto> '' Basic''] dec))"
    by simp
  also have "\<dots> = (InvalidFree, Map.empty)"
    by (simp add: parse_authorization_cases parse_authorization_snd has_space_delimiter_def
          leading_spaces_def)
  finally show "cockpit_auth_parse_authorization env [''Authorization'' \<mapsto> '' Basic''] dec
       = (InvalidFree, Map.empty)" .
qed

theorem parse_authorization_invalid_free_witness:
  "snd (cockpit_auth_parse_authorization (test_env [])
          [''Host'' \<mapsto> ''localhost'', ''Authorization'' \<mapsto> ''Basic  dXNlcjpwd2Q=''] True)
     = [''Host'' \<mapsto> ''localhost'']
   \<and> has_space_delimiter ''Basic  dXNlcjpwd2Q=''
   \<and> fst (cockpit_auth_parse_authorization (test_env [])
          [''Host'' \<mapsto> ''localhost'', ''Authorization'' \<mapsto> ''Basic  dXNlcjpwd2Q=''] True)
     = Returned (Some \<lparr>bytes_data = ''user:pwd'', bytes_free_offset = Some 0\<rparr>)
   \<and> fst (cockpit_auth_parse_authorization (test_env [])
          [''Host'' \<mapsto> ''localhost'', ''Authorization'' \<mapsto> ''Basic''] False)
     = Returned None
   \<and> fst (cockpit_auth_parse_authorization (test_env [])
          [''Host'' \<mapsto> ''localhost'', ''Authorization'' \<mapsto> '' Basic''] False)
     = InvalidFree
   \<and> fst (cockpit_auth_parse_authorization (test_env [])
          [''Host'' \<mapsto> ''localhost'', ''Authorization'' \<mapsto> '' Basic dXNlcjpwd2Q=''] True)
     = Returned (Some \<lparr>bytes_data = ''user:pwd'', bytes_free_offset = Some 1\<rparr>)
   \<and> undefined_behaviour
       (g_bytes_unref test_auth \<lparr>bytes_data = ''user:pwd'', bytes_free_offset = Some 1\<rparr>)
   \<and> \<not> undefined_behaviour
       (g_bytes_unref test_auth \<lparr>bytes_data = ''user:pwd'', bytes_free_offset = Some 0\<rparr>)"
proof -
  let ?h = "[''Host'' \<mapsto> ''localhost'', ''Authorization'' \<mapsto> ''Basic  dXNlcjpwd2Q='']"
  let ?g = "[''Host'' \<mapsto> ''localhost'', ''Authorization'' \<mapsto> ''Basic'']"
  let ?f = "[''Host'' \<mapsto> ''localhost'', ''Authorization'' \<mapsto> '' Basic'']"
  let ?k = "[''Host'' \<mapsto> ''localhost'', ''Authorization'' \<mapsto> '' Basic dXNlcjpwd2Q='']"
  have d: "has_space_delimiter ''Basic  dXNlcjpwd2Q=''"
          "has_space_delimiter '' Basic dXNlcjpwd2Q=''"
          "\<not> has_space_delimiter ''Basic''" "\<not> has_space_delimiter '' Basic''"
    by (simp_all add: has_space_delimiter_def)
  have p: "authorization_payload ''Basic  dXNlcjpwd2Q='' = ''dXNlcjpwd2Q=''"
          "authorization_payload '' Basic dXNlcjpwd2Q='' = ''dXNlcjpwd2Q=''"
    by (simp_all add: authorization_payload_def)
  have l: "leading_spaces ''Basic  dXNlcjpwd2Q='' = 0"
          "leading_spaces '' Basic dXNlcjpwd2Q='' = 1"
    by (simp_all add: leading_spaces_def)
  have b: "g_base64_decode_inplace (test_env []) ''dXNlcjpwd2Q='' = Some ''user:pwd''"
    by (simp add: test_env_def test_base64_decode_inplace_def base64_rank_def
          base64_alphabet_def char_of_eq_iff)
  have m: "?h(''Authorization'' := None) = [''Host'' \<mapsto> ''localhost'']"
    by (rule ext) simp
  have u: "undefined_behaviour test_auth = False"
    by (simp add: test_auth_def)
  have 1: "snd (cockpit_auth_parse_authorization (test_env []) ?h True)
             = [''Host'' \<mapsto> ''localhost'']"
          "fst (cockpit_auth_parse_authorization (test_env []) ?h True)
             = Returned (Some \<lparr>bytes_data = ''user:pwd'', bytes_free_offset = Some 0\<rparr>)"
    using parse_authorization_invalid_free [of "test_env []" ?h True test_auth] d p l b m
    by simp_all
  have 2: "fst (cockpit_auth_parse_authorization (test_env []) ?g False) = Returned None"
    using parse_authorization_invalid_free [of "test_env []" ?g False test_auth] d
    by simp
  have 3: "fst (cockpit_auth_parse_authorization (test_env []) ?f False) = InvalidFree"
    using parse_authorization_invalid_free [of "test_env []" ?f False test_auth] d
    by simp
  have 4: "fst (cockpit_auth_parse_authorization (test_env []) ?k True)
             = Returned (Some \<lparr>bytes_data = ''user:pwd'', bytes_free_offset = Some 1\<rparr>)"
    using parse_authorization_invalid_free [of "test_env []" ?k True test_auth] d p l b
    by simp
  have 5: "undefined_behaviour
       (g_bytes_unref test_auth \<lparr>bytes_data = ''user:pwd'', bytes_free_offset = Some 1\<rparr>)"
       "\<not> undefined_behaviour
       (g_bytes_unref test_auth \<lparr>bytes_data = ''user:pwd'', bytes_free_offset = Some 0\<rparr>)"
    using parse_authorization_invalid_free [of "test_env []" ?h True test_auth] u
    by simp_all
  show ?thesis
    using 1 2 3 4 5 d by simp
qed



section \<open>Path to application\<close>

lemma has_prefix_cockpit:
  "g_str_has_prefix p ''cockpit+'' \<longleftrightarrow> take 8 p = ''cockpit+''"
  by (simp add: g_str_has_prefix_def eval_nat_numeral)

lemma takeWhile_all: "c \<notin> set s \<Longrightarrow> takeWhile (\<lambda>x. x \<noteq> c) s = s"
  by (induction s) auto

lemma take_takeWhile_le:
  "n \<le> length (takeWhile P p) \<Longrightarrow> take n (takeWhile P p) = take n p"
  by (metis append_eq_conv_conj takeWhile_dropWhile_id take_append diff_is_0_eq' take_0
        append_Nil2)

lemma parse_application_cockpit_plus:
  assumes "c \<noteq> CHR ''/''"
  shows "auth_parse_application (''/cockpit+'' @ c # rest)
           = Some (''cockpit+'' @ c # takeWhile (\<lambda>x. x \<noteq> CHR ''/'') rest)"
    and "spec_parse_path (''/cockpit+'' @ c # rest)
           = ''cockpit+'' @ c # takeWhile (\<lambda>x. x \<noteq> CHR ''/'') rest"
  using assms
  by (simp_all add: auth_parse_application_def has_prefix_cockpit strchr_eq g_strndup_def
        spec_parse_path_def first_segment_def take_length_takeWhile takeWhile_all)

lemma parse_application_other:
  assumes "\<not> (take 8 p = ''cockpit+'' \<and> 8 < length p)"
  shows "auth_parse_application (CHR ''/'' # p) = Some ''cockpit''"
    and "spec_parse_path (CHR ''/'' # p) = ''cockpit''"
proof -
  show "auth_parse_application (CHR ''/'' # p) = Some ''cockpit''"
    using assms by (auto simp add: auth_parse_application_def has_prefix_cockpit)
  have "\<not> (take 8 (takeWhile (\<lambda>c. c \<noteq> CHR ''/'') p) = ''cockpit+''
           \<and> 8 < length (takeWhile (\<lambda>c. c \<noteq> CHR ''/'') p))"
  proof
    assume a: "take 8 (takeWhile (\<lambda>c. c \<noteq> CHR ''/'') p) = ''cockpit+''
           \<and> 8 < length (takeWhile (\<lambda>c. c \<noteq> CHR ''/'') p)"
    then have "take 8 p = ''cockpit+''"
      using take_takeWhile_le [of 8 "\<lambda>c. c \<noteq> CHR ''/''" p] by simp
    moreover have "8 < length p"
      using a length_takeWhile_le [of "\<lambda>c. c \<noteq> CHR ''/''" p] by linarith
    ultimately show False using assms by simp
  qed
  then show "spec_parse_path (CHR ''/'' # p) = ''cockpit''"
    by (auto simp add: spec_parse_path_def first_segment_def Let_def)
qed

text \<open>
  Away from paths that begin with \<open>/cockpit+/\<close> the function returns the
  application of the path as the specification words it.
\<close>

lemma parse_application_agrees:
  assumes "take 9 p \<noteq> ''cockpit+/''"
  shows "auth_parse_application (CHR ''/'' # p) = Some (spec_parse_path (CHR ''/'' # p))"
proof (cases "take 8 p = ''cockpit+'' \<and> 8 < length p")
  case True
  then have "p = ''cockpit+'' @ drop 8 p" by (metis append_take_drop_id)
  moreover obtain c rest where cr: "drop 8 p = c # rest"
    using True by (cases "drop 8 p") auto
  ultimately have p: "p = ''cockpit+'' @ c # rest" by simp
  have "c \<noteq> CHR ''/''" using assms p by auto
  then show ?thesis
    using parse_application_cockpit_plus [of c rest] p by simp
next
  case False
  then show ?thesis using parse_application_other [of p] by simp
qed

text \<open>
  C8: the application of a path is its first segment when that segment is
  \<open>cockpit+\<close> with a suffix that is not empty, and \<open>cockpit\<close> otherwise. On the path
  \<open>/cockpit+/foo\<close> the first segment is \<open>cockpit+\<close>, its suffix is empty, and the
  function returns \<open>cockpit+\<close> where the claim asks for \<open>cockpit\<close>: the test
  \<open>path[8] != '\0'\<close> lets the slash through.
\<close>

theorem parse_application_empty_suffix:
  "auth_parse_application ''/cockpit+/foo'' = Some ''cockpit+''
   \<and> cockpit_auth_parse_application ''/cockpit+/foo'' = Some ''cockpit+''
   \<and> first_segment ''/cockpit+/foo'' = ''cockpit+''
   \<and> spec_parse_path ''/cockpit+/foo'' = ''cockpit''"
  by (simp add: auth_parse_application_def cockpit_auth_parse_application_def
        has_prefix_cockpit g_strndup_def spec_parse_path_def first_segment_def)

theorem parse_application_empty_suffix_witness:
  "cockpit_auth_parse_application ''/cockpit+/foo'' \<noteq> Some (spec_parse_path ''/cockpit+/foo'')"
  using parse_application_empty_suffix by simp

section \<open>The method chooser\<close>

lemma action_for_type_first_match:
  "action_for_type env t lb = first_match (chooser_rules (cockpit_conf_string env) t lb) ''none''"
  by (simp add: action_for_type_def chooser_rules_def)

lemma login_type_absent: "hdrs ''Authorization'' = None \<Longrightarrow> login_type hdrs = ''negotiate''"
  by (simp add: login_type_def parse_authorization_type_absent)

lemma choose_login_async_no_header:
  "hdrs ''Authorization'' = None \<Longrightarrow>
   action_for_type env ''negotiate'' (login_loopback self) = ''spawn-login-with-decoded'' \<Longrightarrow>
   cockpit_auth_choose_login_async env self path hdrs peer spawned
     = cockpit_auth_spawn_login_async env self (cockpit_auth_parse_application path)
         ''negotiate'' True hdrs peer spawned"
  by (simp add: cockpit_auth_choose_login_async_def login_type_absent Let_def)

text \<open>
  C4: for every type and loopback flag \<open>action_for_type\<close> is the first matching rule
  of: \<open>x-login-reply\<close> gives \<open>x-login-reply\<close>; loopback with \<open>basic\<close> gives
  \<open>remote-login-ssh\<close>; a configured action of the type gives that value; \<open>basic\<close>
  and \<open>negotiate\<close> give \<open>spawn-login-with-decoded\<close>; everything else gives \<open>none\<close>.
  A request without an \<open>Authorization\<close> header is treated as type \<open>negotiate\<close>.
\<close>

theorem action_for_type_rules:
  "action_for_type env t lb = first_match (chooser_rules (cockpit_conf_string env) t lb) ''none''
   \<and> action_for_type env ''x-login-reply'' lb = ''x-login-reply''
   \<and> action_for_type env ''basic'' True = ''remote-login-ssh''
   \<and> (t \<noteq> ''x-login-reply'' \<and> \<not> (lb \<and> t = ''basic'')
        \<and> cockpit_conf_string env t ''action'' = Some a \<longrightarrow> action_for_type env t lb = a)
   \<and> (\<not> (lb \<and> t = ''basic'') \<and> cockpit_conf_string env t ''action'' = None
        \<and> (t = ''basic'' \<or> t = ''negotiate'')
        \<longrightarrow> action_for_type env t lb = ''spawn-login-with-decoded'')
   \<and> (t \<noteq> ''x-login-reply'' \<and> t \<noteq> ''basic'' \<and> t \<noteq> ''negotiate''
        \<and> cockpit_conf_string env t ''action'' = None \<longrightarrow> action_for_type env t lb = ''none'')
   \<and> (hdrs ''Authorization'' = None \<longrightarrow> login_type hdrs = ''negotiate'')
   \<and> (hdrs ''Authorization'' = None
        \<and> action_for_type env ''negotiate'' (login_loopback self) = ''spawn-login-with-decoded''
        \<longrightarrow> cockpit_auth_choose_login_async env self path hdrs peer spawned
              = cockpit_auth_spawn_login_async env self (cockpit_auth_parse_application path)
                  ''negotiate'' True hdrs peer spawned)"
proof (intro conjI impI)
  show "action_for_type env t lb
          = first_match (chooser_rules (cockpit_conf_string env) t lb) ''none''"
    by (rule action_for_type_first_match)
  show "action_for_type env ''x-login-reply'' lb = ''x-login-reply''"
    by (simp add: action_for_type_def)
  show "action_for_type env ''basic'' True = ''remote-login-ssh''"
    by (simp add: action_for_type_def)
  show "action_for_type env t lb = a"
    if "t \<noteq> ''x-login-reply'' \<and> \<not> (lb \<and> t = ''basic'')
          \<and> cockpit_conf_string env t ''action'' = Some a"
    using that by (auto simp add: action_for_type_def)
  show "action_for_type env t lb = ''spawn-login-with-decoded''"
    if "\<not> (lb \<and> t = ''basic'') \<and> cockpit_conf_string env t ''action'' = None
          \<and> (t = ''basic'' \<or> t = ''negotiate'')"
    using that by (auto simp add: action_for_type_def)
  show "action_for_type env t lb = ''none''"
    if "t \<noteq> ''x-login-reply'' \<and> t \<noteq> ''basic'' \<and> t \<noteq> ''negotiate''
          \<and> cockpit_conf_string env t ''action'' = None"
    using that by (simp add: action_for_type_def)
  show "login_type hdrs = ''negotiate''" if "hdrs ''Authorization'' = None"
    using that by (rule login_type_absent)
  show "cockpit_auth_choose_login_async env self path hdrs peer spawned
          = cockpit_auth_spawn_login_async env self (cockpit_auth_parse_application path)
              ''negotiate'' True hdrs peer spawned"
    if "hdrs ''Authorization'' = None
          \<and> action_for_type env ''negotiate'' (login_loopback self) = ''spawn-login-with-decoded''"
    using that by (simp add: choose_login_async_no_header)
qed

theorem action_for_type_rules_witness:
  "action_for_type bearer_env ''bearer'' True = ''spawn-login-with-header''
   \<and> action_for_type bearer_env ''basic'' False = ''spawn-login-with-decoded''
   \<and> action_for_type bearer_env ''basic'' True = ''remote-login-ssh''
   \<and> action_for_type bearer_env ''digest'' True = ''none''
   \<and> login_type Map.empty = ''negotiate''
   \<and> cockpit_auth_choose_login_async bearer_env test_auth ''/cockpit/login'' Map.empty None None
       = cockpit_auth_spawn_login_async bearer_env test_auth (Some ''cockpit'')
           ''negotiate'' True Map.empty None None"
proof -
  have c: "cockpit_conf_string bearer_env ''bearer'' ''action'' = Some ''spawn-login-with-header''"
          "cockpit_conf_string bearer_env ''basic'' ''action'' = None"
          "cockpit_conf_string bearer_env ''digest'' ''action'' = None"
          "cockpit_conf_string bearer_env ''negotiate'' ''action'' = None"
    by (simp_all add: bearer_env_def test_env_def)
  have a: "cockpit_auth_parse_application ''/cockpit/login'' = Some ''cockpit''"
    by (simp add: cockpit_auth_parse_application_def auth_parse_application_def
          has_prefix_cockpit)
  have l: "login_loopback test_auth = False"
    by (simp add: test_auth_def)
  show ?thesis
    using action_for_type_rules
            [of bearer_env "''bearer''" True "''spawn-login-with-header''" Map.empty
                test_auth "''/cockpit/login''" None None]
          action_for_type_rules
            [of bearer_env "''basic''" False "''spawn-login-with-header''" Map.empty
                test_auth "''/cockpit/login''" None None]
          action_for_type_rules
            [of bearer_env "''digest''" True "''spawn-login-with-header''" Map.empty
                test_auth "''/cockpit/login''" None None]
          action_for_type_rules
            [of bearer_env "''negotiate''" False "''spawn-login-with-header''" Map.empty
                test_auth "''/cockpit/login''" None None]
          c a l
    by (simp add: chooser_rules_def)
qed



section \<open>Admission\<close>

lemma can_start_auth_formula:
  fixes self :: cockpit_auth
  assumes lo: "max_startups_begin self < startups self"
      and hi: "startups self \<le> max_startups self"
      and rate: "max_startups_rate self < 100"
      and fits: "(100 - unat (max_startups_rate self))
                   * (unat (startups self) - unat (max_startups_begin self)) < 2 ^ 32"
  shows "can_start_auth self r \<longleftrightarrow>
           int ((100 - unat (max_startups_rate self))
                  * (unat (startups self) - unat (max_startups_begin self))
                div (unat (max_startups self) - unat (max_startups_begin self))
                + unat (max_startups_rate self)) \<le> r"
proof -
  define R where "R = unat (max_startups_rate self)"
  define S where "S = unat (startups self)"
  define B where "B = unat (max_startups_begin self)"
  define M where "M = unat (max_startups self)"
  have BS: "B < S" using lo by (simp add: B_def S_def word_less_nat_alt)
  have SM: "S \<le> M" using hi by (simp add: M_def S_def word_le_nat_alt)
  have R100: "R < 100" using rate by (simp add: R_def word_less_nat_alt)
  have m0: "max_startups self \<noteq> 0" using lo hi by (metis not_less word_le_0_iff le_less_trans less_le_trans word_coorder.extremum_strict)
  have p0: "unat (100 - max_startups_rate self) = 100 - R"
    using rate by (simp add: R_def unat_sub word_le_nat_alt word_less_nat_alt)
  have d: "unat (startups self - max_startups_begin self) = S - B"
    using lo by (simp add: S_def B_def unat_sub word_le_nat_alt word_less_nat_alt)
  have m: "unat (max_startups self - max_startups_begin self) = M - B"
    using lo hi by (simp add: M_def B_def unat_sub word_le_nat_alt word_less_nat_alt)
  have p1: "unat ((100 - max_startups_rate self) * (startups self - max_startups_begin self))
              = (100 - R) * (S - B)"
    using fits p0 d by (simp add: unat_word_ariths R_def S_def B_def)
  have p2: "unat ((100 - max_startups_rate self) * (startups self - max_startups_begin self)
                  div (max_startups self - max_startups_begin self))
              = (100 - R) * (S - B) div (M - B)"
    by (simp add: unat_div p1 m)
  have le: "(100 - R) * (S - B) div (M - B) \<le> 100 - R"
  proof -
    have "(100 - R) * (S - B) \<le> (100 - R) * (M - B)" using SM by (intro mult_le_mono2 diff_le_mono)
    then have "(100 - R) * (S - B) div (M - B) \<le> (100 - R) * (M - B) div (M - B)"
      by (rule div_le_mono)
    also have "\<dots> = 100 - R" using BS SM by simp
    finally show ?thesis .
  qed
  have p3: "unat ((100 - max_startups_rate self) * (startups self - max_startups_begin self)
                  div (max_startups self - max_startups_begin self) + max_startups_rate self)
              = (100 - R) * (S - B) div (M - B) + R"
  proof -
    have "(100 - R) * (S - B) div (M - B) + R < 2 ^ 32"
      using le R100 by simp
    then show ?thesis
      using p2 by (simp add: unat_word_ariths R_def)
  qed
  have s: "sint ((100 - max_startups_rate self) * (startups self - max_startups_begin self)
                  div (max_startups self - max_startups_begin self) + max_startups_rate self)
              = int ((100 - R) * (S - B) div (M - B) + R)"
  proof -
    let ?p = "(100 - max_startups_rate self) * (startups self - max_startups_begin self)
                  div (max_startups self - max_startups_begin self) + max_startups_rate self"
    have u: "uint ?p = int ((100 - R) * (S - B) div (M - B) + R)"
    proof -
      have "uint ?p = int (unat ?p)" by simp
      then show ?thesis by (simp only: p3)
    qed
    have "int ((100 - R) * (S - B) div (M - B) + R) < 2 ^ 31"
      using le R100 by simp
    then have "signed_take_bit 31 (uint ?p) = uint ?p"
      using u by (simp add: signed_take_bit_int_eq_self)
    then show ?thesis
      using u by (simp add: sint_uint)
  qed
  have a: "\<not> startups self \<le> max_startups_begin self" using lo by simp
  have b: "\<not> max_startups self < startups self" using hi by simp
  have c: "max_startups_rate self \<noteq> 100" using rate by auto
  have "can_start_auth self r \<longleftrightarrow> \<not> r < int ((100 - R) * (S - B) div (M - B) + R)"
    unfolding can_start_auth_def Let_def using a b c m0 by (simp only: if_False s)
  then show ?thesis
    by (simp add: not_less R_def S_def B_def M_def)
qed


lemma can_start_auth_over_hard_limit:
  assumes "max_startups self \<noteq> 0"
      and "max_startups_begin self \<le> max_startups self"
      and "max_startups self < startups self"
  shows "\<not> can_start_auth self r"
proof -
  have "\<not> startups self \<le> max_startups_begin self"
    using assms(2,3) by simp
  then show ?thesis
    using assms(1,3) by (simp add: can_start_auth_def)
qed

lemma can_start_auth_rate_100:
  assumes "max_startups_begin self < startups self"
      and "startups self \<le> max_startups self"
      and "max_startups_rate self = 100"
  shows "\<not> can_start_auth self r"
proof -
  have "max_startups self \<noteq> 0"
    using assms(1,2) by (metis not_less word_le_0_iff le_less_trans less_le_trans
        word_coorder.extremum_strict)
  moreover have "\<not> startups self \<le> max_startups_begin self"
    using assms(1) by simp
  ultimately show ?thesis
    using assms(3) by (simp add: can_start_auth_def)
qed

text \<open>
  C1 (amended): \<open>can_start_auth\<close> admits when \<open>max_startups\<close> is 0, and admits when
  \<open>startups\<close> is at most \<open>max_startups_begin\<close>. When \<open>max_startups\<close> is not 0 and
  \<open>max_startups_begin\<close> is at most \<open>max_startups\<close>, it refuses when \<open>startups\<close> is
  above \<open>max_startups\<close>. Between the limits it refuses when the rate is 100, and for a
  rate below 100 it admits exactly when the drawn \<open>r\<close> is at least
  \<open>(100 - rate) * (startups - begin) div (max_startups - begin) + rate\<close>, provided the
  product \<open>(100 - rate) * (startups - begin)\<close> fits in 32 bits.
\<close>

theorem can_start_auth_admission:
  "(max_startups self = 0 \<longrightarrow> can_start_auth self r)
   \<and> (startups self \<le> max_startups_begin self \<longrightarrow> can_start_auth self r)
   \<and> (max_startups self \<noteq> 0 \<and> max_startups_begin self \<le> max_startups self
        \<and> max_startups self < startups self \<longrightarrow> \<not> can_start_auth self r)
   \<and> (max_startups_begin self < startups self \<and> startups self \<le> max_startups self
        \<and> max_startups_rate self = 100 \<longrightarrow> \<not> can_start_auth self r)
   \<and> (max_startups_begin self < startups self \<and> startups self \<le> max_startups self
        \<and> max_startups_rate self < 100
        \<and> (100 - unat (max_startups_rate self))
              * (unat (startups self) - unat (max_startups_begin self)) < 2 ^ 32
        \<longrightarrow> (can_start_auth self r \<longleftrightarrow>
               int ((100 - unat (max_startups_rate self))
                      * (unat (startups self) - unat (max_startups_begin self))
                    div (unat (max_startups self) - unat (max_startups_begin self))
                    + unat (max_startups_rate self)) \<le> r))"
proof (intro conjI impI)
  show "can_start_auth self r" if "max_startups self = 0"
    using that by (simp add: can_start_auth_def)
  show "can_start_auth self r" if "startups self \<le> max_startups_begin self"
    using that by (simp add: can_start_auth_def)
  show "\<not> can_start_auth self r"
    if "max_startups self \<noteq> 0 \<and> max_startups_begin self \<le> max_startups self
          \<and> max_startups self < startups self"
    using that can_start_auth_over_hard_limit by blast
  show "\<not> can_start_auth self r"
    if "max_startups_begin self < startups self \<and> startups self \<le> max_startups self
          \<and> max_startups_rate self = 100"
    using that can_start_auth_rate_100 by blast
  show "can_start_auth self r \<longleftrightarrow>
          int ((100 - unat (max_startups_rate self))
                 * (unat (startups self) - unat (max_startups_begin self))
               div (unat (max_startups self) - unat (max_startups_begin self))
               + unat (max_startups_rate self)) \<le> r"
    if "max_startups_begin self < startups self \<and> startups self \<le> max_startups self
          \<and> max_startups_rate self < 100
          \<and> (100 - unat (max_startups_rate self))
                * (unat (startups self) - unat (max_startups_begin self)) < 2 ^ 32"
    using that can_start_auth_formula by blast
qed

theorem can_start_auth_admission_witness:
  "can_start_auth (throttle 5 0 0 50) 0
   \<and> can_start_auth (throttle 3 3 5 100) 0
   \<and> \<not> can_start_auth (throttle 6 3 5 50) 99
   \<and> \<not> can_start_auth (throttle 4 3 5 100) 99
   \<and> can_start_auth (throttle 2 1 4 50) 66
   \<and> \<not> can_start_auth (throttle 2 1 4 50) 65"
  using can_start_auth_admission [of "throttle 5 0 0 50" 0]
        can_start_auth_admission [of "throttle 3 3 5 100" 0]
        can_start_auth_admission [of "throttle 6 3 5 50" 99]
        can_start_auth_admission [of "throttle 4 3 5 100" 99]
        can_start_auth_admission [of "throttle 2 1 4 50" 66]
        can_start_auth_admission [of "throttle 2 1 4 50" 65]
  by (simp add: throttle_def test_auth_def)

text \<open>
  With \<open>max_startups = 0\<close> and \<open>max_startups_begin = 0\<close> (a configuration that
  \<open>cockpit_auth_new\<close> accepts) the limit is off: a request above \<open>max_startups\<close>
  is admitted. And when the product wraps around in 32 bits the draw \<open>r = 1\<close> is
  admitted although the exact value of the formula is 2.
\<close>

theorem can_start_auth_counterexample:
  "max_startups_begin (throttle 1 0 0 50) \<le> max_startups (throttle 1 0 0 50)
   \<and> max_startups (throttle 1 0 0 50) < startups (throttle 1 0 0 50)
   \<and> can_start_auth (throttle 1 0 0 50) 0
   \<and> can_start_auth (throttle 43383509 0 4294967295 1) 1
   \<and> \<not> int ((100 - 1) * (43383509 - 0) div (4294967295 - 0) + 1) \<le> (1::int)"
  by (simp add: throttle_def test_auth_def can_start_auth_def)



section \<open>The replies of a spawned helper\<close>

lemma spawn_results_no_response:
  "parse_cockpit_spawn_results env self sl None hdrs wp
     = \<lparr>sr_creds = None, sr_prompt_data = None,
        sr_error = Some (G_IO_ERROR_INVALID_DATA, ''Authentication failed: no results''),
        sr_headers = hdrs, sr_self = self\<rparr>"
  by (simp add: parse_cockpit_spawn_results_def build_gssapi_output_header_def Let_def)

lemma spawn_results_parse_error:
  "cockpit_json_parse_object env d = JsonParseError \<Longrightarrow>
   parse_cockpit_spawn_results env self sl (Some d) hdrs wp
     = \<lparr>sr_creds = None, sr_prompt_data = None,
        sr_error = Some (G_IO_ERROR_INVALID_DATA, ''Authentication failed: no results''),
        sr_headers = hdrs, sr_self = self\<rparr>"
  by (simp add: parse_cockpit_spawn_results_def build_gssapi_output_header_def Let_def)

lemma spawn_results_invalid_data:
  "cockpit_json_parse_object env d = JsonInvalidData \<Longrightarrow>
   parse_cockpit_spawn_results env self sl (Some d) hdrs wp
     = \<lparr>sr_creds = None, sr_prompt_data = None,
        sr_error = Some (G_IO_ERROR_INVALID_DATA, ''Login user name is not UTF8 encoded''),
        sr_headers = hdrs, sr_self = self\<rparr>"
  by (simp add: parse_cockpit_spawn_results_def build_gssapi_output_header_def Let_def)

lemma spawn_results_invalid_fields:
  "cockpit_json_parse_object env d = JsonParsed r \<Longrightarrow>
   cockpit_json_get_string env r ''error'' = None
     \<or> cockpit_json_get_string env r ''message'' = None
     \<or> cockpit_json_get_string env r ''prompt'' = None \<Longrightarrow>
   sr_error (parse_cockpit_spawn_results env self sl (Some d) hdrs wp)
     = Some (G_IO_ERROR_INVALID_DATA, ''Authentication failed: invalid results'')
   \<and> sr_creds (parse_cockpit_spawn_results env self sl (Some d) hdrs wp) = None
   \<and> sr_self (parse_cockpit_spawn_results env self sl (Some d) hdrs wp) = self"
  by (auto simp add: parse_cockpit_spawn_results_def Let_def)

lemma spawn_results_prompt:
  "cockpit_json_parse_object env d = JsonParsed r \<Longrightarrow>
   cockpit_json_get_string env r ''error'' = Some e \<Longrightarrow>
   cockpit_json_get_string env r ''message'' = Some m \<Longrightarrow>
   cockpit_json_get_string env r ''prompt'' = Some (Some p) \<Longrightarrow>
   sr_error (parse_cockpit_spawn_results env self sl (Some d) hdrs True)
     = Some (COCKPIT_ERROR_AUTHENTICATION_FAILED, ''X-Login-Reply needed'')
   \<and> sr_creds (parse_cockpit_spawn_results env self sl (Some d) hdrs True) = None
   \<and> sr_prompt_data (parse_cockpit_spawn_results env self sl (Some d) hdrs True) = Some r
   \<and> sr_self (parse_cockpit_spawn_results env self sl (Some d) hdrs True) = self"
  by (simp add: parse_cockpit_spawn_results_def Let_def)

lemma spawn_results_error:
  "cockpit_json_parse_object env d = JsonParsed r \<Longrightarrow>
   cockpit_json_get_string env r ''error'' = Some (Some e) \<Longrightarrow>
   cockpit_json_get_string env r ''message'' = Some m \<Longrightarrow>
   cockpit_json_get_string env r ''prompt'' = Some p \<Longrightarrow>
   p = None \<or> \<not> wp \<Longrightarrow>
   sr_error (parse_cockpit_spawn_results env self sl (Some d) hdrs wp)
     = Some (fst (spawn_error_results self sl e m))
   \<and> sr_creds (parse_cockpit_spawn_results env self sl (Some d) hdrs wp) = None
   \<and> sr_prompt_data (parse_cockpit_spawn_results env self sl (Some d) hdrs wp) = None
   \<and> sr_self (parse_cockpit_spawn_results env self sl (Some d) hdrs wp)
       = snd (spawn_error_results self sl e m)"
  by (auto simp add: parse_cockpit_spawn_results_def Let_def split: prod.splits)

lemma nonce_gssapi: "gssapi_not_avail (snd (cockpit_auth_nonce env self)) = gssapi_not_avail self"
  by (simp add: cockpit_auth_nonce_def)

lemma create_creds_gssapi:
  "gssapi_not_avail (snd (create_creds_for_spawn_authenticated env self u sl r raw))
     = gssapi_not_avail self"
  by (simp add: create_creds_for_spawn_authenticated_def Let_def cockpit_auth_nonce_def
        split: prod.splits)

lemma spawn_error_results_sticky:
  "gssapi_not_avail self \<Longrightarrow> gssapi_not_avail (snd (spawn_error_results self sl e m))"
  by (simp add: spawn_error_results_def)

lemma spawn_results_sticky:
  "gssapi_not_avail self \<Longrightarrow>
   gssapi_not_avail (sr_self (parse_cockpit_spawn_results env self sl response hdrs wp))"
  by (auto simp add: parse_cockpit_spawn_results_def Let_def spawn_error_results_def
        create_creds_for_spawn_authenticated_def cockpit_auth_nonce_def
        split: option.splits prod.splits json_parse.splits)

lemma spawn_login_skips_helper:
  "gssapi_not_avail self \<Longrightarrow>
   fst (cockpit_auth_parse_authorization env hdrs dec) = Returned None \<Longrightarrow>
   cockpit_auth_spawn_login_async env self app t dec hdrs peer spawned
     = (self,
        \<lparr>source_tag = Some cockpit_auth_spawn_login_async_tag, op_res = None,
         res_error = Some (COCKPIT_ERROR_AUTHENTICATION_FAILED, ''Authentication required'')\<rparr>,
        hdrs(''Authorization'' := None))"
  using parse_authorization_snd [of env hdrs dec]
  by (simp add: cockpit_auth_spawn_login_async_def split_beta)


text \<open>
  C5 (amended): a reply that is absent or does not parse gives InvalidData, and so
  does a parsed reply whose \<open>error\<close>, \<open>message\<close> or \<open>prompt\<close> member is not a
  string. For a parsed reply whose three members are strings or missing: a \<open>prompt\<close>
  that the caller takes gives AuthenticationFailed \<open>X-Login-Reply needed\<close> and the
  reply as prompt data, whatever the \<open>error\<close> member; otherwise the \<open>error\<close> string
  \<open>permission-denied\<close> gives PermissionDenied, \<open>authentication-failed\<close> and
  \<open>authentication-unavailable\<close> give AuthenticationFailed, and any other string
  gives Failed with the error and the message in its text. \<open>authentication-unavailable\<close>
  with type \<open>negotiate\<close> sets \<open>gssapi_not_avail\<close>; the flag, once set, stays set;
  and with the flag set a \<open>negotiate\<close> login for which
  \<open>cockpit_auth_parse_authorization\<close> returns no payload is refused without
  spawning the helper.
\<close>

theorem parse_cockpit_spawn_results_errors:
  "(response = None
      \<or> (\<exists>t. response = Some t
               \<and> (cockpit_json_parse_object env t = JsonParseError
                    \<or> cockpit_json_parse_object env t = JsonInvalidData))
      \<longrightarrow> (\<exists>msg. sr_error (parse_cockpit_spawn_results env self sl response hdrs wp)
                   = Some (G_IO_ERROR_INVALID_DATA, msg))
          \<and> sr_creds (parse_cockpit_spawn_results env self sl response hdrs wp) = None)
   \<and> (response = Some d \<and> cockpit_json_parse_object env d = JsonParsed r
        \<and> (cockpit_json_get_string env r ''error'' = None
             \<or> cockpit_json_get_string env r ''message'' = None
             \<or> cockpit_json_get_string env r ''prompt'' = None)
      \<longrightarrow> sr_error (parse_cockpit_spawn_results env self sl response hdrs wp)
            = Some (G_IO_ERROR_INVALID_DATA, ''Authentication failed: invalid results'')
          \<and> sr_creds (parse_cockpit_spawn_results env self sl response hdrs wp) = None)
   \<and> (response = Some d \<and> cockpit_json_parse_object env d = JsonParsed r
        \<and> cockpit_json_get_string env r ''error'' = Some eo
        \<and> cockpit_json_get_string env r ''message'' = Some m
        \<and> cockpit_json_get_string env r ''prompt'' = Some (Some pr)
      \<longrightarrow> sr_error (parse_cockpit_spawn_results env self sl response hdrs True)
            = Some (COCKPIT_ERROR_AUTHENTICATION_FAILED, ''X-Login-Reply needed'')
          \<and> sr_prompt_data (parse_cockpit_spawn_results env self sl response hdrs True)
              = Some r
          \<and> sr_creds (parse_cockpit_spawn_results env self sl response hdrs True) = None)
   \<and> (response = Some d \<and> cockpit_json_parse_object env d = JsonParsed r
        \<and> cockpit_json_get_string env r ''error'' = Some (Some e)
        \<and> cockpit_json_get_string env r ''message'' = Some m
        \<and> cockpit_json_get_string env r ''prompt'' = Some p
        \<and> (p = None \<or> \<not> wp)
      \<longrightarrow> sr_creds (parse_cockpit_spawn_results env self sl response hdrs wp) = None
          \<and> (e = ''permission-denied'' \<longrightarrow>
                sr_error (parse_cockpit_spawn_results env self sl response hdrs wp)
                  = Some (COCKPIT_ERROR_PERMISSION_DENIED, ''Permission denied''))
          \<and> (e = ''authentication-failed'' \<longrightarrow>
                sr_error (parse_cockpit_spawn_results env self sl response hdrs wp)
                  = Some (COCKPIT_ERROR_AUTHENTICATION_FAILED, ''Authentication failed''))
          \<and> (e = ''authentication-unavailable'' \<longrightarrow>
                (\<exists>msg. sr_error (parse_cockpit_spawn_results env self sl response hdrs wp)
                         = Some (COCKPIT_ERROR_AUTHENTICATION_FAILED, msg))
                \<and> (gssapi_not_avail
                      (sr_self (parse_cockpit_spawn_results env self sl response hdrs wp))
                    \<longleftrightarrow> auth_type sl = ''negotiate'' \<or> gssapi_not_avail self))
          \<and> (e \<noteq> ''permission-denied'' \<and> e \<noteq> ''authentication-failed''
                \<and> e \<noteq> ''authentication-unavailable'' \<longrightarrow>
                sr_error (parse_cockpit_spawn_results env self sl response hdrs wp)
                  = Some (COCKPIT_ERROR_FAILED,
                          ''Authentication failed: '' @ e @ '': ''
                            @ (case m of None \<Rightarrow> ''(null)'' | Some t \<Rightarrow> t))))
   \<and> (gssapi_not_avail self \<longrightarrow>
         gssapi_not_avail (sr_self (parse_cockpit_spawn_results env self sl response hdrs wp)))
   \<and> (gssapi_not_avail self
        \<and> fst (cockpit_auth_parse_authorization env rq dec) = Returned None \<longrightarrow>
         cockpit_auth_spawn_login_async env self app ''negotiate'' dec rq peer spawned
           = (self,
              \<lparr>source_tag = Some cockpit_auth_spawn_login_async_tag, op_res = None,
               res_error = Some (COCKPIT_ERROR_AUTHENTICATION_FAILED,
                                 ''Authentication required'')\<rparr>,
              rq(''Authorization'' := None)))"
proof (intro conjI impI)
  assume a: "response = None
      \<or> (\<exists>t. response = Some t
               \<and> (cockpit_json_parse_object env t = JsonParseError
                    \<or> cockpit_json_parse_object env t = JsonInvalidData))"
  show "\<exists>msg. sr_error (parse_cockpit_spawn_results env self sl response hdrs wp)
                = Some (G_IO_ERROR_INVALID_DATA, msg)"
    using a spawn_results_no_response [of env self sl hdrs wp]
          spawn_results_parse_error [of env _ self sl hdrs wp]
          spawn_results_invalid_data [of env _ self sl hdrs wp]
    by auto
  show "sr_creds (parse_cockpit_spawn_results env self sl response hdrs wp) = None"
    using a spawn_results_no_response [of env self sl hdrs wp]
          spawn_results_parse_error [of env _ self sl hdrs wp]
          spawn_results_invalid_data [of env _ self sl hdrs wp]
    by auto
next
  assume i: "response = Some d \<and> cockpit_json_parse_object env d = JsonParsed r
        \<and> (cockpit_json_get_string env r ''error'' = None
             \<or> cockpit_json_get_string env r ''message'' = None
             \<or> cockpit_json_get_string env r ''prompt'' = None)"
  show "sr_error (parse_cockpit_spawn_results env self sl response hdrs wp)
            = Some (G_IO_ERROR_INVALID_DATA, ''Authentication failed: invalid results'')"
    using i spawn_results_invalid_fields [of env d r self sl hdrs wp] by simp
  show "sr_creds (parse_cockpit_spawn_results env self sl response hdrs wp) = None"
    using i spawn_results_invalid_fields [of env d r self sl hdrs wp] by simp
next
  assume q: "response = Some d \<and> cockpit_json_parse_object env d = JsonParsed r
        \<and> cockpit_json_get_string env r ''error'' = Some eo
        \<and> cockpit_json_get_string env r ''message'' = Some m
        \<and> cockpit_json_get_string env r ''prompt'' = Some (Some pr)"
  show "sr_error (parse_cockpit_spawn_results env self sl response hdrs True)
            = Some (COCKPIT_ERROR_AUTHENTICATION_FAILED, ''X-Login-Reply needed'')"
    using q spawn_results_prompt [of env d r eo m pr self sl hdrs] by simp
  show "sr_prompt_data (parse_cockpit_spawn_results env self sl response hdrs True) = Some r"
    using q spawn_results_prompt [of env d r eo m pr self sl hdrs] by simp
  show "sr_creds (parse_cockpit_spawn_results env self sl response hdrs True) = None"
    using q spawn_results_prompt [of env d r eo m pr self sl hdrs] by simp
next
  assume b: "response = Some d \<and> cockpit_json_parse_object env d = JsonParsed r
        \<and> cockpit_json_get_string env r ''error'' = Some (Some e)
        \<and> cockpit_json_get_string env r ''message'' = Some m
        \<and> cockpit_json_get_string env r ''prompt'' = Some p
        \<and> (p = None \<or> \<not> wp)"
  then have sr: "sr_error (parse_cockpit_spawn_results env self sl response hdrs wp)
                   = Some (fst (spawn_error_results self sl e m))"
      and sc: "sr_creds (parse_cockpit_spawn_results env self sl response hdrs wp) = None"
      and ss: "sr_self (parse_cockpit_spawn_results env self sl response hdrs wp)
                   = snd (spawn_error_results self sl e m)"
    using spawn_results_error [of env d r e m p wp self sl hdrs] by simp_all
  show "sr_creds (parse_cockpit_spawn_results env self sl response hdrs wp) = None"
    by (rule sc)
  show "sr_error (parse_cockpit_spawn_results env self sl response hdrs wp)
          = Some (COCKPIT_ERROR_PERMISSION_DENIED, ''Permission denied'')"
    if "e = ''permission-denied''"
    using that sr by (simp add: spawn_error_results_def)
  show "sr_error (parse_cockpit_spawn_results env self sl response hdrs wp)
          = Some (COCKPIT_ERROR_AUTHENTICATION_FAILED, ''Authentication failed'')"
    if "e = ''authentication-failed''"
    using that sr by (simp add: spawn_error_results_def)
  show "\<exists>msg. sr_error (parse_cockpit_spawn_results env self sl response hdrs wp)
                 = Some (COCKPIT_ERROR_AUTHENTICATION_FAILED, msg)"
    if "e = ''authentication-unavailable''"
    using that sr by (simp add: spawn_error_results_def)
  show "gssapi_not_avail (sr_self (parse_cockpit_spawn_results env self sl response hdrs wp))
          \<longleftrightarrow> auth_type sl = ''negotiate'' \<or> gssapi_not_avail self"
    if "e = ''authentication-unavailable''"
    using that ss by (simp add: spawn_error_results_def)
  show "sr_error (parse_cockpit_spawn_results env self sl response hdrs wp)
          = Some (COCKPIT_ERROR_FAILED,
                  ''Authentication failed: '' @ e @ '': ''
                    @ (case m of None \<Rightarrow> ''(null)'' | Some t \<Rightarrow> t))"
    if "e \<noteq> ''permission-denied'' \<and> e \<noteq> ''authentication-failed''
          \<and> e \<noteq> ''authentication-unavailable''"
    using that sr by (simp add: spawn_error_results_def)
next
  show "gssapi_not_avail (sr_self (parse_cockpit_spawn_results env self sl response hdrs wp))"
    if "gssapi_not_avail self"
    using that by (rule spawn_results_sticky)
next
  show "cockpit_auth_spawn_login_async env self app ''negotiate'' dec rq peer spawned
          = (self,
             \<lparr>source_tag = Some cockpit_auth_spawn_login_async_tag, op_res = None,
              res_error = Some (COCKPIT_ERROR_AUTHENTICATION_FAILED,
                                ''Authentication required'')\<rparr>,
             rq(''Authorization'' := None))"
    if "gssapi_not_avail self
          \<and> fst (cockpit_auth_parse_authorization env rq dec) = Returned None"
    using that by (simp add: spawn_login_skips_helper)
qed


theorem parse_cockpit_spawn_results_errors_witness:
  "fst (the (sr_error (parse_cockpit_spawn_results (test_env test_replies) test_auth
       (test_sl ''basic'') (Some ''not json'') None True)))
     = G_IO_ERROR_INVALID_DATA
   \<and> sr_error (parse_cockpit_spawn_results (test_env test_replies) test_auth (test_sl ''basic'')
       (Some (json_text [(''error'', JsonString ''permission-denied''),
                         (''message'', JsonBool True)])) None True)
     = Some (G_IO_ERROR_INVALID_DATA, ''Authentication failed: invalid results'')
   \<and> sr_error (parse_cockpit_spawn_results (test_env test_replies) test_auth (test_sl ''basic'')
       (Some (json_text [(''error'', JsonString ''permission-denied''),
                         (''prompt'', JsonString ''Password'')])) None True)
     = Some (COCKPIT_ERROR_AUTHENTICATION_FAILED, ''X-Login-Reply needed'')
   \<and> sr_error (parse_cockpit_spawn_results (test_env test_replies) test_auth (test_sl ''basic'')
       (Some (json_text [(''error'', JsonString ''permission-denied''),
                         (''message'', JsonString ''no'')])) None True)
     = Some (COCKPIT_ERROR_PERMISSION_DENIED, ''Permission denied'')
   \<and> sr_error (parse_cockpit_spawn_results (test_env test_replies) test_auth (test_sl ''basic'')
       (Some (json_text [(''error'', JsonString ''authentication-failed''),
                         (''message'', JsonString ''bad'')])) None True)
     = Some (COCKPIT_ERROR_AUTHENTICATION_FAILED, ''Authentication failed'')
   \<and> gssapi_not_avail (sr_self (parse_cockpit_spawn_results (test_env test_replies) test_auth
       (test_sl ''negotiate'')
       (Some (json_text [(''error'', JsonString ''authentication-unavailable''),
                         (''message'', JsonString ''none'')])) None True))
   \<and> sr_error (parse_cockpit_spawn_results (test_env test_replies) test_auth (test_sl ''basic'')
       (Some (json_text [(''error'', JsonString ''broken''),
                         (''message'', JsonString ''oops'')])) None True)
     = Some (COCKPIT_ERROR_FAILED, ''Authentication failed: broken: oops'')
   \<and> fst (cockpit_auth_parse_authorization (test_env test_replies)
            [''Authorization'' \<mapsto> ''Negotiate''] True) = Returned None
   \<and> cockpit_auth_spawn_login_async (test_env test_replies)
         (test_auth\<lparr>gssapi_not_avail := True\<rparr>) (Some ''cockpit'') ''negotiate'' True
         [''Authorization'' \<mapsto> ''Negotiate''] None (Some (42, 5, 6))
     = (test_auth\<lparr>gssapi_not_avail := True\<rparr>,
        \<lparr>source_tag = Some cockpit_auth_spawn_login_async_tag, op_res = None,
         res_error = Some (COCKPIT_ERROR_AUTHENTICATION_FAILED, ''Authentication required'')\<rparr>,
        Map.empty)"
proof -
  let ?E = "test_env test_replies"
  let ?denied = "[(''error'', JsonString ''permission-denied''), (''message'', JsonString ''no'')]"
  let ?failed = "[(''error'', JsonString ''authentication-failed''),
                  (''message'', JsonString ''bad'')]"
  let ?unavail = "[(''error'', JsonString ''authentication-unavailable''),
                   (''message'', JsonString ''none'')]"
  let ?broken = "[(''error'', JsonString ''broken''), (''message'', JsonString ''oops'')]"
  let ?notstring = "[(''error'', JsonString ''permission-denied''), (''message'', JsonBool True)]"
  let ?prompted = "[(''error'', JsonString ''permission-denied''),
                    (''prompt'', JsonString ''Password'')]"
  let ?rq = "[''Authorization'' \<mapsto> ''Negotiate'']"
  have p: "cockpit_json_parse_object ?E ''not json'' = JsonParseError"
          "cockpit_json_parse_object ?E (json_text ?denied) = JsonParsed ?denied"
          "cockpit_json_parse_object ?E (json_text ?failed) = JsonParsed ?failed"
          "cockpit_json_parse_object ?E (json_text ?unavail) = JsonParsed ?unavail"
          "cockpit_json_parse_object ?E (json_text ?broken) = JsonParsed ?broken"
          "cockpit_json_parse_object ?E (json_text ?notstring) = JsonParsed ?notstring"
          "cockpit_json_parse_object ?E (json_text ?prompted) = JsonParsed ?prompted"
    by (simp_all add: test_env_def test_json_parse_def test_replies_def json_text_def
          json_quote_def)
  have g: "cockpit_json_get_string ?E = test_json_get_string"
    by (simp add: test_env_def)
  have t: "auth_type (test_sl ''negotiate'') = ''negotiate''"
    by (simp add: test_sl_def)
  have n: "fst (cockpit_auth_parse_authorization ?E ?rq True) = Returned None"
    by (simp add: parse_authorization_cases has_space_delimiter_def leading_spaces_def)
  have a: "\<exists>msg. sr_error (parse_cockpit_spawn_results ?E test_auth (test_sl ''basic'')
                  (Some ''not json'') None True) = Some (G_IO_ERROR_INVALID_DATA, msg)"
    using parse_cockpit_spawn_results_errors
            [where response = "Some ''not json''" and env = ?E and self = test_auth
               and sl = "test_sl ''basic''" and hdrs = None and wp = True
               and d = "json_text ?denied" and r = ?denied and e = "''permission-denied''"
               and m = "Some ''no''" and p = None and eo = None and pr = "[]"
               and rq = ?rq and app = "Some ''cockpit''" and dec = True and peer = None
               and spawned = "Some (42, 5, 6)"] p(1)
    by simp
  have i: "sr_error (parse_cockpit_spawn_results ?E test_auth (test_sl ''basic'')
                  (Some (json_text ?notstring)) None True)
             = Some (G_IO_ERROR_INVALID_DATA, ''Authentication failed: invalid results'')"
    using parse_cockpit_spawn_results_errors
            [where response = "Some (json_text ?notstring)" and env = ?E and self = test_auth
               and sl = "test_sl ''basic''" and hdrs = None and wp = True
               and d = "json_text ?notstring" and r = ?notstring
               and e = "''permission-denied''"
               and m = "Some ''no''" and p = None and eo = None and pr = "[]"
               and rq = ?rq and app = "Some ''cockpit''" and dec = True and peer = None
               and spawned = "Some (42, 5, 6)"] p(6) g
    by (simp add: test_json_get_string_def)
  have q: "sr_error (parse_cockpit_spawn_results ?E test_auth (test_sl ''basic'')
                  (Some (json_text ?prompted)) None True)
             = Some (COCKPIT_ERROR_AUTHENTICATION_FAILED, ''X-Login-Reply needed'')"
    using parse_cockpit_spawn_results_errors
            [where response = "Some (json_text ?prompted)" and env = ?E and self = test_auth
               and sl = "test_sl ''basic''" and hdrs = None and wp = True
               and d = "json_text ?prompted" and r = ?prompted
               and e = "''permission-denied''"
               and m = None and p = "Some ''Password''"
               and eo = "Some ''permission-denied''" and pr = "''Password''"
               and rq = ?rq and app = "Some ''cockpit''" and dec = True and peer = None
               and spawned = "Some (42, 5, 6)"] p(7) g
    by (simp add: test_json_get_string_def)
  have b: "sr_error (parse_cockpit_spawn_results ?E test_auth (test_sl ''basic'')
                  (Some (json_text ?denied)) None True)
             = Some (COCKPIT_ERROR_PERMISSION_DENIED, ''Permission denied'')"
    using parse_cockpit_spawn_results_errors
            [where response = "Some (json_text ?denied)" and env = ?E and self = test_auth
               and sl = "test_sl ''basic''" and hdrs = None and wp = True
               and d = "json_text ?denied" and r = ?denied and e = "''permission-denied''"
               and m = "Some ''no''" and p = None and eo = None and pr = "[]"
               and rq = ?rq and app = "Some ''cockpit''" and dec = True and peer = None
               and spawned = "Some (42, 5, 6)"] p(2) g
    by (simp add: test_json_get_string_def)
  have c: "sr_error (parse_cockpit_spawn_results ?E test_auth (test_sl ''basic'')
                  (Some (json_text ?failed)) None True)
             = Some (COCKPIT_ERROR_AUTHENTICATION_FAILED, ''Authentication failed'')"
    using parse_cockpit_spawn_results_errors
            [where response = "Some (json_text ?failed)" and env = ?E and self = test_auth
               and sl = "test_sl ''basic''" and hdrs = None and wp = True
               and d = "json_text ?failed" and r = ?failed and e = "''authentication-failed''"
               and m = "Some ''bad''" and p = None and eo = None and pr = "[]"
               and rq = ?rq and app = "Some ''cockpit''" and dec = True and peer = None
               and spawned = "Some (42, 5, 6)"] p(3) g
    by (simp add: test_json_get_string_def)
  have d: "gssapi_not_avail (sr_self (parse_cockpit_spawn_results ?E test_auth
                  (test_sl ''negotiate'') (Some (json_text ?unavail)) None True))"
    using parse_cockpit_spawn_results_errors
            [where response = "Some (json_text ?unavail)" and env = ?E and self = test_auth
               and sl = "test_sl ''negotiate''" and hdrs = None and wp = True
               and d = "json_text ?unavail" and r = ?unavail
               and e = "''authentication-unavailable''"
               and m = "Some ''none''" and p = None and eo = None and pr = "[]"
               and rq = ?rq and app = "Some ''cockpit''" and dec = True and peer = None
               and spawned = "Some (42, 5, 6)"] p(4) g t
    by (simp add: test_json_get_string_def)
  have e: "sr_error (parse_cockpit_spawn_results ?E test_auth (test_sl ''basic'')
                  (Some (json_text ?broken)) None True)
             = Some (COCKPIT_ERROR_FAILED, ''Authentication failed: broken: oops'')"
    using parse_cockpit_spawn_results_errors
            [where response = "Some (json_text ?broken)" and env = ?E and self = test_auth
               and sl = "test_sl ''basic''" and hdrs = None and wp = True
               and d = "json_text ?broken" and r = ?broken and e = "''broken''"
               and m = "Some ''oops''" and p = None and eo = None and pr = "[]"
               and rq = ?rq and app = "Some ''cockpit''" and dec = True and peer = None
               and spawned = "Some (42, 5, 6)"] p(5) g
    by (simp add: test_json_get_string_def)
  have m: "?rq(''Authorization'' := None) = Map.empty"
    by (rule ext) simp
  have f: "cockpit_auth_spawn_login_async ?E (test_auth\<lparr>gssapi_not_avail := True\<rparr>)
             (Some ''cockpit'') ''negotiate'' True ?rq None (Some (42, 5, 6))
             = (test_auth\<lparr>gssapi_not_avail := True\<rparr>,
                \<lparr>source_tag = Some cockpit_auth_spawn_login_async_tag, op_res = None,
                 res_error = Some (COCKPIT_ERROR_AUTHENTICATION_FAILED,
                                   ''Authentication required'')\<rparr>,
                Map.empty)"
    using parse_cockpit_spawn_results_errors
            [where response = "Some (json_text ?broken)" and env = ?E
               and self = "test_auth\<lparr>gssapi_not_avail := True\<rparr>"
               and sl = "test_sl ''basic''" and hdrs = None and wp = True
               and d = "json_text ?broken" and r = ?broken and e = "''broken''"
               and m = "Some ''oops''" and p = None and eo = None and pr = "[]"
               and rq = ?rq and app = "Some ''cockpit''" and dec = True and peer = None
               and spawned = "Some (42, 5, 6)"] n m
    by simp
  from a obtain msg where
    "sr_error (parse_cockpit_spawn_results ?E test_auth (test_sl ''basic'')
        (Some ''not json'') None True) = Some (G_IO_ERROR_INVALID_DATA, msg)" ..
  then show ?thesis
    using i q b c d e n f by simp
qed


text \<open>
  \<open>authentication-unavailable\<close> for a type other than \<open>negotiate\<close> gives
  AuthenticationFailed, not Failed; \<open>permission-denied\<close> next to a prompt gives the
  prompt's AuthenticationFailed; \<open>permission-denied\<close> next to a message that is not a
  string gives InvalidData.
\<close>

theorem parse_cockpit_spawn_results_counterexample:
  "sr_error (parse_cockpit_spawn_results (test_env test_replies) test_auth (test_sl ''basic'')
       (Some (json_text [(''error'', JsonString ''authentication-unavailable''),
                         (''message'', JsonString ''none'')])) None True)
     = Some (COCKPIT_ERROR_AUTHENTICATION_FAILED, ''Authentication failed'')
   \<and> sr_error (parse_cockpit_spawn_results (test_env test_replies) test_auth (test_sl ''basic'')
       (Some (json_text [(''error'', JsonString ''permission-denied''),
                         (''prompt'', JsonString ''Password'')])) None True)
     = Some (COCKPIT_ERROR_AUTHENTICATION_FAILED, ''X-Login-Reply needed'')
   \<and> sr_error (parse_cockpit_spawn_results (test_env test_replies) test_auth (test_sl ''basic'')
       (Some (json_text [(''error'', JsonString ''permission-denied''),
                         (''message'', JsonBool True)])) None True)
     = Some (G_IO_ERROR_INVALID_DATA, ''Authentication failed: invalid results'')"
  by (simp add: parse_cockpit_spawn_results_def test_env_def test_json_parse_def
        test_replies_def json_text_def json_quote_def test_json_get_string_def test_sl_def
        spawn_error_results_def build_gssapi_output_header_def Let_def)



section \<open>Resuming a prompted login\<close>

lemma split_resume_header:
  "g_strsplit ''X-Login-Reply a91c MTIzNDU2'' (CHR '' '') 3
     = [''X-Login-Reply'', ''a91c'', ''MTIzNDU2'']"
  by (simp add: g_strsplit_def eval_nat_numeral)

lemma filter_eq_split:
  "d \<in> set s \<Longrightarrow>
   filter (\<lambda>c. c = d) s = d # filter (\<lambda>c. c = d) (tl (dropWhile (\<lambda>x. x \<noteq> d) s))"
  by (induction s) auto

lemma filter_eq_absent: "d \<notin> set s \<Longrightarrow> filter (\<lambda>c. c = d) s = []"
  by (induction s) auto

lemma drop_Suc_takeWhile:
  "drop (Suc (length (takeWhile P s))) s = tl (dropWhile P s)"
proof -
  have "drop (Suc (length (takeWhile P s))) s = tl (drop (length (takeWhile P s)) s)"
    by (simp add: drop_Suc tl_drop)
  then show ?thesis by (simp add: drop_length_takeWhile)
qed

lemma two_delimiters:
  "2 \<le> length (filter (\<lambda>c. c = d) h) \<longleftrightarrow>
     d \<in> set h \<and> d \<in> set (tl (dropWhile (\<lambda>x. x \<noteq> d) h))"
proof (cases "d \<in> set h")
  case False
  then show ?thesis by (simp add: filter_eq_absent)
next
  case True
  let ?rest = "tl (dropWhile (\<lambda>x. x \<noteq> d) h)"
  have "length (filter (\<lambda>c. c = d) h) = Suc (length (filter (\<lambda>c. c = d) ?rest))"
    using filter_eq_split [OF True] by simp
  moreover have "filter (\<lambda>c. c = d) ?rest \<noteq> [] \<longleftrightarrow> d \<in> set ?rest"
    by (simp add: filter_empty_conv)
  ultimately show ?thesis
    using True by (cases "filter (\<lambda>c. c = d) ?rest") simp_all
qed

lemma strsplit_pieces_2:
  "strsplit_pieces s d 2 =
     (case strchr s d of
        None \<Rightarrow> [s]
      | Some k \<Rightarrow>
          take k s #
            (case strchr (drop (Suc k) s) d of
               None \<Rightarrow> [drop (Suc k) s]
             | Some j \<Rightarrow> [take j (drop (Suc k) s), drop (Suc j) (drop (Suc k) s)]))"
  by (simp add: eval_nat_numeral split: option.splits)

lemma g_strsplit_3_parts:
  "g_strsplit h (CHR '' '') 3
     = (if h = [] then []
        else if CHR '' '' \<notin> set h then [h]
        else if CHR '' '' \<notin> set (tl (dropWhile (\<lambda>x. x \<noteq> CHR '' '') h))
        then [takeWhile (\<lambda>x. x \<noteq> CHR '' '') h, tl (dropWhile (\<lambda>x. x \<noteq> CHR '' '') h)]
        else [takeWhile (\<lambda>x. x \<noteq> CHR '' '') h,
              takeWhile (\<lambda>x. x \<noteq> CHR '' '') (tl (dropWhile (\<lambda>x. x \<noteq> CHR '' '') h)),
              tl (dropWhile (\<lambda>x. x \<noteq> CHR '' '')
                    (tl (dropWhile (\<lambda>x. x \<noteq> CHR '' '') h)))])"
  by (simp add: g_strsplit_def strsplit_pieces_2 strchr_eq take_length_takeWhile
        drop_Suc_takeWhile)

lemma g_strsplit_3_length:
  "length (g_strsplit h (CHR '' '') 3) = 3
     \<longleftrightarrow> 2 \<le> length (filter (\<lambda>c. c = CHR '' '') h)"
  by (simp add: g_strsplit_3_parts two_delimiters)

lemma resume_no_header:
  "hdrs ''Authorization'' = None \<Longrightarrow>
   cockpit_auth_resume_async env self hdrs
     = (self, \<lparr>source_tag = Some cockpit_auth_none_login_async_tag, op_res = None,
               res_error = Some invalid_resume_token\<rparr>, hdrs)"
  by (simp add: cockpit_auth_resume_async_def invalid_resume_token_def)

lemma resume_bad_shape:
  "hdrs ''Authorization'' = Some h \<Longrightarrow> length (g_strsplit h (CHR '' '') 3) \<noteq> 3 \<Longrightarrow>
   cockpit_auth_resume_async env self hdrs
     = (self, \<lparr>source_tag = Some cockpit_auth_none_login_async_tag, op_res = None,
               res_error = Some invalid_resume_token\<rparr>, hdrs)"
  by (simp add: cockpit_auth_resume_async_def invalid_resume_token_def)

lemma resume_unknown_id:
  "hdrs ''Authorization'' = Some h \<Longrightarrow>
   authentication_pending self (g_strsplit h (CHR '' '') 3 ! 1) = None \<Longrightarrow>
   cockpit_auth_resume_async env self hdrs
     = (self, \<lparr>source_tag = Some cockpit_auth_none_login_async_tag, op_res = None,
               res_error = Some invalid_resume_token\<rparr>, hdrs)"
  by (simp add: cockpit_auth_resume_async_def invalid_resume_token_def)

lemma resume_bad_payload:
  "hdrs ''Authorization'' = Some h \<Longrightarrow> length (g_strsplit h (CHR '' '') 3) = 3 \<Longrightarrow>
   authentication_pending self (g_strsplit h (CHR '' '') 3 ! 1) = Some ad \<Longrightarrow>
   g_base64_decode_inplace env (g_strsplit h (CHR '' '') 3 ! 2) = None
     \<or> g_base64_decode_inplace env (g_strsplit h (CHR '' '') 3 ! 2) = Some [] \<Longrightarrow>
   cockpit_auth_resume_async env self hdrs
     = (self\<lparr>authentication_pending :=
               (authentication_pending self)(g_strsplit h (CHR '' '') 3 ! 1 := None)\<rparr>,
        \<lparr>source_tag = Some (tag ad),
         op_res = Some (ad\<lparr>auth_pipe := (auth_pipe ad)\<lparr>purge_on_close := False\<rparr>\<rparr>),
         res_error = Some invalid_resume_token\<rparr>, hdrs)"
  by (auto simp add: cockpit_auth_resume_async_def invalid_resume_token_def Let_def)

lemma resume_success:
  "hdrs ''Authorization'' = Some h \<Longrightarrow> length (g_strsplit h (CHR '' '') 3) = 3 \<Longrightarrow>
   authentication_pending self (g_strsplit h (CHR '' '') 3 ! 1) = Some ad \<Longrightarrow>
   g_base64_decode_inplace env (g_strsplit h (CHR '' '') 3 ! 2) = Some payload \<Longrightarrow>
   payload \<noteq> [] \<Longrightarrow>
   cockpit_auth_resume_async env self hdrs
     = (self\<lparr>authentication_pending :=
               (authentication_pending self)(g_strsplit h (CHR '' '') 3 ! 1 := None)\<rparr>,
        \<lparr>source_tag = Some (tag ad),
         op_res = Some (ad\<lparr>auth_pipe := (auth_pipe ad)
                            \<lparr>purge_on_close := False,
                             answers := answers (auth_pipe ad) @ [payload]\<rparr>,
                          pending_result := True\<rparr>),
         res_error = None\<rparr>, hdrs)"
  by (simp add: cockpit_auth_resume_async_def Let_def)

lemma choose_login_finish_spawn_tag:
  "source_tag res = Some cockpit_auth_spawn_login_async_tag \<Longrightarrow>
   cockpit_auth_choose_login_finish env self res hdrs wp wt
     = cockpit_auth_spawn_login_finish env self res hdrs wp wt"
  by (simp add: cockpit_auth_choose_login_finish_def g_simple_async_result_is_valid_def)

lemma choose_login_finish_remote_tag:
  "source_tag res = Some cockpit_auth_remote_login_async_tag \<Longrightarrow>
   cockpit_auth_choose_login_finish env self res hdrs wp wt
     = cockpit_auth_remote_login_finish env self res hdrs wp wt"
  by (simp add: cockpit_auth_choose_login_finish_def g_simple_async_result_is_valid_def)

lemma spawn_login_async_tag:
  "op_res (fst (snd (cockpit_auth_spawn_login_async env self app t dec hdrs peer spawned))) = Some ad
   \<Longrightarrow> tag ad = cockpit_auth_spawn_login_async_tag
     \<and> source_tag (fst (snd (cockpit_auth_spawn_login_async env self app t dec hdrs peer spawned)))
         = Some (tag ad)"
  by (auto simp add: cockpit_auth_spawn_login_async_def Let_def
        split: authorization_result.splits prod.splits option.splits if_splits)

lemma remote_login_async_tag:
  "op_res (fst (snd (cockpit_auth_remote_login_async env self app t hdrs peer))) = Some ad
   \<Longrightarrow> tag ad = cockpit_auth_remote_login_async_tag
     \<and> source_tag (fst (snd (cockpit_auth_remote_login_async env self app t hdrs peer)))
         = Some (tag ad)"
  by (auto simp add: cockpit_auth_remote_login_async_def Let_def
        split: authorization_result.splits prod.splits option.splits if_splits)

lemma prepare_login_reply_pending:
  "cockpit_auth_prepare_login_reply env self pd hdrs ad = Some (self', pd', hdrs') \<Longrightarrow>
   \<not> pending_result ad \<Longrightarrow>
   authentication_pending self' (ad_id ad)
     = Some (ad\<lparr>auth_pipe := (auth_pipe ad)\<lparr>purge_on_close := True\<rparr>\<rparr>)"
  by (auto simp add: cockpit_auth_prepare_login_reply_def Let_def split: option.splits)


text \<open>
  C6 (amended): \<open>g_strsplit\<close> cuts the \<open>Authorization\<close> value at its first two
  spaces, so there are three parts exactly when the value has at least two spaces, and
  the third part is all that follows the second space. A resume request fails with
  AuthenticationFailed "Invalid resume token" when the header is absent, when there
  are not three parts, when the second part is not an id of the pending table, and when
  \<open>g_base64_decode_inplace\<close> returns NULL for the third part or decodes it to no
  bytes. In every other case it succeeds: the id is gone from the pending table, the
  decoded payload is appended to what the dialogue's pipe was sent, and the result
  carries the dialogue's tag, by which \<open>cockpit_auth_choose_login_finish\<close> picks the
  finish function; the tag is the one the first step's result carried.
\<close>

theorem resume_async_token:
  "(length (g_strsplit v (CHR '' '') 3) = 3
      \<longleftrightarrow> 2 \<le> length (filter (\<lambda>c. c = CHR '' '') v))
   \<and> (2 \<le> length (filter (\<lambda>c. c = CHR '' '') v)
      \<longrightarrow> g_strsplit v (CHR '' '') 3
            = [takeWhile (\<lambda>x. x \<noteq> CHR '' '') v,
               takeWhile (\<lambda>x. x \<noteq> CHR '' '') (tl (dropWhile (\<lambda>x. x \<noteq> CHR '' '') v)),
               tl (dropWhile (\<lambda>x. x \<noteq> CHR '' '')
                     (tl (dropWhile (\<lambda>x. x \<noteq> CHR '' '') v)))])
   \<and> (hdrs ''Authorization'' = None
      \<or> (\<exists>h. hdrs ''Authorization'' = Some h
             \<and> (length (g_strsplit h (CHR '' '') 3) \<noteq> 3
                  \<or> authentication_pending self (g_strsplit h (CHR '' '') 3 ! 1) = None
                  \<or> g_base64_decode_inplace env (g_strsplit h (CHR '' '') 3 ! 2) = None
                  \<or> g_base64_decode_inplace env (g_strsplit h (CHR '' '') 3 ! 2) = Some []))
      \<longrightarrow> res_error (fst (snd (cockpit_auth_resume_async env self hdrs)))
            = Some invalid_resume_token)
   \<and> (hdrs ''Authorization'' = Some h \<and> g_strsplit h (CHR '' '') 3 = [reply, ident, b64]
        \<and> authentication_pending self ident = Some ad
        \<and> g_base64_decode_inplace env b64 = Some payload \<and> payload \<noteq> []
      \<longrightarrow> cockpit_auth_resume_async env self hdrs
            = (self\<lparr>authentication_pending := (authentication_pending self)(ident := None)\<rparr>,
               \<lparr>source_tag = Some (tag ad),
                op_res = Some (ad\<lparr>auth_pipe := (auth_pipe ad)
                                   \<lparr>purge_on_close := False,
                                    answers := answers (auth_pipe ad) @ [payload]\<rparr>,
                                 pending_result := True\<rparr>),
                res_error = None\<rparr>, hdrs))
   \<and> (source_tag res = Some cockpit_auth_spawn_login_async_tag
      \<longrightarrow> cockpit_auth_choose_login_finish env self res oh wp wt
            = cockpit_auth_spawn_login_finish env self res oh wp wt)
   \<and> (source_tag res = Some cockpit_auth_remote_login_async_tag
      \<longrightarrow> cockpit_auth_choose_login_finish env self res oh wp wt
            = cockpit_auth_remote_login_finish env self res oh wp wt)
   \<and> (op_res (fst (snd (cockpit_auth_spawn_login_async env self app t dec hdrs peer spawned)))
          = Some ad1
      \<longrightarrow> source_tag (fst (snd (cockpit_auth_spawn_login_async env self app t dec hdrs peer
                                   spawned))) = Some (tag ad1))
   \<and> (op_res (fst (snd (cockpit_auth_remote_login_async env self app t hdrs peer))) = Some ad2
      \<longrightarrow> source_tag (fst (snd (cockpit_auth_remote_login_async env self app t hdrs peer)))
            = Some (tag ad2))"
proof (intro conjI impI)
  show "length (g_strsplit v (CHR '' '') 3) = 3
          \<longleftrightarrow> 2 \<le> length (filter (\<lambda>c. c = CHR '' '') v)"
    by (rule g_strsplit_3_length)
  show "g_strsplit v (CHR '' '') 3
            = [takeWhile (\<lambda>x. x \<noteq> CHR '' '') v,
               takeWhile (\<lambda>x. x \<noteq> CHR '' '') (tl (dropWhile (\<lambda>x. x \<noteq> CHR '' '') v)),
               tl (dropWhile (\<lambda>x. x \<noteq> CHR '' '')
                     (tl (dropWhile (\<lambda>x. x \<noteq> CHR '' '') v)))]"
    if "2 \<le> length (filter (\<lambda>c. c = CHR '' '') v)"
    using that two_delimiters [of "CHR '' ''" v] by (auto simp add: g_strsplit_3_parts)
next
  assume a: "hdrs ''Authorization'' = None
      \<or> (\<exists>h. hdrs ''Authorization'' = Some h
             \<and> (length (g_strsplit h (CHR '' '') 3) \<noteq> 3
                  \<or> authentication_pending self (g_strsplit h (CHR '' '') 3 ! 1) = None
                  \<or> g_base64_decode_inplace env (g_strsplit h (CHR '' '') 3 ! 2) = None
                  \<or> g_base64_decode_inplace env (g_strsplit h (CHR '' '') 3 ! 2) = Some []))"
  show "res_error (fst (snd (cockpit_auth_resume_async env self hdrs)))
          = Some invalid_resume_token"
  proof (cases "hdrs ''Authorization''")
    case None
    then show ?thesis by (simp add: resume_no_header)
  next
    case (Some h)
    let ?ps = "g_strsplit h (CHR '' '') 3"
    show ?thesis
    proof (cases "length ?ps = 3")
      case False
      then show ?thesis using Some by (simp add: resume_bad_shape)
    next
      case True
      show ?thesis
      proof (cases "authentication_pending self (?ps ! 1)")
        case None
        then show ?thesis using Some by (simp add: resume_unknown_id)
      next
        case (Some ad)
        then have "g_base64_decode_inplace env (?ps ! 2) = None
                   \<or> g_base64_decode_inplace env (?ps ! 2) = Some []"
          using a True \<open>hdrs ''Authorization'' = Some h\<close> by auto
        then show ?thesis
          using resume_bad_payload [of hdrs h self ad env] True Some
                \<open>hdrs ''Authorization'' = Some h\<close>
          by simp
      qed
    qed
  qed
next
  assume b: "hdrs ''Authorization'' = Some h \<and> g_strsplit h (CHR '' '') 3 = [reply, ident, b64]
        \<and> authentication_pending self ident = Some ad
        \<and> g_base64_decode_inplace env b64 = Some payload \<and> payload \<noteq> []"
  then show "cockpit_auth_resume_async env self hdrs
            = (self\<lparr>authentication_pending := (authentication_pending self)(ident := None)\<rparr>,
               \<lparr>source_tag = Some (tag ad),
                op_res = Some (ad\<lparr>auth_pipe := (auth_pipe ad)
                                   \<lparr>purge_on_close := False,
                                    answers := answers (auth_pipe ad) @ [payload]\<rparr>,
                                 pending_result := True\<rparr>),
                res_error = None\<rparr>, hdrs)"
    using resume_success [of hdrs h self ad env payload] by simp
next
  show "cockpit_auth_choose_login_finish env self res oh wp wt
          = cockpit_auth_spawn_login_finish env self res oh wp wt"
    if "source_tag res = Some cockpit_auth_spawn_login_async_tag"
    using that by (rule choose_login_finish_spawn_tag)
  show "cockpit_auth_choose_login_finish env self res oh wp wt
          = cockpit_auth_remote_login_finish env self res oh wp wt"
    if "source_tag res = Some cockpit_auth_remote_login_async_tag"
    using that by (rule choose_login_finish_remote_tag)
  show "source_tag (fst (snd (cockpit_auth_spawn_login_async env self app t dec hdrs peer
                                 spawned))) = Some (tag ad1)"
    if "op_res (fst (snd (cockpit_auth_spawn_login_async env self app t dec hdrs peer spawned)))
          = Some ad1"
    using that spawn_login_async_tag by blast
  show "source_tag (fst (snd (cockpit_auth_remote_login_async env self app t hdrs peer)))
          = Some (tag ad2)"
    if "op_res (fst (snd (cockpit_auth_remote_login_async env self app t hdrs peer))) = Some ad2"
    using that remote_login_async_tag by blast
qed


theorem resume_async_token_witness:
  "g_strsplit ''X-Login-Reply a91c MTIz NDU2'' (CHR '' '') 3
     = [''X-Login-Reply'', ''a91c'', ''MTIz NDU2'']
   \<and> res_error (fst (snd (cockpit_auth_resume_async (test_env test_replies) test_prompted
       [''Authorization'' \<mapsto> ''X-Login-Reply''])))
     = Some invalid_resume_token
   \<and> authentication_pending
       (fst (cockpit_auth_resume_async (test_env test_replies) test_prompted
          [''Authorization'' \<mapsto> ''X-Login-Reply a91c MTIzNDU2''])) ''a91c'' = None
   \<and> fst (snd (cockpit_auth_resume_async (test_env test_replies) test_prompted
          [''Authorization'' \<mapsto> ''X-Login-Reply a91c MTIzNDU2'']))
     = \<lparr>source_tag = Some cockpit_auth_spawn_login_async_tag,
        op_res = Some (test_ad\<lparr>auth_pipe := (auth_pipe test_ad)
                                \<lparr>purge_on_close := False,
                                 answers := [''user:pwd'', ''123456'']\<rparr>,
                              pending_result := True\<rparr>),
        res_error = None\<rparr>
   \<and> cockpit_auth_choose_login_finish (test_env test_replies) test_auth
       \<lparr>source_tag = Some cockpit_auth_spawn_login_async_tag, op_res = Some test_ad,
        res_error = None\<rparr> None True True
     = cockpit_auth_spawn_login_finish (test_env test_replies) test_auth
         \<lparr>source_tag = Some cockpit_auth_spawn_login_async_tag, op_res = Some test_ad,
          res_error = None\<rparr> None True True"
proof -
  let ?E = "test_env test_replies"
  let ?short = "[''Authorization'' \<mapsto> ''X-Login-Reply'']"
  let ?good = "[''Authorization'' \<mapsto> ''X-Login-Reply a91c MTIzNDU2'']"
  let ?res = "\<lparr>source_tag = Some cockpit_auth_spawn_login_async_tag, op_res = Some test_ad,
               res_error = None\<rparr>"
  have s1: "g_strsplit ''X-Login-Reply'' (CHR '' '') 3 = [''X-Login-Reply'']"
    by (simp add: g_strsplit_def eval_nat_numeral)
  have b: "g_base64_decode_inplace ?E ''MTIzNDU2'' = Some ''123456''"
    by (simp add: test_env_def test_base64_decode_inplace_def base64_rank_def
          base64_alphabet_def char_of_eq_iff)
  have p: "authentication_pending test_prompted ''a91c'' = Some test_ad"
    by (simp add: test_prompted_def)
  have v: "g_strsplit ''X-Login-Reply a91c MTIz NDU2'' (CHR '' '') 3
             = [''X-Login-Reply'', ''a91c'', ''MTIz NDU2'']"
    using resume_async_token
            [where v = "''X-Login-Reply a91c MTIz NDU2''", THEN conjunct2, THEN conjunct1]
    by simp
  have f: "res_error (fst (snd (cockpit_auth_resume_async ?E test_prompted ?short)))
             = Some invalid_resume_token"
    using resume_async_token [where hdrs = ?short and env = ?E and self = test_prompted] s1
    by simp
  have g: "cockpit_auth_resume_async ?E test_prompted ?good
             = (test_prompted\<lparr>authentication_pending :=
                                 (authentication_pending test_prompted)(''a91c'' := None)\<rparr>,
                \<lparr>source_tag = Some (tag test_ad),
                 op_res = Some (test_ad\<lparr>auth_pipe := (auth_pipe test_ad)
                                    \<lparr>purge_on_close := False,
                                     answers := answers (auth_pipe test_ad) @ [''123456'']\<rparr>,
                                  pending_result := True\<rparr>),
                 res_error = None\<rparr>, ?good)"
    using resume_async_token
            [where hdrs = ?good and env = ?E and self = test_prompted
               and h = "''X-Login-Reply a91c MTIzNDU2''" and reply = "''X-Login-Reply''"
               and ident = "''a91c''" and ?b64.0 = "''MTIzNDU2''" and ad = test_ad
               and payload = "''123456''"]
          split_resume_header b p
    by simp
  have d: "cockpit_auth_choose_login_finish ?E test_auth ?res None True True
             = cockpit_auth_spawn_login_finish ?E test_auth ?res None True True"
    using resume_async_token [where res = ?res and env = ?E and self = test_auth]
    by simp
  show ?thesis
    using v f g d by (simp add: test_ad_def)
qed

text \<open>
  A value of four words is cut into three parts, the third with a space in it, and
  the decoder of GLib passes over the bytes that are not of the alphabet: both
  requests are accepted, and the pipe is sent \<open>123456\<close>.
\<close>

theorem resume_async_counterexample:
  "length (space_separated ''X-Login-Reply a91c MTIz NDU2'') = 4
   \<and> \<not> valid_base64 ''MTIz NDU2''
   \<and> fst (snd (cockpit_auth_resume_async (test_env test_replies) test_prompted
          [''Authorization'' \<mapsto> ''X-Login-Reply a91c MTIz NDU2'']))
     = \<lparr>source_tag = Some cockpit_auth_spawn_login_async_tag,
        op_res = Some (test_ad\<lparr>auth_pipe := (auth_pipe test_ad)
                                \<lparr>purge_on_close := False,
                                 answers := [''user:pwd'', ''123456'']\<rparr>,
                              pending_result := True\<rparr>),
        res_error = None\<rparr>
   \<and> \<not> valid_base64 ''MTIz*NDU2''
   \<and> fst (snd (cockpit_auth_resume_async (test_env test_replies) test_prompted
          [''Authorization'' \<mapsto> ''X-Login-Reply a91c MTIz*NDU2'']))
     = \<lparr>source_tag = Some cockpit_auth_spawn_login_async_tag,
        op_res = Some (test_ad\<lparr>auth_pipe := (auth_pipe test_ad)
                                \<lparr>purge_on_close := False,
                                 answers := [''user:pwd'', ''123456'']\<rparr>,
                              pending_result := True\<rparr>),
        res_error = None\<rparr>"
proof -
  let ?E = "test_env test_replies"
  have s: "g_strsplit ''X-Login-Reply a91c MTIz NDU2'' (CHR '' '') 3
             = [''X-Login-Reply'', ''a91c'', ''MTIz NDU2'']"
          "g_strsplit ''X-Login-Reply a91c MTIz*NDU2'' (CHR '' '') 3
             = [''X-Login-Reply'', ''a91c'', ''MTIz*NDU2'']"
    by (simp_all add: g_strsplit_def eval_nat_numeral)
  have b: "g_base64_decode_inplace ?E ''MTIz NDU2'' = Some ''123456''"
          "g_base64_decode_inplace ?E ''MTIz*NDU2'' = Some ''123456''"
    by (simp_all add: test_env_def test_base64_decode_inplace_def base64_rank_def
          base64_alphabet_def char_of_eq_iff)
  have p: "authentication_pending test_prompted ''a91c'' = Some test_ad"
    by (simp add: test_prompted_def)
  have w: "length (space_separated ''X-Login-Reply a91c MTIz NDU2'') = 4"
    by simp
  have n: "\<not> valid_base64 ''MTIz NDU2''" "\<not> valid_base64 ''MTIz*NDU2''"
    by (simp_all add: valid_base64_def base64_alphabet_def)
  have 1: "fst (snd (cockpit_auth_resume_async ?E test_prompted
                  [''Authorization'' \<mapsto> ''X-Login-Reply a91c MTIz NDU2'']))
             = \<lparr>source_tag = Some (tag test_ad),
                op_res = Some (test_ad\<lparr>auth_pipe := (auth_pipe test_ad)
                                   \<lparr>purge_on_close := False,
                                    answers := answers (auth_pipe test_ad) @ [''123456'']\<rparr>,
                                 pending_result := True\<rparr>),
                res_error = None\<rparr>"
    using resume_success
            [of "[''Authorization'' \<mapsto> ''X-Login-Reply a91c MTIz NDU2'']"
                "''X-Login-Reply a91c MTIz NDU2''" test_prompted test_ad ?E "''123456''"]
          s(1) b(1) p
    by simp
  have 2: "fst (snd (cockpit_auth_resume_async ?E test_prompted
                  [''Authorization'' \<mapsto> ''X-Login-Reply a91c MTIz*NDU2'']))
             = \<lparr>source_tag = Some (tag test_ad),
                op_res = Some (test_ad\<lparr>auth_pipe := (auth_pipe test_ad)
                                   \<lparr>purge_on_close := False,
                                    answers := answers (auth_pipe test_ad) @ [''123456'']\<rparr>,
                                 pending_result := True\<rparr>),
                res_error = None\<rparr>"
    using resume_success
            [of "[''Authorization'' \<mapsto> ''X-Login-Reply a91c MTIz*NDU2'']"
                "''X-Login-Reply a91c MTIz*NDU2''" test_prompted test_ad ?E "''123456''"]
          s(2) b(2) p
    by simp
  show ?thesis
    using w n 1 2 by (simp add: test_ad_def)
qed

text \<open>
  C10 (amended): when the three-part \<open>Authorization\<close> value of a resume request
  names an id of the pending table, the id is removed whatever the payload is. If
  \<open>g_base64_decode_inplace\<close> returns NULL for the payload or decodes it to no
  bytes, the request fails with "Invalid resume token", the dialogue is no longer
  pending, and every later resume request fails as well when it names that id. If the
  payload decodes to at least one byte the request is accepted, with the id removed
  as well.
\<close>

theorem resume_async_evicts:
  "hdrs ''Authorization'' = Some h \<and> g_strsplit h (CHR '' '') 3 = [reply, ident, b64]
     \<and> authentication_pending self ident = Some ad
   \<longrightarrow> authentication_pending (fst (cockpit_auth_resume_async env self hdrs)) ident = None
       \<and> authentication_pending (fst (cockpit_auth_resume_async env self hdrs))
           = (authentication_pending self)(ident := None)
       \<and> (g_base64_decode_inplace env b64 = None \<or> g_base64_decode_inplace env b64 = Some []
            \<longrightarrow> res_error (fst (snd (cockpit_auth_resume_async env self hdrs)))
                  = Some invalid_resume_token
                \<and> (\<forall>hdrs2 h2 reply2 b642.
                      hdrs2 ''Authorization'' = Some h2
                      \<and> g_strsplit h2 (CHR '' '') 3 = [reply2, ident, b642]
                      \<longrightarrow> res_error (fst (snd (cockpit_auth_resume_async env
                                 (fst (cockpit_auth_resume_async env self hdrs)) hdrs2)))
                            = Some invalid_resume_token
                          \<and> op_res (fst (snd (cockpit_auth_resume_async env
                                 (fst (cockpit_auth_resume_async env self hdrs)) hdrs2)))
                            = None))
       \<and> (g_base64_decode_inplace env b64 = Some payload \<and> payload \<noteq> []
            \<longrightarrow> res_error (fst (snd (cockpit_auth_resume_async env self hdrs))) = None)"
proof (intro impI)
  assume a: "hdrs ''Authorization'' = Some h \<and> g_strsplit h (CHR '' '') 3 = [reply, ident, b64]
     \<and> authentication_pending self ident = Some ad"
  have gone: "authentication_pending (fst (cockpit_auth_resume_async env self hdrs))
                = (authentication_pending self)(ident := None)"
  proof (cases "g_base64_decode_inplace env b64 = None
                \<or> g_base64_decode_inplace env b64 = Some []")
    case True
    then show ?thesis
      using a resume_bad_payload [of hdrs h self ad env] by simp
  next
    case False
    then obtain payload where "g_base64_decode_inplace env b64 = Some payload" "payload \<noteq> []"
      by auto
    then show ?thesis
      using a resume_success [of hdrs h self ad env payload] by simp
  qed
  have bad: "res_error (fst (snd (cockpit_auth_resume_async env self hdrs)))
               = Some invalid_resume_token"
    if "g_base64_decode_inplace env b64 = None \<or> g_base64_decode_inplace env b64 = Some []"
    using that a resume_bad_payload [of hdrs h self ad env] by simp
  have again: "res_error (fst (snd (cockpit_auth_resume_async env
                   (fst (cockpit_auth_resume_async env self hdrs)) hdrs2)))
                 = Some invalid_resume_token
               \<and> op_res (fst (snd (cockpit_auth_resume_async env
                   (fst (cockpit_auth_resume_async env self hdrs)) hdrs2))) = None"
    if "hdrs2 ''Authorization'' = Some h2 \<and> g_strsplit h2 (CHR '' '') 3 = [reply2, ident, b642]"
    for hdrs2 h2 reply2 b642
    using that gone
          resume_unknown_id [of hdrs2 h2 "fst (cockpit_auth_resume_async env self hdrs)" env]
    by simp
  show "authentication_pending (fst (cockpit_auth_resume_async env self hdrs)) ident = None
       \<and> authentication_pending (fst (cockpit_auth_resume_async env self hdrs))
           = (authentication_pending self)(ident := None)
       \<and> (g_base64_decode_inplace env b64 = None \<or> g_base64_decode_inplace env b64 = Some []
            \<longrightarrow> res_error (fst (snd (cockpit_auth_resume_async env self hdrs)))
                  = Some invalid_resume_token
                \<and> (\<forall>hdrs2 h2 reply2 b642.
                      hdrs2 ''Authorization'' = Some h2
                      \<and> g_strsplit h2 (CHR '' '') 3 = [reply2, ident, b642]
                      \<longrightarrow> res_error (fst (snd (cockpit_auth_resume_async env
                                 (fst (cockpit_auth_resume_async env self hdrs)) hdrs2)))
                            = Some invalid_resume_token
                          \<and> op_res (fst (snd (cockpit_auth_resume_async env
                                 (fst (cockpit_auth_resume_async env self hdrs)) hdrs2)))
                            = None))
       \<and> (g_base64_decode_inplace env b64 = Some payload \<and> payload \<noteq> []
            \<longrightarrow> res_error (fst (snd (cockpit_auth_resume_async env self hdrs))) = None)"
  proof (intro conjI impI allI)
    show "res_error (fst (snd (cockpit_auth_resume_async env self hdrs))) = None"
      if "g_base64_decode_inplace env b64 = Some payload \<and> payload \<noteq> []"
      using that a resume_success [of hdrs h self ad env payload] by simp
    show "authentication_pending (fst (cockpit_auth_resume_async env self hdrs)) ident = None"
      by (simp add: gone)
    show "authentication_pending (fst (cockpit_auth_resume_async env self hdrs))
            = (authentication_pending self)(ident := None)"
      by (rule gone)
    show "res_error (fst (snd (cockpit_auth_resume_async env self hdrs)))
            = Some invalid_resume_token"
      if "g_base64_decode_inplace env b64 = None \<or> g_base64_decode_inplace env b64 = Some []"
      using that by (rule bad)
    show "res_error (fst (snd (cockpit_auth_resume_async env
              (fst (cockpit_auth_resume_async env self hdrs)) hdrs2)))
            = Some invalid_resume_token"
      if "hdrs2 ''Authorization'' = Some h2
            \<and> g_strsplit h2 (CHR '' '') 3 = [reply2, ident, b642]"
      for hdrs2 h2 reply2 b642
      using again [of hdrs2 h2 reply2 b642] that by simp
    show "op_res (fst (snd (cockpit_auth_resume_async env
              (fst (cockpit_auth_resume_async env self hdrs)) hdrs2))) = None"
      if "hdrs2 ''Authorization'' = Some h2
            \<and> g_strsplit h2 (CHR '' '') 3 = [reply2, ident, b642]"
      for hdrs2 h2 reply2 b642
      using again [of hdrs2 h2 reply2 b642] that by simp
  qed
qed

theorem resume_async_evicts_witness:
  "authentication_pending test_prompted ''a91c'' = Some test_ad
   \<and> g_base64_decode_inplace (test_env test_replies) ''!'' = None
   \<and> authentication_pending
       (fst (cockpit_auth_resume_async (test_env test_replies) test_prompted
          [''Authorization'' \<mapsto> ''X-Login-Reply a91c !''])) ''a91c'' = None
   \<and> res_error (fst (snd (cockpit_auth_resume_async (test_env test_replies) test_prompted
          [''Authorization'' \<mapsto> ''X-Login-Reply a91c !''])))
     = Some invalid_resume_token
   \<and> res_error (fst (snd (cockpit_auth_resume_async (test_env test_replies)
          (fst (cockpit_auth_resume_async (test_env test_replies) test_prompted
             [''Authorization'' \<mapsto> ''X-Login-Reply a91c !'']))
          [''Authorization'' \<mapsto> ''X-Login-Reply a91c MTIzNDU2''])))
     = Some invalid_resume_token
   \<and> authentication_pending
       (fst (cockpit_auth_resume_async (test_env test_replies) test_prompted
          [''Authorization'' \<mapsto> ''X-Login-Reply a91c MTIzNDU2''])) ''a91c'' = None
   \<and> res_error (fst (snd (cockpit_auth_resume_async (test_env test_replies) test_prompted
          [''Authorization'' \<mapsto> ''X-Login-Reply a91c MTIzNDU2''])))
     = None"
proof -
  let ?E = "test_env test_replies"
  let ?bad = "[''Authorization'' \<mapsto> ''X-Login-Reply a91c !'']"
  let ?good = "[''Authorization'' \<mapsto> ''X-Login-Reply a91c MTIzNDU2'']"
  have s: "g_strsplit ''X-Login-Reply a91c !'' (CHR '' '') 3 = [''X-Login-Reply'', ''a91c'', ''!'']"
    by (simp add: g_strsplit_def eval_nat_numeral)
  have b: "g_base64_decode_inplace ?E ''!'' = None"
    by (simp add: test_env_def test_base64_decode_inplace_def)
  have p: "authentication_pending test_prompted ''a91c'' = Some test_ad"
    by (simp add: test_prompted_def)
  have g: "g_base64_decode_inplace ?E ''MTIzNDU2'' = Some ''123456''"
    by (simp add: test_env_def test_base64_decode_inplace_def base64_rank_def
          base64_alphabet_def char_of_eq_iff)
  have 1: "authentication_pending (fst (cockpit_auth_resume_async ?E test_prompted ?bad))
             ''a91c'' = None
           \<and> res_error (fst (snd (cockpit_auth_resume_async ?E test_prompted ?bad)))
               = Some invalid_resume_token
           \<and> res_error (fst (snd (cockpit_auth_resume_async ?E
                  (fst (cockpit_auth_resume_async ?E test_prompted ?bad)) ?good)))
               = Some invalid_resume_token"
    using resume_async_evicts
            [where hdrs = ?bad and env = ?E and self = test_prompted
               and h = "''X-Login-Reply a91c !''" and reply = "''X-Login-Reply''"
               and ident = "''a91c''" and ?b64.0 = "''!''" and ad = test_ad
               and payload = "''123456''"]
          s b p split_resume_header
    by simp
  have 2: "authentication_pending (fst (cockpit_auth_resume_async ?E test_prompted ?good))
             ''a91c'' = None
           \<and> res_error (fst (snd (cockpit_auth_resume_async ?E test_prompted ?good))) = None"
    using resume_async_evicts
            [where hdrs = ?good and env = ?E and self = test_prompted
               and h = "''X-Login-Reply a91c MTIzNDU2''" and reply = "''X-Login-Reply''"
               and ident = "''a91c''" and ?b64.0 = "''MTIzNDU2''" and ad = test_ad
               and payload = "''123456''"]
          g p split_resume_header
    by simp
  show ?thesis
    using 1 2 b p by simp
qed

text \<open>
  A payload that is not base64 text and of which GLib decodes one byte: the id is
  removed and the request is accepted, the pipe being sent \<open>M\<close>.
\<close>

theorem resume_async_evicts_counterexample:
  "\<not> valid_base64 ''!!!!TQ==''
   \<and> authentication_pending test_prompted ''a91c'' = Some test_ad
   \<and> authentication_pending
       (fst (cockpit_auth_resume_async (test_env test_replies) test_prompted
          [''Authorization'' \<mapsto> ''X-Login-Reply a91c !!!!TQ==''])) ''a91c'' = None
   \<and> res_error (fst (snd (cockpit_auth_resume_async (test_env test_replies) test_prompted
          [''Authorization'' \<mapsto> ''X-Login-Reply a91c !!!!TQ==''])))
     = None
   \<and> map_option (\<lambda>ad. answers (auth_pipe ad))
       (op_res (fst (snd (cockpit_auth_resume_async (test_env test_replies) test_prompted
          [''Authorization'' \<mapsto> ''X-Login-Reply a91c !!!!TQ=='']))))
     = Some [''user:pwd'', ''M'']"
proof -
  let ?E = "test_env test_replies"
  let ?h = "[''Authorization'' \<mapsto> ''X-Login-Reply a91c !!!!TQ=='']"
  have s: "g_strsplit ''X-Login-Reply a91c !!!!TQ=='' (CHR '' '') 3
             = [''X-Login-Reply'', ''a91c'', ''!!!!TQ=='']"
    by (simp add: g_strsplit_def eval_nat_numeral)
  have b: "g_base64_decode_inplace ?E ''!!!!TQ=='' = Some ''M''"
    by (simp add: test_env_def test_base64_decode_inplace_def base64_rank_def
          base64_alphabet_def char_of_eq_iff)
  have p: "authentication_pending test_prompted ''a91c'' = Some test_ad"
    by (simp add: test_prompted_def)
  have n: "\<not> valid_base64 ''!!!!TQ==''"
    by (simp add: valid_base64_def base64_alphabet_def)
  have r: "cockpit_auth_resume_async ?E test_prompted ?h
             = (test_prompted\<lparr>authentication_pending :=
                                 (authentication_pending test_prompted)(''a91c'' := None)\<rparr>,
                \<lparr>source_tag = Some (tag test_ad),
                 op_res = Some (test_ad\<lparr>auth_pipe := (auth_pipe test_ad)
                                    \<lparr>purge_on_close := False,
                                     answers := answers (auth_pipe test_ad) @ [''M'']\<rparr>,
                                  pending_result := True\<rparr>),
                 res_error = None\<rparr>, ?h)"
    using resume_success [of ?h "''X-Login-Reply a91c !!!!TQ==''" test_prompted test_ad ?E "''M''"]
          s b p
    by simp
  show ?thesis
    using n p r by (simp add: test_ad_def)
qed



section \<open>The startups counter\<close>

lemma nonce_startups [simp]: "startups (snd (cockpit_auth_nonce env self)) = startups self"
  by (simp add: cockpit_auth_nonce_def)

lemma spawn_login_async_startups:
  "startups (fst (cockpit_auth_spawn_login_async env self app t dec hdrs peer spawned))
     = startups self"
  by (simp add: cockpit_auth_spawn_login_async_def cockpit_auth_nonce_def Let_def
        g_bytes_unref_def
        split: authorization_result.splits prod.splits option.splits)

lemma remote_login_async_startups:
  "startups (fst (cockpit_auth_remote_login_async env self app t hdrs peer)) = startups self"
  by (simp add: cockpit_auth_remote_login_async_def cockpit_auth_nonce_def Let_def
        split: authorization_result.splits prod.splits option.splits)

lemma resume_async_startups:
  "startups (fst (cockpit_auth_resume_async env self hdrs)) = startups self"
  by (simp add: cockpit_auth_resume_async_def Let_def split: option.splits)

lemma none_login_async_startups:
  "startups (fst (cockpit_auth_none_login_async self hdrs)) = startups self"
  by (simp add: cockpit_auth_none_login_async_def)

lemma choose_login_async_startups:
  "startups (fst (cockpit_auth_choose_login_async env self path hdrs peer spawned))
     = startups self"
  by (simp add: cockpit_auth_choose_login_async_def Let_def spawn_login_async_startups
        remote_login_async_startups resume_async_startups none_login_async_startups)

lemma login_async_startups:
  "startups (fst (cockpit_auth_login_async env self path hdrs peer r spawned))
     = startups self + 1"
  by (simp add: cockpit_auth_login_async_def Let_def choose_login_async_startups)

lemma spawn_error_results_startups:
  "startups (snd (spawn_error_results self sl e m)) = startups self"
  by (simp add: spawn_error_results_def)

lemma create_creds_startups:
  "startups (snd (create_creds_for_spawn_authenticated env self u sl r raw)) = startups self"
  by (simp add: create_creds_for_spawn_authenticated_def cockpit_auth_nonce_def Let_def
        split: prod.splits)

lemma spawn_results_startups:
  "startups (sr_self (parse_cockpit_spawn_results env self sl response hdrs wp))
     = startups self"
  by (auto simp add: parse_cockpit_spawn_results_def Let_def spawn_error_results_startups
        create_creds_startups split_beta split: option.splits json_parse.splits)

lemma prepare_login_reply_startups:
  "cockpit_auth_prepare_login_reply env self pd hdrs ad = Some (self', pd', hdrs')
     \<Longrightarrow> startups self' = startups self"
  by (auto simp add: cockpit_auth_prepare_login_reply_def Let_def
        split: if_splits option.splits)

lemma spawn_login_finish_startups:
  "cockpit_auth_spawn_login_finish env self res hdrs wp wt = Some fo
     \<Longrightarrow> startups (out_self fo) = startups self"
  by (auto simp add: cockpit_auth_spawn_login_finish_def Let_def spawn_results_startups
        dest: prepare_login_reply_startups
        split: option.splits login_data.splits prod.splits)

lemma remote_login_finish_startups:
  "cockpit_auth_remote_login_finish env self res hdrs wp wt = Some fo
     \<Longrightarrow> startups (out_self fo) = startups self"
  by (auto simp add: cockpit_auth_remote_login_finish_def Let_def
        dest: prepare_login_reply_startups
        split: option.splits login_data.splits prod.splits if_splits)

lemma choose_login_finish_startups:
  "cockpit_auth_choose_login_finish env self res hdrs wp wt = Some fo
     \<Longrightarrow> startups (out_self fo) = startups self"
  by (auto simp add: cockpit_auth_choose_login_finish_def cockpit_auth_none_login_finish_def
        dest: spawn_login_finish_startups remote_login_finish_startups
        split: if_splits)

lemma login_finish_startups:
  "cockpit_auth_login_finish env self res flags hdrs = Some out
     \<Longrightarrow> startups (lf_self out) = startups self - 1"
  by (auto simp add: cockpit_auth_login_finish_def Let_def cockpit_auth_nonce_def
        dest: choose_login_finish_startups
        split: option.splits prod.splits)


lemma spawn_login_async_tagged:
  "source_tag (fst (snd (cockpit_auth_spawn_login_async env self app t dec hdrs peer spawned)))
     = Some cockpit_auth_spawn_login_async_tag"
  by (simp add: cockpit_auth_spawn_login_async_def Let_def split_beta split: authorization_result.splits option.splits)

lemma remote_login_async_tagged:
  "source_tag (fst (snd (cockpit_auth_remote_login_async env self app t hdrs peer)))
     = Some cockpit_auth_remote_login_async_tag"
  by (simp add: cockpit_auth_remote_login_async_def Let_def split_beta split: authorization_result.splits option.splits)

lemma resume_async_tagged:
  "\<exists>t. source_tag (fst (snd (cockpit_auth_resume_async env self hdrs))) = Some t"
  by (simp add: cockpit_auth_resume_async_def Let_def split: option.splits)

lemma choose_login_async_tagged:
  "\<exists>t. source_tag (fst (snd (cockpit_auth_choose_login_async env self path hdrs peer
                                 spawned))) = Some t"
  by (simp add: cockpit_auth_choose_login_async_def Let_def spawn_login_async_tagged
        remote_login_async_tagged resume_async_tagged cockpit_auth_none_login_async_def)

lemma login_async_dropped:
  "source_tag (fst (snd (cockpit_auth_login_async env self path hdrs peer r spawned))) = None
     \<longleftrightarrow> \<not> can_start_auth (self\<lparr>startups := startups self + 1\<rparr>) r"
  using choose_login_async_tagged
          [of env "self\<lparr>startups := startups self + 1\<rparr>" path hdrs peer spawned]
  by (auto simp add: cockpit_auth_login_async_def Let_def)

lemma login_async_drop_result:
  "\<not> can_start_auth (self\<lparr>startups := startups self + 1\<rparr>) r \<Longrightarrow>
   cockpit_auth_login_async env self path hdrs peer r spawned
     = (self\<lparr>startups := startups self + 1\<rparr>,
        \<lparr>source_tag = None, op_res = None,
         res_error = Some (COCKPIT_ERROR_FAILED, ''Connection closed by host'')\<rparr>, hdrs)"
  by (simp add: cockpit_auth_login_async_def Let_def)

lemma choose_login_finish_error:
  "res_error res = Some e \<Longrightarrow>
   cockpit_auth_choose_login_finish env self res oh wp wt
     = Some \<lparr>out_creds = None, out_prompt_data = None, out_transport = None,
             out_error = Some e, out_headers = oh, out_self = self\<rparr>"
proof (cases "source_tag res")
  case None
  assume "res_error res = Some e"
  then show ?thesis
    using None
    by (simp add: cockpit_auth_choose_login_finish_def g_simple_async_result_is_valid_def
          cockpit_auth_spawn_login_finish_def)
next
  case (Some t)
  assume "res_error res = Some e"
  then show ?thesis
    using Some
    by (cases t)
       (simp_all add: cockpit_auth_choose_login_finish_def g_simple_async_result_is_valid_def
          cockpit_auth_spawn_login_finish_def cockpit_auth_remote_login_finish_def
          cockpit_auth_none_login_finish_def)
qed

lemma login_finish_error:
  "res_error res = Some e \<Longrightarrow>
   cockpit_auth_login_finish env self res flags oh
     = Some \<lparr>lf_return = PromptData None, lf_error = Some e, lf_headers = oh,
             lf_self = self\<lparr>startups := startups self - 1\<rparr>\<rparr>"
  by (simp add: cockpit_auth_login_finish_def choose_login_finish_error Let_def)

lemma spawn_results_prompt_data:
  "sr_prompt_data (parse_cockpit_spawn_results env self sl response hdrs wp) = Some pd
     \<Longrightarrow> \<exists>p. cockpit_json_get_string env pd ''prompt'' = Some (Some p)"
  by (auto simp add: parse_cockpit_spawn_results_def Let_def split_beta
        split: option.splits json_parse.splits if_splits)

lemma prepare_login_reply_returns:
  "cockpit_json_get_string env pd ''prompt'' = Some (Some p)
     \<Longrightarrow> \<exists>out. cockpit_auth_prepare_login_reply env self pd hdrs ad = Some out"
  by (simp add: cockpit_auth_prepare_login_reply_def Let_def)

lemma spawn_login_finish_returns:
  "res_error res = None \<Longrightarrow> op_res res = Some ad \<Longrightarrow> user_data ad = SpawnLogin sl
     \<Longrightarrow> \<exists>fo. cockpit_auth_spawn_login_finish env self res hdrs wp wt = Some fo"
proof -
  assume a: "res_error res = None" "op_res res = Some ad" "user_data ad = SpawnLogin sl"
  let ?sr = "parse_cockpit_spawn_results env self sl (response_data ad) hdrs wp"
  show ?thesis
  proof (cases "sr_creds ?sr")
    case (Some c)
    then show ?thesis using a by (simp add: cockpit_auth_spawn_login_finish_def Let_def)
  next
    case None
    show ?thesis
    proof (cases "sr_prompt_data ?sr")
      case None
      then show ?thesis
        using a \<open>sr_creds ?sr = None\<close>
        by (simp add: cockpit_auth_spawn_login_finish_def Let_def)
    next
      case (Some pd)
      then obtain p where "cockpit_json_get_string env pd ''prompt'' = Some (Some p)"
        using spawn_results_prompt_data [of env self sl "response_data ad" hdrs wp pd] by auto
      then obtain out where
        "cockpit_auth_prepare_login_reply env (sr_self ?sr) pd (sr_headers ?sr)
           (ad\<lparr>response_data := None\<rparr>) = Some out"
        using prepare_login_reply_returns
                [of env pd p "sr_self ?sr" "sr_headers ?sr" "ad\<lparr>response_data := None\<rparr>"]
        by auto
      then show ?thesis
        using a Some \<open>sr_creds ?sr = None\<close>
        by (cases out) (simp add: cockpit_auth_spawn_login_finish_def Let_def)
    qed
  qed
qed

lemma ssh_prompt_results_prompt:
  "parse_ssh_prompt_results env response = (Some pd, err)
     \<Longrightarrow> \<exists>p. cockpit_json_get_string env pd ''prompt'' = Some (Some p)"
  by (auto simp add: parse_ssh_prompt_results_def split: json_parse.splits option.splits)

lemma remote_login_finish_returns:
  "res_error res = None \<Longrightarrow> op_res res = Some ad \<Longrightarrow> user_data ad = RemoteLogin rl
     \<Longrightarrow> has_transport_result rl \<or> response_data ad \<noteq> None
     \<Longrightarrow> \<exists>fo. cockpit_auth_remote_login_finish env self res hdrs wp wt = Some fo"
proof -
  assume a: "res_error res = None" "op_res res = Some ad" "user_data ad = RemoteLogin rl"
    and b: "has_transport_result rl \<or> response_data ad \<noteq> None"
  show ?thesis
  proof (cases "has_transport_result rl")
    case True
    then show ?thesis using a by (simp add: cockpit_auth_remote_login_finish_def)
  next
    case False
    then obtain response where r: "response_data ad = Some response" using b by auto
    obtain results err where pr: "parse_ssh_prompt_results env response = (results, err)"
      by (cases "parse_ssh_prompt_results env response")
    show ?thesis
    proof (cases results)
      case None
      then show ?thesis
        using a False r pr by (simp add: cockpit_auth_remote_login_finish_def)
    next
      case (Some pd)
      then obtain p where "cockpit_json_get_string env pd ''prompt'' = Some (Some p)"
        using pr ssh_prompt_results_prompt [of env response pd err] by auto
      then obtain out where
        "cockpit_auth_prepare_login_reply env self pd hdrs (ad\<lparr>response_data := None\<rparr>)
           = Some out"
        using prepare_login_reply_returns
                [of env pd p self hdrs "ad\<lparr>response_data := None\<rparr>"]
        by auto
      then show ?thesis
        using a False r pr Some
        by (cases out) (simp add: cockpit_auth_remote_login_finish_def)
    qed
  qed
qed

lemma choose_login_finish_returns:
  "result_complete res
     \<Longrightarrow> \<exists>fo. cockpit_auth_choose_login_finish env self res hdrs wp wt = Some fo"
proof (cases "res_error res")
  case (Some e)
  then show ?thesis
    by (simp add: choose_login_finish_error)
next
  case None
  assume c: "result_complete res"
  then obtain ad where ad: "op_res res = Some ad"
    using None by (auto simp add: result_complete_def split: option.splits)
  show ?thesis
  proof (cases "user_data ad")
    case (SpawnLogin sl)
    then have "source_tag res = Some cockpit_auth_spawn_login_async_tag"
      using c None ad by (simp add: result_complete_def)
    then show ?thesis
      using spawn_login_finish_returns [OF None ad SpawnLogin]
      by (simp add: cockpit_auth_choose_login_finish_def g_simple_async_result_is_valid_def)
  next
    case (RemoteLogin rl)
    then have t: "source_tag res = Some cockpit_auth_remote_login_async_tag"
      and h: "has_transport_result rl \<or> response_data ad \<noteq> None"
      using c None ad by (simp_all add: result_complete_def)
    show ?thesis
      using t remote_login_finish_returns [OF None ad RemoteLogin h]
      by (simp add: cockpit_auth_choose_login_finish_def g_simple_async_result_is_valid_def)
  qed
qed

lemma login_finish_returns:
  "result_complete res \<Longrightarrow> \<exists>out. cockpit_auth_login_finish env self res flags oh = Some out"
proof -
  assume "result_complete res"
  then obtain fo where "cockpit_auth_choose_login_finish env self res oh True True = Some fo"
    using choose_login_finish_returns [of res env self oh True True] by auto
  then show ?thesis
    by (simp add: cockpit_auth_login_finish_def Let_def split_beta split: option.splits)
qed


section \<open>Sessions and cookies\<close>

lemma replace_None_iff: "g_hash_table_replace t k v = None \<longleftrightarrow> t = None"
  by (simp add: g_hash_table_replace_def)

lemma build_gssapi_None_iff:
  "build_gssapi_output_header env hdrs results = None \<longleftrightarrow> hdrs = None"
  by (simp add: build_gssapi_output_header_def replace_None_iff split: option.splits)

lemma spawn_results_headers:
  "sr_headers (parse_cockpit_spawn_results env self sl response hdrs wp) = None
     \<longleftrightarrow> hdrs = None"
  by (simp add: parse_cockpit_spawn_results_def Let_def build_gssapi_None_iff split_beta
        split: option.splits json_parse.splits)

lemma spawn_login_finish_creds_headers:
  "cockpit_auth_spawn_login_finish env self res hdrs wp wt = Some fo
     \<Longrightarrow> out_creds fo \<noteq> None \<Longrightarrow> (out_headers fo = None \<longleftrightarrow> hdrs = None)"
  by (auto simp add: cockpit_auth_spawn_login_finish_def Let_def spawn_results_headers
        split: option.splits login_data.splits prod.splits)

lemma remote_login_finish_creds_headers:
  "cockpit_auth_remote_login_finish env self res hdrs wp wt = Some fo
     \<Longrightarrow> out_creds fo \<noteq> None \<Longrightarrow> (out_headers fo = None \<longleftrightarrow> hdrs = None)"
  by (auto simp add: cockpit_auth_remote_login_finish_def Let_def
        split: option.splits login_data.splits prod.splits if_splits)

lemma choose_login_finish_creds_headers:
  "cockpit_auth_choose_login_finish env self res hdrs wp wt = Some fo
     \<Longrightarrow> out_creds fo \<noteq> None \<Longrightarrow> (out_headers fo = None \<longleftrightarrow> hdrs = None)"
  by (auto simp add: cockpit_auth_choose_login_finish_def cockpit_auth_none_login_finish_def
        dest: spawn_login_finish_creds_headers remote_login_finish_creds_headers
        split: if_splits)

lemma login_finish_creds:
  assumes "cockpit_auth_login_finish env self res flags oh = Some out"
      and "lf_return out = CredsJson c"
  shows "\<exists>fo. cockpit_auth_choose_login_finish env self res oh True True = Some fo
           \<and> out_creds fo = Some c
           \<and> lf_self out
               = (out_self fo)
                   \<lparr>startups := startups (out_self fo) - 1,
                    nonce_seed := nonce_seed (out_self fo) + 1,
                    authenticated :=
                      (authenticated (out_self fo))
                        (''v=2;k='' @ g_compute_hmac env (nonce_seed (out_self fo)) \<mapsto>
                           \<lparr>cookie = ''v=2;k='' @ g_compute_hmac env (nonce_seed (out_self fo)),
                            creds = c, service = out_transport fo, timeout_tag = True\<rparr>)\<rparr>
           \<and> lf_headers out
               = map_option
                   (\<lambda>m. m(''Set-Cookie'' \<mapsto>
                           set_cookie_header (cred_application c)
                             (g_base64_encode
                                (''v=2;k='' @ g_compute_hmac env (nonce_seed (out_self fo))))
                             (COCKPIT_AUTH_COOKIE_INSECURE \<notin> flags)))
                   (out_headers fo)"
  using assms
  by (auto simp add: cockpit_auth_login_finish_def Let_def cockpit_auth_nonce_def
        split: option.splits)

lemma set_cookie_header_spaces:
  "filter (\<lambda>ch. ch \<noteq> CHR '' '') (set_cookie_header app b secure)
     = filter (\<lambda>ch. ch \<noteq> CHR '' '') (spec_set_cookie app b secure)"
  by (simp add: set_cookie_header_def spec_set_cookie_def)

lemma login_finish_session:
  fixes env :: "'j cockpit_env"
  assumes "cockpit_auth_login_finish env self res flags oh = Some out"
      and "lf_return out = CredsJson c"
  shows "\<exists>session. authenticated (lf_self out) (session_cookie env (lf_self out)) = Some session
           \<and> cookie session = session_cookie env (lf_self out) \<and> creds session = c
           \<and> authenticated (cockpit_authenticated_destroy (lf_self out) session)
                (session_cookie env (lf_self out)) = None"
proof -
  obtain fo :: "'j finish_out" where fo: "lf_self out
               = (out_self fo)
                   \<lparr>startups := startups (out_self fo) - 1,
                    nonce_seed := nonce_seed (out_self fo) + 1,
                    authenticated :=
                      (authenticated (out_self fo))
                        (''v=2;k='' @ g_compute_hmac env (nonce_seed (out_self fo)) \<mapsto>
                           \<lparr>cookie = ''v=2;k='' @ g_compute_hmac env (nonce_seed (out_self fo)),
                            creds = c, service = out_transport fo, timeout_tag = True\<rparr>)\<rparr>"
    using login_finish_creds [OF assms] by blast
  show ?thesis
    by (simp add: fo session_cookie_def cockpit_authenticated_destroy_def)
qed

lemma login_finish_set_cookie:
  assumes "cockpit_auth_login_finish env self res flags (Some m) = Some out"
      and "lf_return out = CredsJson c"
  shows "\<exists>m'. lf_headers out = Some m'
           \<and> m' ''Set-Cookie''
               = Some (set_cookie_header (cred_application c)
                         (g_base64_encode (session_cookie env (lf_self out)))
                         (COCKPIT_AUTH_COOKIE_INSECURE \<notin> flags))"
proof -
  obtain fo where fo: "cockpit_auth_choose_login_finish env self res (Some m) True True = Some fo"
      "out_creds fo = Some c"
      "lf_self out
               = (out_self fo)
                   \<lparr>startups := startups (out_self fo) - 1,
                    nonce_seed := nonce_seed (out_self fo) + 1,
                    authenticated :=
                      (authenticated (out_self fo))
                        (''v=2;k='' @ g_compute_hmac env (nonce_seed (out_self fo)) \<mapsto>
                           \<lparr>cookie = ''v=2;k='' @ g_compute_hmac env (nonce_seed (out_self fo)),
                            creds = c, service = out_transport fo, timeout_tag = True\<rparr>)\<rparr>"
      "lf_headers out
               = map_option
                   (\<lambda>m. m(''Set-Cookie'' \<mapsto>
                           set_cookie_header (cred_application c)
                             (g_base64_encode
                                (''v=2;k='' @ g_compute_hmac env (nonce_seed (out_self fo))))
                             (COCKPIT_AUTH_COOKIE_INSECURE \<notin> flags)))
                   (out_headers fo)"
    using login_finish_creds [OF assms] by blast
  have "out_headers fo \<noteq> None"
    using choose_login_finish_creds_headers [OF fo(1)] fo(2) by simp
  then obtain m0 where "out_headers fo = Some m0" by auto
  then show ?thesis
    using fo(3,4) by (simp add: session_cookie_def)
qed


text \<open>
  C3: \<open>cockpit_auth_login_async\<close> adds one to \<open>startups\<close>, and does so before
  \<open>can_start_auth\<close> is asked (a request is dropped, with a result that has no tag,
  exactly when the incremented state is refused); \<open>cockpit_auth_login_finish\<close> takes
  one off, whatever result it is given and whatever it returns. So after a begin and
  its finish \<open>startups\<close> is what it was before the begin; for a dropped request the
  whole manager is.
\<close>

theorem login_startups_balance:
  "startups (fst (cockpit_auth_login_async env self path hdrs peer r spawned))
     = startups self + 1
   \<and> (source_tag (fst (snd (cockpit_auth_login_async env self path hdrs peer r spawned)))
         = None
        \<longleftrightarrow> \<not> can_start_auth (self\<lparr>startups := startups self + 1\<rparr>) r)
   \<and> (cockpit_auth_login_finish env self res flags oh = Some out
        \<longrightarrow> startups (lf_self out) = startups self - 1)
   \<and> (cockpit_auth_login_finish env
          (fst (cockpit_auth_login_async env self path hdrs peer r spawned)) res flags oh
          = Some out
        \<longrightarrow> startups (lf_self out) = startups self)
   \<and> (\<not> can_start_auth (self\<lparr>startups := startups self + 1\<rparr>) r
        \<longrightarrow> cockpit_auth_login_finish env
              (fst (cockpit_auth_login_async env self path hdrs peer r spawned))
              (fst (snd (cockpit_auth_login_async env self path hdrs peer r spawned))) flags oh
            = Some \<lparr>lf_return = PromptData None,
                    lf_error = Some (COCKPIT_ERROR_FAILED, ''Connection closed by host''),
                    lf_headers = oh, lf_self = self\<rparr>)
   \<and> (result_complete res
        \<longrightarrow> (\<exists>out'. cockpit_auth_login_finish env self res flags oh = Some out'))"
proof (intro conjI impI)
  show "startups (fst (cockpit_auth_login_async env self path hdrs peer r spawned))
          = startups self + 1"
    by (rule login_async_startups)
  show "source_tag (fst (snd (cockpit_auth_login_async env self path hdrs peer r spawned)))
          = None
        \<longleftrightarrow> \<not> can_start_auth (self\<lparr>startups := startups self + 1\<rparr>) r"
    by (rule login_async_dropped)
  show "startups (lf_self out) = startups self - 1"
    if "cockpit_auth_login_finish env self res flags oh = Some out"
    using that by (rule login_finish_startups)
  show "startups (lf_self out) = startups self"
    if "cockpit_auth_login_finish env
          (fst (cockpit_auth_login_async env self path hdrs peer r spawned)) res flags oh
          = Some out"
    using login_finish_startups [OF that] by (simp add: login_async_startups)
  show "cockpit_auth_login_finish env
              (fst (cockpit_auth_login_async env self path hdrs peer r spawned))
              (fst (snd (cockpit_auth_login_async env self path hdrs peer r spawned))) flags oh
            = Some \<lparr>lf_return = PromptData None,
                    lf_error = Some (COCKPIT_ERROR_FAILED, ''Connection closed by host''),
                    lf_headers = oh, lf_self = self\<rparr>"
    if "\<not> can_start_auth (self\<lparr>startups := startups self + 1\<rparr>) r"
    using that by (simp add: login_async_drop_result login_finish_error)
  show "\<exists>out'. cockpit_auth_login_finish env self res flags oh = Some out'"
    if "result_complete res"
    using that by (rule login_finish_returns)
qed

theorem login_startups_balance_witness:
  "startups (fst (cockpit_auth_login_async (test_env test_replies) test_auth ''/cockpit/login''
       [''Authorization'' \<mapsto> ''Basic dXNlcjpwd2Q=''] (Some ''peer'') 0 (Some (42, 5, 6)))) = 1
   \<and> result_complete (test_result [(''user'', JsonString ''user'')])
   \<and> startups (lf_self (the (cockpit_auth_login_finish (test_env test_replies)
         (fst (cockpit_auth_login_async (test_env test_replies) test_auth ''/cockpit/login''
            [''Authorization'' \<mapsto> ''Basic dXNlcjpwd2Q=''] (Some ''peer'') 0 (Some (42, 5, 6))))
         (test_result [(''user'', JsonString ''user'')]) {} None))) = 0
   \<and> \<not> can_start_auth (throttle 3 2 2 100) 0
   \<and> cockpit_auth_login_finish (test_env test_replies)
         (fst (cockpit_auth_login_async (test_env test_replies) (throttle 2 2 2 100)
            ''/cockpit/login'' Map.empty None 0 None))
         (fst (snd (cockpit_auth_login_async (test_env test_replies) (throttle 2 2 2 100)
            ''/cockpit/login'' Map.empty None 0 None))) {} None
       = Some \<lparr>lf_return = PromptData None,
               lf_error = Some (COCKPIT_ERROR_FAILED, ''Connection closed by host''),
               lf_headers = None, lf_self = throttle 2 2 2 100\<rparr>"
proof -
  let ?E = "test_env test_replies"
  let ?h = "[''Authorization'' \<mapsto> ''Basic dXNlcjpwd2Q='']"
  let ?res = "test_result [(''user'', JsonString ''user'')]"
  let ?s1 = "fst (cockpit_auth_login_async ?E test_auth ''/cockpit/login'' ?h (Some ''peer'') 0
                    (Some (42, 5, 6)))"
  have c: "result_complete ?res"
    by (simp add: result_complete_def test_result_def test_ad_def)
  have t: "\<not> can_start_auth ((throttle 2 2 2 100)\<lparr>startups := startups (throttle 2 2 2 100) + 1\<rparr>) 0"
    by (simp add: can_start_auth_def throttle_def test_auth_def)
  have t2: "\<not> can_start_auth (throttle 3 2 2 100) 0"
    by (simp add: can_start_auth_def throttle_def test_auth_def)
  have s0: "startups test_auth = 0"
    by (simp add: test_auth_def)
  obtain out where
    o: "cockpit_auth_login_finish ?E ?s1 ?res {} None = Some out"
    using login_startups_balance
            [where env = ?E and self = ?s1 and path = "[]" and hdrs = Map.empty and peer = None
               and r = 0 and spawned = None and res = ?res and flags = "{}" and oh = None
               and out = "the (cockpit_auth_login_finish ?E ?s1 ?res {} None)"] c
    by blast
  have a: "startups ?s1 = 1"
    using login_startups_balance
            [where env = ?E and self = test_auth and path = "''/cockpit/login''" and hdrs = ?h
               and peer = "Some ''peer''" and r = 0 and spawned = "Some (42, 5, 6)"] s0
    by simp
  have b: "startups (lf_self out) = 0"
    using login_startups_balance
            [where env = ?E and self = test_auth and path = "''/cockpit/login''" and hdrs = ?h
               and peer = "Some ''peer''" and r = 0 and spawned = "Some (42, 5, 6)"
               and res = ?res and flags = "{}" and oh = None and out = out] o s0
    by simp
  have d: "cockpit_auth_login_finish ?E
         (fst (cockpit_auth_login_async ?E (throttle 2 2 2 100)
            ''/cockpit/login'' Map.empty None 0 None))
         (fst (snd (cockpit_auth_login_async ?E (throttle 2 2 2 100)
            ''/cockpit/login'' Map.empty None 0 None))) {} None
       = Some \<lparr>lf_return = PromptData None,
               lf_error = Some (COCKPIT_ERROR_FAILED, ''Connection closed by host''),
               lf_headers = None, lf_self = throttle 2 2 2 100\<rparr>"
    using login_startups_balance
            [where env = ?E and self = "throttle 2 2 2 100" and path = "''/cockpit/login''"
               and hdrs = Map.empty and peer = None and r = 0 and spawned = None
               and flags = "{}" and oh = None] t
    by simp
  show ?thesis
    using a b c d o t2 by simp
qed



text \<open>
  C2: when \<open>cockpit_auth_login_finish\<close> returns credentials, the table of sessions
  of the manager it leaves holds, under the cookie \<open>v=2;k=\<close> followed by the nonce just
  drawn, a session with that cookie and those credentials, and
  \<open>cockpit_authenticated_destroy\<close> of that session leaves the cookie absent. With a
  table of headers supplied, \<open>Set-Cookie\<close> is set in it to the application, \<open>=\<close>, the
  base64 text of the cookie and the attributes, with \<open>Secure\<close> exactly when
  \<open>COCKPIT_AUTH_COOKIE_INSECURE\<close> is not among the flags. The text of the header
  is \<open>app=b64; Path=/;  Secure; HttpOnly\<close> or \<open>app=b64; Path=/;  HttpOnly\<close> (the format
  puts two spaces after \<open>Path=/;\<close>), which is the specification's form up to spaces.
\<close>

theorem login_finish_inserts_session:
  fixes env :: "'j cockpit_env"
  shows
  "(cockpit_auth_login_finish env self res flags oh = Some out \<and> lf_return out = CredsJson c
      \<longrightarrow> (\<exists>session.
             authenticated (lf_self out)
               (''v=2;k='' @ g_compute_hmac env (nonce_seed (lf_self out) - 1)) = Some session
             \<and> cookie session = ''v=2;k='' @ g_compute_hmac env (nonce_seed (lf_self out) - 1)
             \<and> creds session = c
             \<and> authenticated (cockpit_authenticated_destroy (lf_self out) session)
                  (cookie session) = None)
          \<and> (\<forall>m. oh = Some m \<longrightarrow>
                (\<exists>m'. lf_headers out = Some m'
                   \<and> m' ''Set-Cookie''
                       = Some (set_cookie_header (cred_application c)
                                 (g_base64_encode
                                    (''v=2;k=''
                                       @ g_compute_hmac env (nonce_seed (lf_self out) - 1)))
                                 (COCKPIT_AUTH_COOKIE_INSECURE \<notin> flags)))))
   \<and> set_cookie_header app b True = app @ ''='' @ b @ ''; Path=/;  Secure; HttpOnly''
   \<and> set_cookie_header app b False = app @ ''='' @ b @ ''; Path=/;  HttpOnly''
   \<and> filter (\<lambda>ch. ch \<noteq> CHR '' '') (set_cookie_header app b secure)
       = filter (\<lambda>ch. ch \<noteq> CHR '' '') (spec_set_cookie app b secure)"
proof (intro conjI impI allI)
  assume a: "cockpit_auth_login_finish env self res flags oh = Some out
               \<and> lf_return out = CredsJson c"
  show "\<exists>session.
          authenticated (lf_self out)
            (''v=2;k='' @ g_compute_hmac env (nonce_seed (lf_self out) - 1)) = Some session
          \<and> cookie session = ''v=2;k='' @ g_compute_hmac env (nonce_seed (lf_self out) - 1)
          \<and> creds session = c
          \<and> authenticated (cockpit_authenticated_destroy (lf_self out) session)
               (cookie session) = None"
    using login_finish_session [of env self res flags oh out c] a
    by (auto simp add: session_cookie_def)
  fix m
  assume "oh = Some m"
  then show "\<exists>m'. lf_headers out = Some m'
           \<and> m' ''Set-Cookie''
               = Some (set_cookie_header (cred_application c)
                         (g_base64_encode
                            (''v=2;k='' @ g_compute_hmac env (nonce_seed (lf_self out) - 1)))
                         (COCKPIT_AUTH_COOKIE_INSECURE \<notin> flags))"
    using login_finish_set_cookie [of env self res flags m out c] a
    by (simp add: session_cookie_def)
next
  show "set_cookie_header app b True = app @ ''='' @ b @ ''; Path=/;  Secure; HttpOnly''"
    by (simp add: set_cookie_header_def)
  show "set_cookie_header app b False = app @ ''='' @ b @ ''; Path=/;  HttpOnly''"
    by (simp add: set_cookie_header_def)
  show "filter (\<lambda>ch. ch \<noteq> CHR '' '') (set_cookie_header app b secure)
       = filter (\<lambda>ch. ch \<noteq> CHR '' '') (spec_set_cookie app b secure)"
    by (rule set_cookie_header_spaces)
qed

theorem login_finish_inserts_session_witness:
  "lf_return (the (cockpit_auth_login_finish (test_env test_replies) test_auth
       (test_result [(''user'', JsonString ''user'')]) {} (Some Map.empty)))
     = CredsJson \<lparr>cred_user = ''user'', cred_application = ''cockpit'',
                  cred_login_data = Some (json_text [(''user'', JsonString ''user'')]),
                  cred_password = Some ''pwd'', cred_rhost = Some ''peer'',
                  cred_gssapi = None, cred_csrf_token = ''a91c''\<rparr>
   \<and> map_option cookie
        (authenticated
           (lf_self (the (cockpit_auth_login_finish (test_env test_replies) test_auth
              (test_result [(''user'', JsonString ''user'')]) {} (Some Map.empty))))
           ''v=2;k=07de'')
       = Some ''v=2;k=07de''
   \<and> the (lf_headers (the (cockpit_auth_login_finish (test_env test_replies) test_auth
          (test_result [(''user'', JsonString ''user'')]) {} (Some Map.empty)))) ''Set-Cookie''
       = Some ''cockpit=dj0yO2s9MDdkZQ==; Path=/;  Secure; HttpOnly''
   \<and> the (lf_headers (the (cockpit_auth_login_finish (test_env test_replies) test_auth
          (test_result [(''user'', JsonString ''user'')]) {COCKPIT_AUTH_COOKIE_INSECURE}
          (Some Map.empty)))) ''Set-Cookie''
       = Some ''cockpit=dj0yO2s9MDdkZQ==; Path=/;  HttpOnly''"
proof -
  let ?E = "test_env test_replies"
  let ?res = "test_result [(''user'', JsonString ''user'')]"
  let ?c = "\<lparr>cred_user = ''user'', cred_application = ''cockpit'',
             cred_login_data = Some (json_text [(''user'', JsonString ''user'')]),
             cred_password = Some ''pwd'', cred_rhost = Some ''peer'',
             cred_gssapi = None, cred_csrf_token = ''a91c''\<rparr>"
  let ?s = "test_auth\<lparr>startups := - 1, nonce_seed := 3,
              authenticated := [''v=2;k=07de'' \<mapsto>
                \<lparr>cookie = ''v=2;k=07de'', creds = ?c,
                 service = Some (PipeTransport 42 6 5), timeout_tag = True\<rparr>]\<rparr>"
  have ev: "cockpit_auth_login_finish ?E test_auth ?res flags (Some Map.empty)
       = Some \<lparr>lf_return = CredsJson ?c, lf_error = None,
               lf_headers = Some [''Set-Cookie'' \<mapsto>
                  set_cookie_header ''cockpit'' (g_base64_encode ''v=2;k=07de'')
                    (COCKPIT_AUTH_COOKIE_INSECURE \<notin> flags)],
               lf_self = ?s\<rparr>" for flags
    by (simp add: cockpit_auth_login_finish_def cockpit_auth_choose_login_finish_def
        g_simple_async_result_is_valid_def cockpit_auth_spawn_login_finish_def
        parse_cockpit_spawn_results_def create_creds_for_spawn_authenticated_def
        cockpit_auth_nonce_def build_gssapi_output_header_def parse_basic_auth_password_def
        c_str_def g_strndup_def test_nonces_def
        test_result_def test_ad_def test_sl_def test_env_def test_auth_def test_replies_def
        test_json_parse_def test_json_get_string_def json_text_def json_quote_def Let_def)
  have n: "g_compute_hmac ?E (nonce_seed ?s - 1) = ''07de''"
    by (simp add: test_env_def test_nonces_def test_auth_def)
  have b: "g_base64_encode ''v=2;k=07de'' = ''dj0yO2s9MDdkZQ==''"
    by (simp add: base64_digit_def base64_alphabet_def)
  show ?thesis
    using login_finish_inserts_session
            [where env = ?E and self = test_auth and res = ?res and flags = "{}"
               and oh = "Some Map.empty" and c = ?c and app = "''cockpit''"
               and b = "''dj0yO2s9MDdkZQ==''" and secure = True
               and out = "the (cockpit_auth_login_finish ?E test_auth ?res {} (Some Map.empty))"]
          ev [of "{}"] ev [of "{COCKPIT_AUTH_COOKIE_INSECURE}"] n b
    by auto
qed


end
